theory Spec2Isabelle
  imports Complex_Main
begin

section \<open>Values, completions and the runtime the module runs in\<close>

text \<open>
  The module \<^verbatim>\<open>src/utils/timers.ts\<close> keeps its registries and its two rebindable
  function slots in module-level variables. The embedding threads one \<open>state\<close> record
  through every operation. Conventions:
  \<^item> A JavaScript number that holds a time is a double: a \<open>real\<close>, with every arithmetic
    result rounded by \<open>round_double\<close>. Heap sizes are integer byte counts (\<open>int\<close>, sampled
    from a non-negative \<open>heapUsed\<close>), on which double arithmetic is exact below \<open>2^53\<close>.
  \<^item> \<open>timers\<close> and \<open>spans\<close> are objects used as dictionaries: a map of the own keys
    together with the object a write to \<open>__proto__\<close> has installed as prototype
    (\<open>timers_proto\<close>, \<open>spans_proto\<close>; \<open>None\<close> stands for \<open>Object.prototype\<close>).
  \<^item> A string is never longer than \<open>max_string_length\<close>; building a longer one raises
    \<open>RangeError\<close>.
  \<^item> A thrown value is a \<open>jsval\<close>; a call that can throw returns an \<open>outcome\<close>.
  \<^item> Plugin objects live in a store addressed by references, so that "the same
    reference" is equality of addresses.
\<close>

datatype jsval =
    Undefined
  | Num int
  | Str string
  | Obj nat
  | Fn nat
  | FnObj nat
  | TimedHook nat string string nat
  | Continuation string
  | Promise nat
  | RangeError
  | TypeError

text \<open>
  \<open>Fn f\<close> is a user-supplied function with identity \<open>f\<close> and no members of its own;
  \<open>FnObj r\<close> is a user-supplied function whose members are those of the object at
  reference \<open>r\<close>. \<open>TimedHook plugin hook timerLabel timedPlugin\<close> is the closure built
  at line 115 of the source; its four components are the variables it captures.
  \<open>Continuation timerLabel\<close> is the arrow function of line 121, which captures
  \<open>timerLabel\<close> only. \<open>Obj r\<close> and \<open>Promise p\<close> are references into the stores below;
  \<open>Promise p\<close> is a native promise, with the native \<open>then\<close>.
\<close>

datatype 'a outcome = Threw jsval | Returned 'a

text \<open>A reaction registered by the native \<open>then\<close>: the callback of line 121.\<close>

datatype reaction = EndAsync string

record promise_cell =
  settled :: "jsval outcome option"
  reactions :: "(reaction \<times> nat) list"

datatype tracer_call =
    StartSpan string nat
  | SetAttributes nat "(string \<times> jsval) list"
  | SetAttribute nat string jsval
  | EndSpan nat

type_synonym StartTime = "real \<times> real"

record Timer =
  memory :: int
  startMemory :: int
  startTime :: StartTime
  time :: real
  totalMemory :: int

datatype timer_fn =
    NOOP
  | F_timeStartImpl
  | F_timeEndImpl
  | F_timeStartTraceImpl
  | F_timeEndTraceImpl

datatype start_helper = StartStub | StartHrtime | StartPerformanceNow
datatype elapsed_helper = ElapsedStub | ElapsedHrtime | ElapsedPerformanceNow
datatype memory_helper = MemoryStub | MemoryHeapUsed

text \<open>
  What the host offers: which of \<open>process.hrtime\<close>, \<open>performance.now\<close> and
  \<open>process.memoryUsage\<close> exist, what they read at this moment, and the text that
  interpolation into a template gives for an object, a function or a large number.
\<close>

record runtime =
  has_hrtime :: bool
  has_performance_now :: bool
  has_memoryUsage :: bool
  hrtime_now :: "int \<times> int"
  performance_now :: real
  heapUsed :: nat
  to_text :: "jsval \<Rightarrow> string"

record state =
  getStartTime :: start_helper
  getElapsedTime :: elapsed_helper
  getMemory :: memory_helper
  timers :: "string \<rightharpoonup> Timer"
  timers_proto :: "Timer option"
  spans :: "string \<rightharpoonup> nat"
  spans_proto :: "nat option"
  timeStart :: timer_fn
  timeEnd :: timer_fn
  env :: runtime
  tracer_calls :: "tracer_call list"
  next_span :: nat
  objects :: "nat \<Rightarrow> (string \<times> jsval) list"
  next_object :: nat
  promises :: "nat \<Rightarrow> promise_cell"
  next_promise :: nat

text \<open>The module-level initialisers of lines 26 to 31 and 95 to 96.\<close>

definition initial_state :: "runtime \<Rightarrow> state" where
  "initial_state rt =
     \<lparr> getStartTime = StartStub, getElapsedTime = ElapsedStub, getMemory = MemoryStub,
       timers = Map.empty, timers_proto = None, spans = Map.empty, spans_proto = None,
       timeStart = NOOP, timeEnd = NOOP,
       env = rt, tracer_calls = [], next_span = 0,
       objects = (\<lambda>_. []), next_object = 0,
       promises = (\<lambda>_. \<lparr> settled = None, reactions = [] \<rparr>), next_promise = 0 \<rparr>"

section \<open>Double arithmetic\<close>

text \<open>
  Rounding to the nearest double, ties to the even significand: 53 significant bits,
  with the spacing of the subnormal range below \<open>2^-1022\<close>. A result beyond the largest
  finite double would be an infinity; the times of this module stay far from it and
  the model does not represent it.
\<close>

definition round_half_even :: "real \<Rightarrow> int" where
  "round_half_even y =
     (let f = \<lfloor>y\<rfloor>; d = y - of_int f
      in if d < 1 / 2 then f else if 1 / 2 < d then f + 1 else if even f then f else f + 1)"

definition ulp_exponent :: "real \<Rightarrow> int" where
  "ulp_exponent x = max \<lfloor>log 2 \<bar>x\<bar>\<rfloor> (- 1022) - 52"

definition round_double :: "real \<Rightarrow> real" where
  "round_double x =
     (if x = 0 then 0
      else of_int (round_half_even (x / 2 powr of_int (ulp_exponent x))) *
           2 powr of_int (ulp_exponent x))"

definition dadd :: "real \<Rightarrow> real \<Rightarrow> real" where
  "dadd a b = round_double (a + b)"

definition dsub :: "real \<Rightarrow> real \<Rightarrow> real" where
  "dsub a b = round_double (a - b)"

definition dmul :: "real \<Rightarrow> real \<Rightarrow> real" where
  "dmul a b = round_double (a * b)"

definition ddiv :: "real \<Rightarrow> real \<Rightarrow> real" where
  "ddiv a b = round_double (a / b)"

section \<open>TimeSource\<close>

definition normalizeHrTime :: "real \<times> real \<Rightarrow> real" where
  "normalizeHrTime t = dadd (dmul (fst t) 1000) (ddiv (snd t) 1000000)"

text \<open>
  \<open>process.hrtime(previous)\<close> is the host's: the difference to \<open>previous\<close>, with a
  borrow when the nanosecond part is negative.
\<close>

definition hrtime_since :: "runtime \<Rightarrow> StartTime \<Rightarrow> real \<times> real" where
  "hrtime_since rt previous =
     (let sec = dsub (real_of_int (fst (hrtime_now rt))) (fst previous);
          nsec = dsub (real_of_int (snd (hrtime_now rt))) (snd previous)
      in if nsec < 0 then (dsub sec 1, dadd nsec 1000000000) else (sec, nsec))"

definition setTimeHelpers :: "state \<Rightarrow> state" where
  "setTimeHelpers st =
     (let st1 =
        (if has_hrtime (env st)
         then st\<lparr> getStartTime := StartHrtime, getElapsedTime := ElapsedHrtime \<rparr>
         else if has_performance_now (env st)
         then st\<lparr> getStartTime := StartPerformanceNow, getElapsedTime := ElapsedPerformanceNow \<rparr>
         else st)
      in if has_memoryUsage (env st1) then st1\<lparr> getMemory := MemoryHeapUsed \<rparr> else st1)"

definition call_getStartTime :: "state \<Rightarrow> StartTime" where
  "call_getStartTime st =
     (case getStartTime st of
        StartStub \<Rightarrow> (0, 0)
      | StartHrtime \<Rightarrow>
          (real_of_int (fst (hrtime_now (env st))), real_of_int (snd (hrtime_now (env st))))
      | StartPerformanceNow \<Rightarrow> (performance_now (env st), 0))"

definition call_getElapsedTime :: "state \<Rightarrow> StartTime \<Rightarrow> real" where
  "call_getElapsedTime st previous =
     (case getElapsedTime st of
        ElapsedStub \<Rightarrow> 0
      | ElapsedHrtime \<Rightarrow> normalizeHrTime (hrtime_since (env st) previous)
      | ElapsedPerformanceNow \<Rightarrow> dsub (performance_now (env st)) (fst previous))"

definition call_getMemory :: "state \<Rightarrow> int" where
  "call_getMemory st =
     (case getMemory st of
        MemoryStub \<Rightarrow> 0
      | MemoryHeapUsed \<Rightarrow> int (heapUsed (env st)))"

section \<open>LabelFormatter\<close>

text \<open>
  The longest string of Node.js on a 64-bit host (V8). Other engines have another
  limit; the properties below use only that there is one.
\<close>

definition max_string_length :: nat where
  "max_string_length = 2 ^ 29 - 24"

text \<open>
  \<open>String.prototype.repeat\<close> raises \<open>RangeError\<close> on a negative count, and when the
  result would be longer than a string can be; the default branch of the \<open>switch\<close>
  reaches it with \<open>level - 4\<close>. A template literal is the concatenation of its parts
  and raises \<open>RangeError\<close> in the same way.
\<close>

definition repeat_str :: "string \<Rightarrow> int \<Rightarrow> jsval + string" where
  "repeat_str s n =
     (if n < 0 then Inl RangeError
      else if int max_string_length < int (length s) * n then Inl RangeError
      else Inr (concat (replicate (nat n) s)))"

definition template :: "string list \<Rightarrow> jsval + string" where
  "template parts =
     (if max_string_length < length (concat parts) then Inl RangeError else Inr (concat parts))"

definition getPersistedLabel :: "string \<Rightarrow> int \<Rightarrow> jsval + string" where
  "getPersistedLabel label level =
     (if level = 1 then template [''# '', label]
      else if level = 2 then template [''## '', label]
      else if level = 3 then Inr label
      else (case repeat_str ''  '' (level - 4) of
              Inl e \<Rightarrow> Inl e
            | Inr pad \<Rightarrow> template [pad, ''- '', label]))"

text \<open>A parameter declared \<open>level = 3\<close> takes 3 when the argument is left out.\<close>

definition level_default :: "int option \<Rightarrow> int" where
  "level_default level = (case level of None \<Rightarrow> 3 | Some l \<Rightarrow> l)"

section \<open>Objects used as dictionaries\<close>

text \<open>
  \<open>obj.hasOwnProperty(label)\<close> first reads the member \<open>hasOwnProperty\<close> of the object.
  Once the module has stored a record or a span under the own key \<open>hasOwnProperty\<close>,
  that value is found instead of the method and the call is a \<open>TypeError\<close>. Otherwise
  the method is inherited (also through a record or span installed as prototype) and
  tells whether \<open>label\<close> is an own key.
\<close>

definition obj_has_own :: "(string \<rightharpoonup> 'v) \<Rightarrow> string \<Rightarrow> jsval + bool" where
  "obj_has_own own label =
     (case own ''hasOwnProperty'' of
        Some _ \<Rightarrow> Inl TypeError
      | None \<Rightarrow> Inr (own label \<noteq> None))"

text \<open>
  \<open>obj[label]\<close>, as far as it yields something the module stored: the own value, or for
  \<open>__proto__\<close> without an own key the installed prototype. Any other read yields
  \<open>undefined\<close> or a member of \<open>Object.prototype\<close> or of the prototype object, none of
  which is a record or a span: \<open>None\<close>.
\<close>

definition obj_get :: "(string \<rightharpoonup> 'v) \<Rightarrow> 'v option \<Rightarrow> string \<Rightarrow> 'v option" where
  "obj_get own proto label =
     (case own label of
        Some v \<Rightarrow> Some v
      | None \<Rightarrow> (if label = ''__proto__'' then proto else None))"

section \<open>TimerRegistry\<close>

text \<open>
  Both functions format the label first and test the registry next, so a \<open>RangeError\<close>
  or \<open>TypeError\<close> leaves the state as it was: \<open>Inl e\<close> means "throws \<open>e\<close>, nothing
  changed". Line 64 creates an own key, except for the key \<open>__proto__\<close>: that
  assignment installs the new record as prototype of \<open>timers\<close> and creates no own key;
  lines 73 and 74 then read \<open>timers['__proto__']\<close>, which is that record. The two
  \<open>undefined as never\<close> placeholders of a new record are overwritten by lines 73 and 74
  before the function returns.
\<close>

definition timeStartImpl :: "string \<Rightarrow> int option \<Rightarrow> state \<Rightarrow> jsval + state" where
  "timeStartImpl label level st =
     (case getPersistedLabel label (level_default level) of
        Inl e \<Rightarrow> Inl e
      | Inr key \<Rightarrow>
          (case obj_has_own (timers st) key of
             Inl e \<Rightarrow> Inl e
           | Inr present \<Rightarrow>
               (let currentMemory = call_getMemory st;
                    stamp = (\<lambda>t. t\<lparr> startTime := call_getStartTime st,
                                    startMemory := currentMemory \<rparr>);
                    fresh = \<lparr> memory = 0, startMemory = 0, startTime = (0, 0),
                              time = 0, totalMemory = 0 \<rparr>
                in if present
                   then Inr (st\<lparr> timers := (timers st)(key := map_option stamp (timers st key)) \<rparr>)
                   else if key = ''__proto__''
                   then Inr (st\<lparr> timers_proto := Some (stamp fresh) \<rparr>)
                   else Inr (st\<lparr> timers := (timers st)(key \<mapsto> stamp fresh) \<rparr>))))"

definition timeEndImpl :: "string \<Rightarrow> int option \<Rightarrow> state \<Rightarrow> jsval + state" where
  "timeEndImpl label level st =
     (case getPersistedLabel label (level_default level) of
        Inl e \<Rightarrow> Inl e
      | Inr key \<Rightarrow>
          (case obj_has_own (timers st) key of
             Inl e \<Rightarrow> Inl e
           | Inr present \<Rightarrow>
               (if present
                then (let currentMemory = call_getMemory st
                      in Inr (st\<lparr> timers := (timers st)(key := map_option
                           (\<lambda>t. t\<lparr> time := dadd (time t) (call_getElapsedTime st (startTime t)),
                                   totalMemory := max (totalMemory t) currentMemory,
                                   memory := memory t + (currentMemory - startMemory t) \<rparr>)
                           (timers st key)) \<rparr>))
                else Inr st)))"

text \<open>
  \<open>Object.entries\<close> lists the own keys. The result object is filled by assignment, so
  an entry for \<open>__proto__\<close> would become its prototype and not a key.
\<close>

definition getTimings :: "state \<Rightarrow> (string \<rightharpoonup> real \<times> int \<times> int)" where
  "getTimings st =
     (\<lambda>label. if label = ''__proto__'' then None
               else (case timers st label of
                       None \<Rightarrow> None
                     | Some t \<Rightarrow> Some (time t, memory t, totalMemory t)))"

section \<open>ModeFacade: the two rebindable slots\<close>

text \<open>
  \<open>timeStart\<close> and \<open>timeEnd\<close> are variables holding a function. Calling one of them
  runs whatever is bound at the moment of the call. The tracing functions are defined
  first because the dispatcher needs them. Line 165 creates an own key, except for
  \<open>__proto__\<close>, where it installs the span as prototype of \<open>spans\<close>; line 167 reads the
  span back either way.
\<close>

definition timeStartTraceImpl :: "string \<Rightarrow> int option \<Rightarrow> state \<Rightarrow> jsval + state" where
  "timeStartTraceImpl label level st =
     (case obj_has_own (spans st) label of
        Inl e \<Rightarrow> Inl e
      | Inr present \<Rightarrow>
          (if present then Inr st
           else
             (let new_span = next_span st;
                  st1 = st\<lparr> next_span := Suc new_span,
                            tracer_calls := tracer_calls st @
                              [StartSpan label new_span,
                               SetAttributes new_span
                                 [(''memory'', Num 0), (''startMemory'', Undefined),
                                  (''endMemory'', Undefined), (''totalMemory'', Num 0)]] \<rparr>;
                  st2 = (if label = ''__proto__''
                         then st1\<lparr> spans_proto := Some new_span \<rparr>
                         else st1\<lparr> spans := (spans st1)(label \<mapsto> new_span) \<rparr>);
                  currentMemory = call_getMemory st2
              in Inr (st2\<lparr> tracer_calls := tracer_calls st2 @
                        [SetAttribute new_span ''startMemory'' (Num currentMemory)] \<rparr>))))"

text \<open>
  Line 172 tests the \<open>timers\<close> object; \<open>spans[label]\<close> is read without a test, so when
  it is not a span the first \<open>setAttribute\<close> call is a \<open>TypeError\<close>.
\<close>

definition timeEndTraceImpl :: "string \<Rightarrow> int option \<Rightarrow> state \<Rightarrow> jsval + state" where
  "timeEndTraceImpl label level st =
     (case obj_has_own (timers st) label of
        Inl e \<Rightarrow> Inl e
      | Inr _ \<Rightarrow>
          (case timers st label of
             None \<Rightarrow> Inr st
           | Some t \<Rightarrow>
               (case obj_get (spans st) (spans_proto st) label of
                  None \<Rightarrow> Inl TypeError
                | Some labeledSpan \<Rightarrow>
                    (let currentMemory = call_getMemory st
                     in Inr (st\<lparr> tracer_calls := tracer_calls st @
                          [SetAttribute labeledSpan ''totalMemory''
                             (Num (max (totalMemory t) currentMemory)),
                           SetAttribute labeledSpan ''endMemory'' (Num currentMemory),
                           EndSpan labeledSpan] \<rparr>)))))"

definition call_timer_fn :: "timer_fn \<Rightarrow> string \<Rightarrow> int option \<Rightarrow> state \<Rightarrow> jsval + state" where
  "call_timer_fn f label level st =
     (case f of
        NOOP \<Rightarrow> Inr st
      | F_timeStartImpl \<Rightarrow> timeStartImpl label level st
      | F_timeEndImpl \<Rightarrow> timeEndImpl label level st
      | F_timeStartTraceImpl \<Rightarrow> timeStartTraceImpl label level st
      | F_timeEndTraceImpl \<Rightarrow> timeEndTraceImpl label level st)"

definition call_timeStart :: "string \<Rightarrow> int option \<Rightarrow> state \<Rightarrow> jsval + state" where
  "call_timeStart label level st = call_timer_fn (timeStart st) label level st"

definition call_timeEnd :: "string \<Rightarrow> int option \<Rightarrow> state \<Rightarrow> jsval + state" where
  "call_timeEnd label level st = call_timer_fn (timeEnd st) label level st"

section \<open>Deferred values\<close>

text \<open>
  A promise is a cell: unsettled or settled with an outcome (\<open>Returned v\<close> fulfilled,
  \<open>Threw e\<close> rejected), plus the reactions registered on it, each with the promise that
  \<open>then\<close> returned for it. \<open>then\<close> never runs its callback at once; \<open>deliver\<close> is the
  job that runs the reactions of a settled promise.
\<close>

definition promise_then :: "nat \<Rightarrow> reaction \<Rightarrow> state \<Rightarrow> nat \<times> state" where
  "promise_then p r st =
     (let d = next_promise st;
          cell = promises st p
      in (d, st\<lparr> promises := (promises st)
                    (p := cell\<lparr> reactions := reactions cell @ [(r, d)] \<rparr>),
                 next_promise := Suc d \<rparr>))"

definition settle_promise :: "nat \<Rightarrow> jsval outcome \<Rightarrow> state \<Rightarrow> state" where
  "settle_promise p out st =
     (case settled (promises st p) of
        Some _ \<Rightarrow> st
      | None \<Rightarrow> st\<lparr> promises := (promises st)(p := (promises st p)\<lparr> settled := Some out \<rparr>) \<rparr>)"

text \<open>
  The arrow function of line 121, called with the value its promise or thenable settled
  with: it calls \<open>timeEnd\<close> and returns the value.
\<close>

definition call_Continuation :: "string \<Rightarrow> jsval \<Rightarrow> state \<Rightarrow> jsval outcome \<times> state" where
  "call_Continuation timerLabel hookResult st =
     (case template [timerLabel, '' (async)''] of
        Inl e \<Rightarrow> (Threw e, st)
      | Inr asyncLabel \<Rightarrow>
          (case call_timeEnd asyncLabel (Some 4) st of
             Inl e \<Rightarrow> (Threw e, st)
           | Inr st1 \<Rightarrow> (Returned hookResult, st1)))"

text \<open>
  The callback of line 121 is the fulfilment handler only: on rejection no callback
  runs and the derived promise is rejected with the same reason. On fulfilment the
  derived promise settles with what the callback returns or throws.
\<close>

fun run_reaction :: "jsval outcome \<Rightarrow> reaction \<times> nat \<Rightarrow> state \<Rightarrow> state" where
  "run_reaction (Threw e) (EndAsync timerLabel, d) st = settle_promise d (Threw e) st"
| "run_reaction (Returned hookResult) (EndAsync timerLabel, d) st =
     (case call_Continuation timerLabel hookResult st of
        (out, st1) \<Rightarrow> settle_promise d out st1)"

definition deliver :: "nat \<Rightarrow> state \<Rightarrow> state" where
  "deliver p st =
     (case settled (promises st p) of
        None \<Rightarrow> st
      | Some out \<Rightarrow>
          foldl (\<lambda>s r. run_reaction out r s)
            (st\<lparr> promises := (promises st)(p := (promises st p)\<lparr> reactions := [] \<rparr>) \<rparr>)
            (reactions (promises st p)))"

section \<open>HookInstrumenter\<close>

text \<open>Decimal rendering of the array index in \<open>`plugin ${index}`\<close>.\<close>

definition digit_char :: "nat \<Rightarrow> char" where
  "digit_char d = ''0123456789'' ! d"

function decimal :: "nat \<Rightarrow> string" where
  "decimal n = (if n div 10 = 0 then [digit_char n] else decimal (n div 10) @ [digit_char (n mod 10)])"
  by pat_completeness auto
termination
  by (relation "measure id") auto

declare decimal.simps [simp del]

definition get_prop :: "state \<Rightarrow> nat \<Rightarrow> string \<Rightarrow> jsval" where
  "get_prop st r k = (case map_of (objects st r) k of None \<Rightarrow> Undefined | Some v \<Rightarrow> v)"

primrec set_prop :: "(string \<times> jsval) list \<Rightarrow> string \<Rightarrow> jsval \<Rightarrow> (string \<times> jsval) list" where
  "set_prop [] k v = [(k, v)]"
| "set_prop (kv # kvs) k v = (if fst kv = k then (k, v) # kvs else kv # set_prop kvs k v)"

definition truthy :: "jsval \<Rightarrow> bool" where
  "truthy v = (case v of Undefined \<Rightarrow> False | Num n \<Rightarrow> n \<noteq> 0 | Str s \<Rightarrow> s \<noteq> [] | _ \<Rightarrow> True)"

text \<open>
  Interpolation of \<open>plugin.name\<close> into the label: a string as it is, \<open>undefined\<close> by
  its name, an integer below \<open>2^53\<close> in decimal digits. For any other value the text
  is the host's: the rounded or exponent form of a larger number, what \<open>toString\<close> of
  an object returns, the source text of a function.
\<close>

definition to_string :: "state \<Rightarrow> jsval \<Rightarrow> string" where
  "to_string st v =
     (case v of
        Str s \<Rightarrow> s
      | Undefined \<Rightarrow> ''undefined''
      | Num n \<Rightarrow>
          (if \<bar>n\<bar> < 2 ^ 53
           then (if n < 0 then ''-'' else []) @ decimal (nat \<bar>n\<bar>)
           else to_text (env st) v)
      | _ \<Rightarrow> to_text (env st) v)"

definition TIMED_PLUGIN_HOOKS :: "(string \<times> bool) list" where
  "TIMED_PLUGIN_HOOKS =
     [(''load'', True), (''resolveDynamicImport'', True), (''resolveId'', True),
      (''transform'', True)]"

text \<open>
  Lines 110 to 114 build the label in steps. Each template literal and each \<open>+=\<close>
  makes a new string, and raises \<open>RangeError\<close> when that string would be too long.
\<close>

definition new_timerLabel :: "state \<Rightarrow> nat \<Rightarrow> nat \<Rightarrow> string \<Rightarrow> jsval + string" where
  "new_timerLabel st plugin index hook =
     (case template [''plugin '', decimal index] of
        Inl e \<Rightarrow> Inl e
      | Inr l0 \<Rightarrow>
          (case (if truthy (get_prop st plugin ''name'')
                 then (case template ['' ('', to_string st (get_prop st plugin ''name''), '')''] of
                         Inl e \<Rightarrow> Inl e
                       | Inr part \<Rightarrow> template [l0, part])
                 else Inr l0) of
             Inl e \<Rightarrow> Inl e
           | Inr l1 \<Rightarrow>
               (case template ['' - '', hook] of
                  Inl e \<Rightarrow> Inl e
                | Inr part \<Rightarrow> template [l1, part])))"

text \<open>
  The loop of line 108 over the own property names of the plugin fills a new object.
  The plugin is only read, so every read is from the state at the call. When a label
  raises, the call ends there; the object under construction is lost with it and the
  store stays as it was.
\<close>

definition getPluginWithTimers :: "nat \<Rightarrow> nat \<Rightarrow> state \<Rightarrow> nat outcome \<times> state" where
  "getPluginWithTimers plugin index st =
     (let timedPlugin = next_object st;
          props =
            foldl (\<lambda>acc hook.
                     case acc of
                       Inl e \<Rightarrow> Inl e
                     | Inr filled \<Rightarrow>
                         (if map_of TIMED_PLUGIN_HOOKS hook = Some True
                          then (case new_timerLabel st plugin index hook of
                                  Inl e \<Rightarrow> Inl e
                                | Inr l \<Rightarrow>
                                    Inr (set_prop filled hook
                                           (TimedHook plugin hook l timedPlugin)))
                          else Inr (set_prop filled hook (get_prop st plugin hook))))
              (Inr []) (map fst (objects st plugin))
      in case props of
           Inl e \<Rightarrow> (Threw e, st)
         | Inr filled \<Rightarrow>
             (Returned timedPlugin,
              st\<lparr> objects := (objects st)(timedPlugin := filled),
                  next_object := Suc timedPlugin \<rparr>))"

definition getPluginWithSpan :: "nat \<Rightarrow> nat \<Rightarrow> state \<Rightarrow> nat outcome \<times> state" where
  "getPluginWithSpan plugin index st = (Returned plugin, st)"

text \<open>
  \<open>Array.prototype.map\<close>: a new array, the callback gets element and index. When the
  callback throws, \<open>map\<close> throws in the state reached so far.
\<close>

fun array_map ::
  "(nat \<Rightarrow> nat \<Rightarrow> state \<Rightarrow> nat outcome \<times> state) \<Rightarrow> nat list \<Rightarrow> nat \<Rightarrow> state
     \<Rightarrow> nat list outcome \<times> state" where
  "array_map f [] i st = (Returned [], st)"
| "array_map f (x # xs) i st =
     (case f x i st of
        (Threw e, st1) \<Rightarrow> (Threw e, st1)
      | (Returned y, st1) \<Rightarrow>
          (case array_map f xs (Suc i) st1 of
             (Threw e, st2) \<Rightarrow> (Threw e, st2)
           | (Returned ys, st2) \<Rightarrow> (Returned (y # ys), st2)))"

text \<open>
  Calling the closure of line 115. \<open>app\<close> is the host's function application: what
  calling a user function value with a receiver and arguments does to the state and how
  it completes. The state at a throw is the state reached so far.
\<close>

type_synonym apply_fn = "jsval \<Rightarrow> jsval \<Rightarrow> jsval list \<Rightarrow> state \<Rightarrow> jsval outcome \<times> state"

text \<open>The receiver the closure hands to the original hook: \<open>this === timedPlugin ? plugin : this\<close>.\<close>

definition receiver :: "jsval \<Rightarrow> nat \<Rightarrow> nat \<Rightarrow> jsval" where
  "receiver this timedPlugin plugin = (if this = Obj timedPlugin then Obj plugin else this)"

text \<open>
  Line 119: \<open>typeof result.then === 'function'\<close>. A native promise has the native
  \<open>then\<close>; an object, or a function with members, has whatever its \<open>then\<close> member
  holds; no other value of the model has such a member.
\<close>

definition callable :: "jsval \<Rightarrow> bool" where
  "callable v = (case v of Fn _ \<Rightarrow> True | FnObj _ \<Rightarrow> True | TimedHook _ _ _ _ \<Rightarrow> True
                 | Continuation _ \<Rightarrow> True | _ \<Rightarrow> False)"

definition members_ref :: "jsval \<Rightarrow> nat option" where
  "members_ref v = (case v of Obj r \<Rightarrow> Some r | FnObj r \<Rightarrow> Some r | _ \<Rightarrow> None)"

definition thenable :: "state \<Rightarrow> jsval \<Rightarrow> bool" where
  "thenable st v =
     (case v of
        Promise _ \<Rightarrow> True
      | _ \<Rightarrow> (case members_ref v of
                None \<Rightarrow> False
              | Some r \<Rightarrow> callable (get_prop st r ''then'')))"

text \<open>
  Line 121: \<open>result.then(callback)\<close>. On a native promise it registers the callback and
  yields the derived promise. On any other thenable it is a call of the user's \<open>then\<close>
  with the arrow function as its only argument.
\<close>

definition call_then :: "apply_fn \<Rightarrow> jsval \<Rightarrow> string \<Rightarrow> state \<Rightarrow> jsval outcome \<times> state" where
  "call_then app result timerLabel st =
     (case result of
        Promise p \<Rightarrow>
          (case promise_then p (EndAsync timerLabel) st of
             (d, st1) \<Rightarrow> (Returned (Promise d), st1))
      | _ \<Rightarrow>
          (case members_ref result of
             None \<Rightarrow> (Threw TypeError, st)
           | Some r \<Rightarrow> app (get_prop st r ''then'') result [Continuation timerLabel] st))"

definition call_TimedHook ::
  "apply_fn \<Rightarrow> nat \<Rightarrow> string \<Rightarrow> string \<Rightarrow> nat \<Rightarrow> jsval \<Rightarrow> jsval list \<Rightarrow> state \<Rightarrow> jsval outcome \<times> state" where
  "call_TimedHook app plugin hook timerLabel timedPlugin this args st =
     (case call_timeStart timerLabel (Some 4) st of
        Inl e \<Rightarrow> (Threw e, st)
      | Inr st1 \<Rightarrow>
          (case app (get_prop st1 plugin hook)
                    (receiver this timedPlugin plugin) args st1 of
             (Threw e, st2) \<Rightarrow> (Threw e, st2)
           | (Returned result, st2) \<Rightarrow>
               (case call_timeEnd timerLabel (Some 4) st2 of
                  Inl e \<Rightarrow> (Threw e, st2)
                | Inr st3 \<Rightarrow>
                    (if truthy result \<and> thenable st3 result
                     then (case template [timerLabel, '' (async)''] of
                             Inl e \<Rightarrow> (Threw e, st3)
                           | Inr asyncLabel \<Rightarrow>
                               (case call_timeStart asyncLabel (Some 4) st3 of
                                  Inl e \<Rightarrow> (Threw e, st3)
                                | Inr st4 \<Rightarrow> call_then app result timerLabel st4))
                     else (Returned result, st3)))))"

section \<open>Initialisation\<close>

record InputOptions =
  perf :: bool
  trace :: bool
  plugins :: "nat list option"

text \<open>
  \<open>inputOptions.plugins!.map\<close> on a missing list is a \<open>TypeError\<close>, and \<open>map\<close> may
  throw; the bindings made before stay, and the rest of the function does not run.
  \<open>timers = {}\<close> and \<open>spans = {}\<close> are new objects: no own key and the ordinary
  prototype.
\<close>

definition initialiseTimers :: "InputOptions \<Rightarrow> state \<Rightarrow> InputOptions outcome \<times> state" where
  "initialiseTimers inputOptions st =
     (case (if perf inputOptions
            then (let st1 = setTimeHelpers (st\<lparr> timers := Map.empty, timers_proto := None \<rparr>);
                      st2 = st1\<lparr> timeStart := F_timeStartImpl, timeEnd := F_timeEndImpl \<rparr>
                  in case plugins inputOptions of
                       None \<Rightarrow> (Threw TypeError, st2)
                     | Some ps \<Rightarrow>
                         (case array_map getPluginWithTimers ps 0 st2 of
                            (Threw e, st3) \<Rightarrow> (Threw e, st3)
                          | (Returned ps1, st3) \<Rightarrow>
                              (Returned (inputOptions\<lparr> plugins := Some ps1 \<rparr>), st3)))
            else (Returned inputOptions, st\<lparr> timeStart := NOOP, timeEnd := NOOP \<rparr>)) of
        (Threw e, st4) \<Rightarrow> (Threw e, st4)
      | (Returned io1, st4) \<Rightarrow>
          (if trace io1
           then (let st5 = setTimeHelpers (st4\<lparr> spans := Map.empty, spans_proto := None \<rparr>);
                     st6 = st5\<lparr> timeStart := F_timeStartTraceImpl,
                                timeEnd := F_timeEndTraceImpl \<rparr>
                 in case plugins io1 of
                      None \<Rightarrow> (Threw TypeError, st6)
                    | Some ps \<Rightarrow>
                        (case array_map getPluginWithSpan ps 0 st6 of
                           (Threw e, st7) \<Rightarrow> (Threw e, st7)
                         | (Returned ps1, st7) \<Rightarrow>
                             (Returned (io1\<lparr> plugins := Some ps1 \<rparr>), st7)))
           else (Returned io1, st4)))"

section \<open>Scenarios: the host moving on, sequences of calls\<close>

text \<open>The length of the label that the format of a level asks for.\<close>

definition label_length :: "string \<Rightarrow> int \<Rightarrow> int" where
  "label_length name level =
     (if level = 1 then int (length name) + 2
      else if level = 2 then int (length name) + 3
      else if level = 3 then int (length name)
      else 2 * (level - 4) + 2 + int (length name))"

text \<open>The sum of a list of doubles, added from 0 in the order of the list.\<close>

definition dsum :: "real list \<Rightarrow> real" where
  "dsum xs = foldl dadd 0 xs"

text \<open>
  Between two calls of the module the host's clock and heap change. \<open>set_env\<close> is that
  step; the module never makes it itself.
\<close>

definition set_env :: "runtime \<Rightarrow> state \<Rightarrow> state" where
  "set_env rt st = st\<lparr> env := rt \<rparr>"

text \<open>
  A complete cycle is \<open>timeStart(label, level)\<close> when the host reads \<open>fst c\<close>, then
  \<open>timeEnd(label, level)\<close> when it reads \<open>snd c\<close>.
\<close>

fun run_cycles :: "string \<Rightarrow> int option \<Rightarrow> (runtime \<times> runtime) list \<Rightarrow> state \<Rightarrow> jsval + state" where
  "run_cycles label level [] st = Inr st"
| "run_cycles label level (c # cs) st =
     (case call_timeStart label level (set_env (fst c) st) of
        Inl e \<Rightarrow> Inl e
      | Inr st1 \<Rightarrow>
          (case call_timeEnd label level (set_env (snd c) st1) of
             Inl e \<Rightarrow> Inl e
           | Inr st2 \<Rightarrow> run_cycles label level cs st2))"

text \<open>
  The interval one cycle measures on its own, and one memory sample, with the helpers
  bound in \<open>st\<close>.
\<close>

definition elapsed_interval :: "state \<Rightarrow> runtime \<times> runtime \<Rightarrow> real" where
  "elapsed_interval st c =
     call_getElapsedTime (set_env (snd c) st) (call_getStartTime (set_env (fst c) st))"

definition memory_sample :: "state \<Rightarrow> runtime \<Rightarrow> int" where
  "memory_sample st rt = call_getMemory (set_env rt st)"

text \<open>The accumulators of a key as the snapshot shows them; all zero before the record exists.\<close>

definition accumulated :: "state \<Rightarrow> string \<Rightarrow> real \<times> int \<times> int" where
  "accumulated st key = (case getTimings st key of None \<Rightarrow> (0, 0, 0) | Some x \<Rightarrow> x)"

text \<open>Two states with the same functions in the two slots and in the three helpers.\<close>

definition same_bindings :: "state \<Rightarrow> state \<Rightarrow> bool" where
  "same_bindings st st' \<longleftrightarrow>
     timeStart st' = timeStart st \<and> timeEnd st' = timeEnd st \<and>
     getStartTime st' = getStartTime st \<and> getElapsedTime st' = getElapsedTime st \<and>
     getMemory st' = getMemory st"

text \<open>
  A Node.js host: all three capabilities, reading \<open>hrtime = t\<close> and \<open>heapUsed = h\<close>.
  Its \<open>to_text\<close> is that of a plain object; it is consulted for a plugin name that is
  not a string, which no example has.
\<close>

definition node_host :: "int \<times> int \<Rightarrow> nat \<Rightarrow> runtime" where
  "node_host t h =
     \<lparr> has_hrtime = True, has_performance_now = True, has_memoryUsage = True,
       hrtime_now = t, performance_now = 0, heapUsed = h,
       to_text = (\<lambda>_. ''[object Object]'') \<rparr>"

text \<open>Any sequence of calls of the two slots.\<close>

datatype timer_call = CallStart string "int option" | CallEnd string "int option"

fun run_calls :: "timer_call list \<Rightarrow> state \<Rightarrow> jsval + state" where
  "run_calls [] st = Inr st"
| "run_calls (c # cs) st =
     (case (case c of
              CallStart label level \<Rightarrow> call_timeStart label level st
            | CallEnd label level \<Rightarrow> call_timeEnd label level st) of
        Inl e \<Rightarrow> Inl e
      | Inr st1 \<Rightarrow> run_calls cs st1)"

text \<open>
  Two user hooks for the examples: one returns \<open>v\<close>, one throws \<open>e\<close>; while they run
  the host moves on to \<open>rt\<close>. A value that is not a function cannot be applied.
\<close>

definition hook_returning :: "jsval \<Rightarrow> runtime \<Rightarrow> apply_fn" where
  "hook_returning v rt f this args st =
     (case f of Fn _ \<Rightarrow> (Returned v, set_env rt st) | _ \<Rightarrow> (Threw TypeError, st))"

definition hook_throwing :: "jsval \<Rightarrow> runtime \<Rightarrow> apply_fn" where
  "hook_throwing e rt f this args st =
     (case f of Fn _ \<Rightarrow> (Threw e, set_env rt st) | _ \<Rightarrow> (Threw TypeError, st))"

text \<open>
  The example store: one plugin object at reference 0, named \<open>p\<close>, with a \<open>transform\<close>
  hook and a \<open>buildEnd\<close> hook; promise 0 exists and is unsettled.
\<close>

definition example_plugin :: "(string \<times> jsval) list" where
  "example_plugin = [(''name'', Str ''p''), (''transform'', Fn 0), (''buildEnd'', Fn 1)]"

definition example_state :: state where
  "example_state =
     (initial_state (node_host (1, 0) 100))
       \<lparr> objects := (\<lambda>_. [])(0 := example_plugin), next_object := 1, next_promise := 1 \<rparr>"

definition later :: runtime where
  "later = node_host (1, 5000000) 140"

definition much_later :: runtime where
  "much_later = node_host (1, 12000000) 130"

text \<open>
  The text of the label that lines 110 to 114 ask for, and whether the labels of all the
  allow-listed own properties of a plugin are short enough to be strings.
\<close>

definition timerLabel_of :: "state \<Rightarrow> nat \<Rightarrow> nat \<Rightarrow> string \<Rightarrow> string" where
  "timerLabel_of st plugin index hook =
     (let l0 = ''plugin '' @ decimal index;
          l1 = (if truthy (get_prop st plugin ''name'')
                then l0 @ '' ('' @ to_string st (get_prop st plugin ''name'') @ '')''
                else l0)
      in l1 @ '' - '' @ hook)"

definition labels_fit :: "state \<Rightarrow> nat \<Rightarrow> nat \<Rightarrow> bool" where
  "labels_fit st plugin index \<longleftrightarrow>
     (\<forall>hook \<in> set (map fst (objects st plugin)).
        map_of TIMED_PLUGIN_HOOKS hook = Some True \<longrightarrow>
        length (timerLabel_of st plugin index hook) \<le> max_string_length)"

text \<open>
  A store with one plugin whose name is as long as a string can be, so that its label
  is too long.
\<close>

definition long_name :: string where
  "long_name = replicate max_string_length CHR ''a''"

text \<open>
  A label prefix that fits in a key at level 4, while its \<open>(async)\<close> key does not.
\<close>

definition long_label :: string where
  "long_label = replicate (max_string_length - 9) CHR ''a''"

definition long_name_state :: state where
  "long_name_state =
     (initial_state (node_host (1, 0) 100))
       \<lparr> objects := (\<lambda>_. [])(0 := [(''name'', Str long_name), (''transform'', Fn 0)]),
         next_object := 1 \<rparr>"

text \<open>
  What \<open>getPluginWithTimers\<close> is expected to store under \<open>hook\<close> in the new object:
  a timing closure for an own property in the allow-list, the original value for any
  other own property, nothing for a name the plugin does not have.
\<close>

definition timed_copy :: "state \<Rightarrow> nat \<Rightarrow> nat \<Rightarrow> nat \<Rightarrow> string \<Rightarrow> jsval" where
  "timed_copy st plugin index timedPlugin hook =
     (if hook \<in> fst ` set (objects st plugin)
      then (if map_of TIMED_PLUGIN_HOOKS hook = Some True
            then TimedHook plugin hook (timerLabel_of st plugin index hook) timedPlugin
            else get_prop st plugin hook)
      else Undefined)"

text \<open>A Timing activation on a fresh module, without plugins.\<close>

definition timing_fresh :: state where
  "timing_fresh =
     snd (initialiseTimers \<lparr> perf = True, trace = False, plugins = Some [] \<rparr>
            (initial_state (node_host (1, 0) 100)))"

text \<open>
  An earlier activation in Timing mode that measured one \<open>build\<close> interval of 5 ms.
\<close>

definition previous_activation :: state where
  "previous_activation =
     (case run_cycles ''build'' (Some 3) [(node_host (1, 0) 100, later)]
             (snd (initialiseTimers \<lparr> perf = True, trace = False, plugins = Some [] \<rparr>
                     (initial_state (node_host (1, 0) 100)))) of
        Inr st \<Rightarrow> st
      | Inl _ \<Rightarrow> initial_state (node_host (1, 0) 100))"

text \<open>
  A Tracing activation on a fresh module in which \<open>timeStart("build")\<close> has run.
\<close>

definition traced_build :: state where
  "traced_build =
     (case call_timeStart ''build'' None
             (snd (initialiseTimers \<lparr> perf = False, trace = True, plugins = Some [] \<rparr>
                     (initial_state (node_host (1, 0) 100)))) of
        Inr st \<Rightarrow> st
      | Inl _ \<Rightarrow> initial_state (node_host (1, 0) 100))"

text \<open>A Tracing activation on a fresh module, without plugins.\<close>

definition tracing_fresh :: state where
  "tracing_fresh =
     snd (initialiseTimers \<lparr> perf = False, trace = True, plugins = Some [] \<rparr>
            (initial_state (node_host (1, 0) 100)))"

text \<open>
  The record of line 64, and the two updates the timer registry makes: \<open>started\<close> is
  what lines 63 to 74 leave under a key, \<open>ended\<close> what lines 81 to 83 make of a record.
\<close>

definition zero_timer :: Timer where
  "zero_timer = \<lparr> memory = 0, startMemory = 0, startTime = (0, 0), time = 0, totalMemory = 0 \<rparr>"

definition started :: "state \<Rightarrow> string \<Rightarrow> Timer" where
  "started s key =
     (case timers s key of None \<Rightarrow> zero_timer | Some t0 \<Rightarrow> t0)
       \<lparr> startTime := call_getStartTime s, startMemory := call_getMemory s \<rparr>"

definition ended :: "state \<Rightarrow> Timer \<Rightarrow> Timer" where
  "ended s t =
     t\<lparr> time := dadd (time t) (call_getElapsedTime s (startTime t)),
        totalMemory := max (totalMemory t) (call_getMemory s),
        memory := memory t + (call_getMemory s - startMemory t) \<rparr>"

text \<open>
  The state in which the closure of line 115 finds the module after line 118, when the
  hook has returned in state \<open>s2\<close> a call that began in state \<open>s\<close>, and the state
  after line 120 has started the \<open>(async)\<close> timer in state \<open>s3\<close>: as the Timing
  functions are expected to leave them.
\<close>

definition sync_recorded :: "state \<Rightarrow> state \<Rightarrow> string \<Rightarrow> state" where
  "sync_recorded s s2 l =
     s2\<lparr> timers := (timers s2)(''- '' @ l \<mapsto> ended s2 (started s (''- '' @ l))) \<rparr>"

definition async_started :: "state \<Rightarrow> string \<Rightarrow> state" where
  "async_started s3 l =
     s3\<lparr> timers := (timers s3)
            (''- '' @ l @ '' (async)'' \<mapsto> started s3 (''- '' @ l @ '' (async)'')) \<rparr>"

text \<open>
  The example store after a Timing activation, and after one call of the closure now
  stored under \<open>transform\<close>, with a hook that returns a string, and with a hook that
  returns the unsettled promise 0.
\<close>

definition timing_example :: state where
  "timing_example =
     snd (initialiseTimers \<lparr> perf = True, trace = False, plugins = Some [0] \<rparr> example_state)"

definition after_sync_call :: state where
  "after_sync_call =
     snd (call_TimedHook (hook_returning (Str ''code'') later)
            0 ''transform'' ''plugin 0 (p) - transform'' 1 (Obj 1) [] timing_example)"

definition after_async_call :: state where
  "after_async_call =
     snd (call_TimedHook (hook_returning (Promise 0) later)
            0 ''transform'' ''plugin 0 (p) - transform'' 1 (Obj 1) [] timing_example)"

text \<open>
  A hook that returns the object at reference 2, which is no promise but has a \<open>then\<close>
  member, the function \<open>Fn 2\<close>. That \<open>then\<close> calls the callback it is given at once,
  with the string \<open>code\<close>, when the host reads \<open>much_later\<close>, and returns what the
  callback returns.
\<close>

definition thenable_hook :: apply_fn where
  "thenable_hook f this args st =
     (case f of
        Fn n \<Rightarrow>
          (if n = 2
           then (case args of
                   [Continuation l] \<Rightarrow> call_Continuation l (Str ''code'') (set_env much_later st)
                 | _ \<Rightarrow> (Returned Undefined, st))
           else (Returned (Obj 2), set_env later st))
      | _ \<Rightarrow> (Threw TypeError, st))"

definition thenable_example :: state where
  "thenable_example =
     timing_example\<lparr> objects := (objects timing_example)(2 := [(''then'', Fn 2)]),
                     next_object := 3 \<rparr>"

section \<open>Properties of double arithmetic\<close>

lemma round_half_even_of_int: "round_half_even (of_int m) = m"
  by (simp add: round_half_even_def)

lemma round_double_of_int:
  assumes "\<bar>n\<bar> < 2 ^ 53"
  shows "round_double (of_int n) = of_int n"
proof (cases "n = 0")
  case True
  then show ?thesis by (simp add: round_double_def)
next
  case False
  let ?x = "of_int n :: real"
  have pos: "1 \<le> \<bar>?x\<bar>" using False by (simp flip: of_int_abs)
  have lt: "\<bar>?x\<bar> < 2 powr 53"
    using assms by (simp flip: of_int_abs)
  have "0 \<le> log 2 \<bar>?x\<bar>" using pos by simp
  then have e0: "0 \<le> \<lfloor>log 2 \<bar>?x\<bar>\<rfloor>" by simp
  have "log 2 \<bar>?x\<bar> < 53"
    using lt pos by (simp add: log_less_iff)
  then have e1: "\<lfloor>log 2 \<bar>?x\<bar>\<rfloor> \<le> 52" by linarith
  define k where "k = nat (52 - \<lfloor>log 2 \<bar>?x\<bar>\<rfloor>)"
  have ue: "ulp_exponent ?x = - int k"
    using e0 e1 by (simp add: ulp_exponent_def k_def)
  have u: "2 powr of_int (ulp_exponent ?x) = inverse (2 ^ k :: real)"
    unfolding ue by (simp add: powr_minus powr_realpow)
  have "?x / inverse (2 ^ k) = of_int (n * 2 ^ k)"
    by (simp add: field_simps)
  then have "round_half_even (?x / 2 powr of_int (ulp_exponent ?x)) = n * 2 ^ k"
    unfolding u by (simp only: round_half_even_of_int)
  then have "round_double ?x = of_int (n * 2 ^ k) * inverse (2 ^ k)"
    using False by (simp add: round_double_def u)
  then show ?thesis by (simp add: field_simps)
qed

lemma round_double_numeral [simp]:
  "numeral w < (2 ^ 53 :: int) \<Longrightarrow> round_double (numeral w) = numeral w"
  "numeral w < (2 ^ 53 :: int) \<Longrightarrow> round_double (- numeral w) = - numeral w"
  "round_double 0 = 0" "round_double 1 = 1"
  using round_double_of_int [of "numeral w"] round_double_of_int [of "- numeral w"]
    round_double_of_int [of 1]
  by (simp_all add: round_double_def)

section \<open>Properties of the label formatter\<close>

lemma concat_replicate_spaces:
  "concat (replicate n ''  '') = replicate (2 * n) CHR '' ''"
  by (induction n) simp_all

text \<open>
  C2, at level 0. The claim says the formatter is total over the non-negative levels. At
  level 0 the default branch asks for \<open>'  '.repeat(-4)\<close>, which raises \<open>RangeError\<close>.
\<close>

theorem getPersistedLabel_level_zero_raises:
  "getPersistedLabel ''x'' 0 = Inl RangeError"
  by (simp add: getPersistedLabel_def repeat_str_def)

text \<open>
  C2, amended. The formatter is a function of label and level. It gives the five labels
  of the claim for \<open>x\<close>. At a level from 1 on it returns a label exactly when the
  label it asks for (of \<open>label_length\<close> characters) is not longer than a string can be:
  above level 3 that label is \<open>2 * (level - 4)\<close> spaces, \<open>"- "\<close> and the name. When it
  is too long, and at every level below 1, the formatter raises \<open>RangeError\<close>. The
  registry functions take level 3 when the level is left out.
\<close>

theorem getPersistedLabel_levels:
  "getPersistedLabel ''x'' 1 = Inr ''# x'' \<and>
   getPersistedLabel ''x'' 2 = Inr ''## x'' \<and>
   getPersistedLabel ''x'' 3 = Inr ''x'' \<and>
   getPersistedLabel ''x'' 4 = Inr ''- x'' \<and>
   getPersistedLabel ''x'' 5 = Inr ''  - x'' \<and>
   (3 < level \<and> label_length name level \<le> int max_string_length \<longrightarrow>
      getPersistedLabel name level =
        Inr (replicate (2 * nat (level - 4)) CHR '' '' @ ''- '' @ name)) \<and>
   (1 \<le> level \<and> label_length name level \<le> int max_string_length \<longrightarrow>
      (\<exists>s. getPersistedLabel name level = Inr s \<and> int (length s) = label_length name level)) \<and>
   (1 \<le> level \<and> level \<noteq> 3 \<and> int max_string_length < label_length name level \<longrightarrow>
      getPersistedLabel name level = Inl RangeError) \<and>
   (level < 1 \<longrightarrow> getPersistedLabel name level = Inl RangeError) \<and>
   timeStartImpl name None st = timeStartImpl name (Some 3) st \<and>
   timeEndImpl name None st = timeEndImpl name (Some 3) st"
proof -
  have fixed: "getPersistedLabel ''x'' 1 = Inr ''# x''" "getPersistedLabel ''x'' 2 = Inr ''## x''"
    "getPersistedLabel ''x'' 3 = Inr ''x''" "getPersistedLabel ''x'' 4 = Inr ''- x''"
    "getPersistedLabel ''x'' 5 = Inr ''  - x''"
    by (simp_all add: getPersistedLabel_def repeat_str_def template_def max_string_length_def)
  have bullet: "3 < level \<and> label_length name level \<le> int max_string_length \<longrightarrow>
      getPersistedLabel name level =
        Inr (replicate (2 * nat (level - 4)) CHR '' '' @ ''- '' @ name)"
    by (auto simp: getPersistedLabel_def repeat_str_def template_def label_length_def
        concat_replicate_spaces)
  have total: "1 \<le> level \<and> label_length name level \<le> int max_string_length \<longrightarrow>
      (\<exists>s. getPersistedLabel name level = Inr s \<and> int (length s) = label_length name level)"
    by (auto simp: getPersistedLabel_def repeat_str_def template_def label_length_def
        concat_replicate_spaces)
  have long: "1 \<le> level \<and> level \<noteq> 3 \<and> int max_string_length < label_length name level \<longrightarrow>
      getPersistedLabel name level = Inl RangeError"
    by (auto simp: getPersistedLabel_def repeat_str_def template_def label_length_def
        concat_replicate_spaces)
  have raises: "level < 1 \<longrightarrow> getPersistedLabel name level = Inl RangeError"
    by (simp add: getPersistedLabel_def repeat_str_def)
  have dflt: "timeStartImpl name None st = timeStartImpl name (Some 3) st"
    "timeEndImpl name None st = timeEndImpl name (Some 3) st"
    by (simp_all add: timeStartImpl_def timeEndImpl_def level_default_def)
  from fixed bullet total long raises dflt show ?thesis by blast
qed

theorem getPersistedLabel_levels_witness:
  "(3::int) < 6 \<and> (1::int) \<le> 6 \<and> label_length ''build'' 6 \<le> int max_string_length \<and>
   getPersistedLabel ''build'' 6 = Inr ''    - build'' \<and>
   (-2::int) < 1 \<and> getPersistedLabel ''build'' (-2) = Inl RangeError \<and>
   (1::int) \<le> 268435460 \<and> (268435460::int) \<noteq> 3 \<and>
   int max_string_length < label_length ''build'' 268435460 \<and>
   getPersistedLabel ''build'' 268435460 = Inl RangeError"
proof -
  have fits: "label_length ''build'' 6 \<le> int max_string_length"
    and long: "int max_string_length < label_length ''build'' 268435460"
    by (simp_all add: label_length_def max_string_length_def)
  have pad: "replicate (2 * nat (6 - 4)) CHR '' '' = ''    ''"
    by (simp add: numeral_eq_Suc)
  from getPersistedLabel_levels [where level = 6 and name = "''build''"] fits
  have a: "getPersistedLabel ''build'' 6 = Inr ''    - build''"
    unfolding pad by simp
  from getPersistedLabel_levels [where level = "-2" and name = "''build''"]
  have b: "getPersistedLabel ''build'' (-2) = Inl RangeError"
    by simp
  from getPersistedLabel_levels [where level = 268435460 and name = "''build''"] long
  have c: "getPersistedLabel ''build'' 268435460 = Inl RangeError"
    by simp
  from fits long a b c show ?thesis by simp
qed

section \<open>Properties of the timer registry\<close>

lemma call_getMemory_frame:
  "getMemory st' = getMemory st \<Longrightarrow> env st' = env st \<Longrightarrow> call_getMemory st' = call_getMemory st"
  by (simp add: call_getMemory_def split: memory_helper.splits)

lemma call_getStartTime_frame:
  "getStartTime st' = getStartTime st \<Longrightarrow> env st' = env st \<Longrightarrow>
   call_getStartTime st' = call_getStartTime st"
  by (simp add: call_getStartTime_def split: start_helper.splits)

lemma call_getElapsedTime_frame:
  "getElapsedTime st' = getElapsedTime st \<Longrightarrow> env st' = env st \<Longrightarrow>
   call_getElapsedTime st' = call_getElapsedTime st"
  by (simp add: call_getElapsedTime_def fun_eq_iff split: elapsed_helper.splits)

lemma timeStartImpl_ordinary:
  assumes "getPersistedLabel label (level_default level) = Inr key"
    and "timers st ''hasOwnProperty'' = None" and "key \<noteq> ''__proto__''"
  shows "timeStartImpl label level st = Inr (st\<lparr> timers := (timers st)(key \<mapsto> started st key) \<rparr>)"
  using assms
  by (cases "timers st key")
     (simp_all add: timeStartImpl_def obj_has_own_def Let_def started_def zero_timer_def)

lemma timeEndImpl_ordinary:
  assumes "getPersistedLabel label (level_default level) = Inr key"
    and "timers st ''hasOwnProperty'' = None"
  shows "timers st key = Some t \<Longrightarrow>
           timeEndImpl label level st = Inr (st\<lparr> timers := (timers st)(key \<mapsto> ended st t) \<rparr>)"
    and "timers st key = None \<Longrightarrow> timeEndImpl label level st = Inr st"
  using assms by (simp_all add: timeEndImpl_def obj_has_own_def Let_def ended_def)

lemma one_cycle:
  assumes "timeStart st = F_timeStartImpl" "timeEnd st = F_timeEndImpl"
    and "getPersistedLabel label (level_default level) = Inr key"
    and "timers st ''hasOwnProperty'' = None"
    and "key \<noteq> ''__proto__''" "key \<noteq> ''hasOwnProperty''"
  shows "\<exists>st1 st2. call_timeStart label level (set_env (fst c) st) = Inr st1 \<and>
           call_timeEnd label level (set_env (snd c) st1) = Inr st2 \<and>
           same_bindings st st2 \<and> timers st2 ''hasOwnProperty'' = None \<and>
           getTimings st2 key \<noteq> None \<and>
           accumulated st2 key =
             (dadd (fst (accumulated st key)) (elapsed_interval st c),
              fst (snd (accumulated st key)) + (memory_sample st (snd c) - memory_sample st (fst c)),
              max (snd (snd (accumulated st key))) (memory_sample st (snd c)))"
proof -
  let ?s0 = "set_env (fst c) st"
  let ?t1 = "started ?s0 key"
  let ?st1 = "?s0\<lparr> timers := (timers ?s0)(key \<mapsto> ?t1) \<rparr>"
  let ?s1 = "set_env (snd c) ?st1"
  let ?t2 = "ended ?s1 ?t1"
  let ?st2 = "?s1\<lparr> timers := (timers ?s1)(key \<mapsto> ?t2) \<rparr>"
  have "timeStartImpl label level ?s0 = Inr ?st1"
    by (rule timeStartImpl_ordinary [OF assms(3)]) (simp_all add: set_env_def assms)
  then have start: "call_timeStart label level ?s0 = Inr ?st1"
    using assms(1) by (simp add: call_timeStart_def call_timer_fn_def set_env_def)
  have "timeEndImpl label level ?s1 = Inr ?st2"
    by (rule timeEndImpl_ordinary(1) [OF assms(3)])
       (simp_all add: set_env_def assms assms(6) [symmetric])
  then have stop: "call_timeEnd label level ?s1 = Inr ?st2"
    using assms(2) by (simp add: call_timeEnd_def call_timer_fn_def set_env_def)
  have sb: "same_bindings st ?st2"
    by (simp add: same_bindings_def set_env_def)
  have nh: "timers ?st2 ''hasOwnProperty'' = None"
    using assms(4,6) by (auto simp: set_env_def)
  have ne: "getTimings ?st2 key \<noteq> None"
    using assms(5) by (simp add: getTimings_def)
  have mem_end: "call_getMemory ?s1 = memory_sample st (snd c)"
    unfolding memory_sample_def
    by (rule call_getMemory_frame) (simp_all add: set_env_def)
  have mem_start: "call_getMemory ?s0 = memory_sample st (fst c)"
    by (simp add: memory_sample_def)
  have el: "call_getElapsedTime ?s1 (call_getStartTime ?s0) = elapsed_interval st c"
    unfolding elapsed_interval_def
    by (rule arg_cong [where f = "\<lambda>g. g (call_getStartTime ?s0)"], rule call_getElapsedTime_frame)
       (simp_all add: set_env_def)
  let ?t0 = "case timers st key of None \<Rightarrow> zero_timer | Some t0 \<Rightarrow> t0"
  have t0: "accumulated st key = (time ?t0, memory ?t0, totalMemory ?t0)"
    using assms(5)
    by (simp add: accumulated_def getTimings_def zero_timer_def split: option.splits)
  have fields: "time ?t2 = dadd (fst (accumulated st key)) (elapsed_interval st c)"
    "memory ?t2 = fst (snd (accumulated st key)) +
        (memory_sample st (snd c) - memory_sample st (fst c))"
    "totalMemory ?t2 = max (snd (snd (accumulated st key))) (memory_sample st (snd c))"
    using mem_end mem_start el t0 by (simp_all add: ended_def started_def set_env_def)
  have "accumulated ?st2 key = (time ?t2, memory ?t2, totalMemory ?t2)"
    using assms(5) by (simp add: accumulated_def getTimings_def)
  with fields have acc: "accumulated ?st2 key =
             (dadd (fst (accumulated st key)) (elapsed_interval st c),
              fst (snd (accumulated st key)) + (memory_sample st (snd c) - memory_sample st (fst c)),
              max (snd (snd (accumulated st key))) (memory_sample st (snd c)))"
    by simp
  from start stop sb nh ne acc show ?thesis by blast
qed

lemma same_bindings_measure:
  "same_bindings st st' \<Longrightarrow> elapsed_interval st' = elapsed_interval st \<and> memory_sample st' = memory_sample st"
  by (auto simp: same_bindings_def elapsed_interval_def memory_sample_def fun_eq_iff
      call_getMemory_def call_getStartTime_def call_getElapsedTime_def set_env_def
      split: start_helper.splits elapsed_helper.splits memory_helper.splits)

lemma run_cycles_accumulates:
  assumes "timeStart st = F_timeStartImpl" "timeEnd st = F_timeEndImpl"
    and "getPersistedLabel label (level_default level) = Inr key"
    and "timers st ''hasOwnProperty'' = None"
    and "key \<noteq> ''__proto__''" "key \<noteq> ''hasOwnProperty''"
  shows "\<exists>st'. run_cycles label level cycles st = Inr st' \<and> same_bindings st st' \<and>
           (cycles \<noteq> [] \<longrightarrow> getTimings st' key \<noteq> None) \<and>
           accumulated st' key =
             (foldl dadd (fst (accumulated st key)) (map (elapsed_interval st) cycles),
              fst (snd (accumulated st key)) +
                sum_list (map (\<lambda>c. memory_sample st (snd c) - memory_sample st (fst c)) cycles),
              foldl max (snd (snd (accumulated st key))) (map (\<lambda>c. memory_sample st (snd c)) cycles))"
  using assms(1,2,4)
proof (induction cycles arbitrary: st)
  case Nil
  then show ?case by (simp add: same_bindings_def)
next
  case (Cons c cs)
  from one_cycle [OF Cons.prems(1,2) assms(3) Cons.prems(3) assms(5,6), of c] obtain st1 st2 where
    s1: "call_timeStart label level (set_env (fst c) st) = Inr st1" and
    s2: "call_timeEnd label level (set_env (snd c) st1) = Inr st2" and
    sb: "same_bindings st st2" and nh: "timers st2 ''hasOwnProperty'' = None" and
    ne: "getTimings st2 key \<noteq> None" and
    acc: "accumulated st2 key =
             (dadd (fst (accumulated st key)) (elapsed_interval st c),
              fst (snd (accumulated st key)) + (memory_sample st (snd c) - memory_sample st (fst c)),
              max (snd (snd (accumulated st key))) (memory_sample st (snd c)))"
    by blast
  from sb Cons.prems have b2: "timeStart st2 = F_timeStartImpl" "timeEnd st2 = F_timeEndImpl"
    by (simp_all add: same_bindings_def)
  from Cons.IH [OF b2 nh] obtain st' where
    r: "run_cycles label level cs st2 = Inr st'" and sb': "same_bindings st2 st'" and
    ne': "cs \<noteq> [] \<longrightarrow> getTimings st' key \<noteq> None" and
    acc': "accumulated st' key =
             (foldl dadd (fst (accumulated st2 key)) (map (elapsed_interval st2) cs),
              fst (snd (accumulated st2 key)) +
                sum_list (map (\<lambda>c. memory_sample st2 (snd c) - memory_sample st2 (fst c)) cs),
              foldl max (snd (snd (accumulated st2 key))) (map (\<lambda>c. memory_sample st2 (snd c)) cs))"
    by blast
  have run: "run_cycles label level (c # cs) st = Inr st'"
    using s1 s2 r by simp
  have sb3: "same_bindings st st'"
    using sb sb' by (simp add: same_bindings_def)
  have ne3: "getTimings st' key \<noteq> None"
  proof (cases cs)
    case Nil
    with r ne show ?thesis by simp
  next
    case (Cons a list)
    with ne' show ?thesis by simp
  qed
  have acc3: "accumulated st' key =
             (foldl dadd (fst (accumulated st key)) (map (elapsed_interval st) (c # cs)),
              fst (snd (accumulated st key)) +
                sum_list (map (\<lambda>c. memory_sample st (snd c) - memory_sample st (fst c)) (c # cs)),
              foldl max (snd (snd (accumulated st key))) (map (\<lambda>c. memory_sample st (snd c)) (c # cs)))"
    using acc' acc same_bindings_measure [OF sb] by simp
  from run sb3 ne3 acc3 show ?case by blast
qed

lemma memory_sample_nonneg: "0 \<le> memory_sample st rt"
  by (simp add: memory_sample_def call_getMemory_def split: memory_helper.splits)

lemma foldl_max_Max:
  fixes xs :: "int list"
  assumes "xs \<noteq> []" "\<forall>x\<in>set xs. 0 \<le> x"
  shows "foldl max 0 xs = Max (set xs)"
proof -
  have "(\<lambda>x s. max s x) = (max :: int \<Rightarrow> int \<Rightarrow> int)"
    by (simp add: fun_eq_iff max.commute)
  then have "foldl max 0 xs = fold max xs 0"
    by (simp add: foldl_conv_fold)
  also have "\<dots> = Max (set (0 # xs))"
    by (simp only: Max.set_eq_fold)
  also have "\<dots> = max 0 (Max (set xs))"
    using assms(1) by simp
  also have "\<dots> = Max (set xs)"
    using assms by (simp add: max_def Max_ge_iff)
  finally show ?thesis .
qed

lemma timing_fresh_eq:
  "timing_fresh = (initial_state (node_host (1, 0) 100))
       \<lparr> getStartTime := StartHrtime, getElapsedTime := ElapsedHrtime, getMemory := MemoryHeapUsed,
         timeStart := F_timeStartImpl, timeEnd := F_timeEndImpl \<rparr>"
  by (simp add: timing_fresh_def initialiseTimers_def setTimeHelpers_def initial_state_def
      node_host_def Let_def)

lemma special_cycle:
  assumes "timeStart st = F_timeStartImpl" and "timeEnd st = F_timeEndImpl"
    and "getPersistedLabel label (level_default level) = Inr key"
    and "timers st ''hasOwnProperty'' = None"
  shows "key = ''hasOwnProperty'' \<Longrightarrow>
           (case call_timeStart label level (set_env a st) of
              Inl e \<Rightarrow> Inl e
            | Inr st1 \<Rightarrow> call_timeEnd label level (set_env b st1)) = Inl TypeError"
    and "key = ''__proto__'' \<Longrightarrow> timers st key = None \<Longrightarrow>
           \<exists>st2. (case call_timeStart label level (set_env a st) of
                    Inl e \<Rightarrow> Inl e
                  | Inr st1 \<Rightarrow> call_timeEnd label level (set_env b st1)) = Inr st2 \<and>
             timers st2 = timers st \<and> timeStart st2 = timeStart st \<and> timeEnd st2 = timeEnd st"
  using assms
  by (simp_all add: call_timeStart_def call_timeEnd_def call_timer_fn_def timeStartImpl_def
      timeEndImpl_def obj_has_own_def set_env_def Let_def)

lemma run_cycles_proto:
  assumes "timeStart st = F_timeStartImpl" and "timeEnd st = F_timeEndImpl"
    and "getPersistedLabel label (level_default level) = Inr ''__proto__''"
    and "timers st ''hasOwnProperty'' = None" and "timers st ''__proto__'' = None"
  shows "\<exists>st'. run_cycles label level cycles st = Inr st' \<and> timers st' = timers st"
  using assms
proof (induction cycles arbitrary: st)
  case Nil
  then show ?case by simp
next
  case (Cons c cs)
  from special_cycle(2) [OF Cons.prems(1-4) refl Cons.prems(5), where a = "fst c" and b = "snd c"]
  obtain st2 where
    s: "(case call_timeStart label level (set_env (fst c) st) of
           Inl e \<Rightarrow> Inl e
         | Inr st1 \<Rightarrow> call_timeEnd label level (set_env (snd c) st1)) = Inr st2"
    and f: "timers st2 = timers st" "timeStart st2 = timeStart st" "timeEnd st2 = timeEnd st"
    by (elim exE conjE) (rule that, assumption+)
  from Cons.IH [of st2] f Cons.prems obtain st' where
    r: "run_cycles label level cs st2 = Inr st'" and t: "timers st' = timers st2"
    by auto
  from s r have "run_cycles label level (c # cs) st = Inr st'"
    by (auto split: sum.splits)
  with t f(1) show ?case by simp
qed

text \<open>
  C1, at two labels. The claim is made for every label. In a fresh Timing activation one
  cycle for the label \<open>hasOwnProperty\<close> stores the record where line 79 looks for the
  method, so \<open>timeEnd\<close> raises \<open>TypeError\<close>; one cycle for \<open>__proto__\<close> makes the record
  the prototype of \<open>timers\<close> and no own key, so \<open>timeEnd\<close> finds nothing and the
  snapshot stays empty.
\<close>

theorem timing_cycles_special_labels:
  "run_cycles ''hasOwnProperty'' (Some 3) [(node_host (1, 0) 100, later)] timing_fresh =
     Inl TypeError \<and>
   run_cycles ''__proto__'' (Some 3) [(node_host (1, 0) 100, later)] timing_fresh =
     Inr (timing_fresh
            \<lparr> env := later,
              timers_proto := Some \<lparr> memory = 0, startMemory = 100, startTime = (1, 0),
                                     time = 0, totalMemory = 0 \<rparr> \<rparr>) \<and>
   getTimings (timing_fresh
            \<lparr> env := later,
              timers_proto := Some \<lparr> memory = 0, startMemory = 100, startTime = (1, 0),
                                     time = 0, totalMemory = 0 \<rparr> \<rparr>) = Map.empty"
  unfolding timing_fresh_eq
  by (simp add: call_timeStart_def call_timeEnd_def call_timer_fn_def timeStartImpl_def
      timeEndImpl_def obj_has_own_def getPersistedLabel_def level_default_def set_env_def
      initial_state_def node_host_def later_def call_getMemory_def call_getStartTime_def
      getTimings_def fun_eq_iff Let_def)

text \<open>
  C1, amended. In Timing mode, for a label and level that the formatter turns into a
  key: once a record is stored under \<open>hasOwnProperty\<close>, \<open>timeStart\<close> and \<open>timeEnd\<close>
  raise \<open>TypeError\<close>. Otherwise \<open>timeEnd\<close> for a key without a record changes nothing,
  and after any non-empty sequence of complete cycles for a key without a record, other
  than \<open>__proto__\<close> and \<open>hasOwnProperty\<close>, the snapshot shows under the key: the
  intervals the cycles measure one by one, added from 0 in double arithmetic in the
  order of the cycles; the sum of the differences between the memory sample at the end
  and at the start of each cycle; and the greatest memory sample at an end. For the key
  \<open>hasOwnProperty\<close> the first \<open>timeEnd\<close> raises \<open>TypeError\<close>; for \<open>__proto__\<close> the
  cycles leave the own keys of the registry as they were.
\<close>

theorem timing_cycles_accumulate:
  assumes "timeStart st = F_timeStartImpl" and "timeEnd st = F_timeEndImpl"
    and "getPersistedLabel label (level_default level) = Inr key"
  shows "(timers st ''hasOwnProperty'' \<noteq> None \<longrightarrow>
            call_timeStart label level st = Inl TypeError \<and>
            call_timeEnd label level st = Inl TypeError) \<and>
         (timers st ''hasOwnProperty'' = None \<and> timers st key = None \<longrightarrow>
            call_timeEnd label level st = Inr st) \<and>
         (timers st ''hasOwnProperty'' = None \<and> timers st key = None \<and>
          key \<noteq> ''__proto__'' \<and> key \<noteq> ''hasOwnProperty'' \<and> cycles \<noteq> [] \<longrightarrow>
           (\<exists>st'. run_cycles label level cycles st = Inr st' \<and>
              getTimings st' key =
                Some (dsum (map (elapsed_interval st) cycles),
                      sum_list (map (\<lambda>c. memory_sample st (snd c) - memory_sample st (fst c)) cycles),
                      Max (set (map (\<lambda>c. memory_sample st (snd c)) cycles))))) \<and>
         (timers st ''hasOwnProperty'' = None \<and> key = ''hasOwnProperty'' \<and> cycles \<noteq> [] \<longrightarrow>
            run_cycles label level cycles st = Inl TypeError) \<and>
         (timers st ''hasOwnProperty'' = None \<and> key = ''__proto__'' \<and> timers st key = None \<longrightarrow>
            (\<exists>st'. run_cycles label level cycles st = Inr st' \<and> timers st' = timers st))"
proof -
  have c0: "timers st ''hasOwnProperty'' \<noteq> None \<longrightarrow>
            call_timeStart label level st = Inl TypeError \<and>
            call_timeEnd label level st = Inl TypeError"
    using assms
    by (auto simp: call_timeStart_def call_timeEnd_def call_timer_fn_def timeStartImpl_def
        timeEndImpl_def obj_has_own_def)
  have c1: "timers st ''hasOwnProperty'' = None \<and> timers st key = None \<longrightarrow>
            call_timeEnd label level st = Inr st"
  proof
    assume a: "timers st ''hasOwnProperty'' = None \<and> timers st key = None"
    then show "call_timeEnd label level st = Inr st"
      using assms timeEndImpl_ordinary(2) [OF assms(3), of st]
      by (simp add: call_timeEnd_def call_timer_fn_def)
  qed
  have c2: "timers st ''hasOwnProperty'' = None \<and> timers st key = None \<and>
          key \<noteq> ''__proto__'' \<and> key \<noteq> ''hasOwnProperty'' \<and> cycles \<noteq> [] \<longrightarrow>
           (\<exists>st'. run_cycles label level cycles st = Inr st' \<and>
              getTimings st' key =
                Some (dsum (map (elapsed_interval st) cycles),
                      sum_list (map (\<lambda>c. memory_sample st (snd c) - memory_sample st (fst c)) cycles),
                      Max (set (map (\<lambda>c. memory_sample st (snd c)) cycles))))"
  proof
    assume a: "timers st ''hasOwnProperty'' = None \<and> timers st key = None \<and>
          key \<noteq> ''__proto__'' \<and> key \<noteq> ''hasOwnProperty'' \<and> cycles \<noteq> []"
    then have acc0: "accumulated st key = (0, 0, 0)"
      by (simp add: accumulated_def getTimings_def)
    from a have k: "key \<noteq> ''__proto__''" "key \<noteq> ''hasOwnProperty''"
      and h: "timers st ''hasOwnProperty'' = None" by simp_all
    from run_cycles_accumulates [OF assms h k, of cycles] a obtain st' where
      r: "run_cycles label level cycles st = Inr st'" and ne: "getTimings st' key \<noteq> None" and
      acc: "accumulated st' key =
             (foldl dadd (fst (accumulated st key)) (map (elapsed_interval st) cycles),
              fst (snd (accumulated st key)) +
                sum_list (map (\<lambda>c. memory_sample st (snd c) - memory_sample st (fst c)) cycles),
              foldl max (snd (snd (accumulated st key))) (map (\<lambda>c. memory_sample st (snd c)) cycles))"
      by blast
    have mx: "foldl max 0 (map (\<lambda>c. memory_sample st (snd c)) cycles) =
            Max (set (map (\<lambda>c. memory_sample st (snd c)) cycles))"
      using a by (intro foldl_max_Max) (auto simp: memory_sample_nonneg)
    from ne obtain x where x: "getTimings st' key = Some x" by auto
    then have "accumulated st' key = x" by (simp add: accumulated_def)
    with acc acc0 mx x r show "\<exists>st'. run_cycles label level cycles st = Inr st' \<and>
              getTimings st' key =
                Some (dsum (map (elapsed_interval st) cycles),
                      sum_list (map (\<lambda>c. memory_sample st (snd c) - memory_sample st (fst c)) cycles),
                      Max (set (map (\<lambda>c. memory_sample st (snd c)) cycles)))"
      by (simp add: dsum_def)
  qed
  have c3: "timers st ''hasOwnProperty'' = None \<and> key = ''hasOwnProperty'' \<and> cycles \<noteq> [] \<longrightarrow>
            run_cycles label level cycles st = Inl TypeError"
  proof
    assume a: "timers st ''hasOwnProperty'' = None \<and> key = ''hasOwnProperty'' \<and> cycles \<noteq> []"
    then obtain c cs where cs: "cycles = c # cs" by (cases cycles) auto
    from a special_cycle(1) [OF assms _, where a = "fst c" and b = "snd c"]
    have "(case call_timeStart label level (set_env (fst c) st) of
              Inl e \<Rightarrow> Inl e
            | Inr st1 \<Rightarrow> call_timeEnd label level (set_env (snd c) st1)) = Inl TypeError"
      by simp
    then show "run_cycles label level cycles st = Inl TypeError"
      unfolding cs by (auto split: sum.splits)
  qed
  have c4: "timers st ''hasOwnProperty'' = None \<and> key = ''__proto__'' \<and> timers st key = None \<longrightarrow>
            (\<exists>st'. run_cycles label level cycles st = Inr st' \<and> timers st' = timers st)"
    using run_cycles_proto [OF assms(1,2), of label level cycles] assms(3) by auto
  from c0 c1 c2 c3 c4 show ?thesis by (intro conjI)
qed

theorem timing_cycles_accumulate_witness:
  "timeStart timing_fresh = F_timeStartImpl \<and> timeEnd timing_fresh = F_timeEndImpl \<and>
   getPersistedLabel ''build'' (level_default (Some 3)) = Inr ''build'' \<and>
   timers timing_fresh ''hasOwnProperty'' = None \<and>
   timers timing_fresh ''build'' = None \<and>
   ''build'' \<noteq> ''__proto__'' \<and> ''build'' \<noteq> ''hasOwnProperty'' \<and>
   [(node_host (1, 999000000) 100, node_host (2, 4000000) 160),
    (node_host (3, 0) 150, node_host (3, 7000000) 120)] \<noteq> [] \<and>
   call_timeEnd ''build'' (Some 3) timing_fresh = Inr timing_fresh \<and>
   (\<exists>st'. run_cycles ''build'' (Some 3)
            [(node_host (1, 999000000) 100, node_host (2, 4000000) 160),
             (node_host (3, 0) 150, node_host (3, 7000000) 120)] timing_fresh = Inr st' \<and>
          getTimings st' ''build'' = Some (12, 30, 160)) \<and>
   getPersistedLabel ''hasOwnProperty'' (level_default (Some 3)) = Inr ''hasOwnProperty'' \<and>
   run_cycles ''hasOwnProperty'' (Some 3)
     [(node_host (1, 999000000) 100, node_host (2, 4000000) 160),
      (node_host (3, 0) 150, node_host (3, 7000000) 120)] timing_fresh = Inl TypeError \<and>
   getPersistedLabel ''__proto__'' (level_default (Some 3)) = Inr ''__proto__'' \<and>
   timers timing_fresh ''__proto__'' = None \<and>
   (\<exists>st'. run_cycles ''__proto__'' (Some 3)
            [(node_host (1, 999000000) 100, node_host (2, 4000000) 160),
             (node_host (3, 0) 150, node_host (3, 7000000) 120)] timing_fresh = Inr st' \<and>
          timers st' = timers timing_fresh) \<and>
   timeStart (timing_fresh\<lparr> timers := [''hasOwnProperty'' \<mapsto> zero_timer] \<rparr>) = F_timeStartImpl \<and>
   timeEnd (timing_fresh\<lparr> timers := [''hasOwnProperty'' \<mapsto> zero_timer] \<rparr>) = F_timeEndImpl \<and>
   timers (timing_fresh\<lparr> timers := [''hasOwnProperty'' \<mapsto> zero_timer] \<rparr>) ''hasOwnProperty'' \<noteq> None \<and>
   call_timeStart ''build'' (Some 3) (timing_fresh\<lparr> timers := [''hasOwnProperty'' \<mapsto> zero_timer] \<rparr>) =
     Inl TypeError \<and>
   call_timeEnd ''build'' (Some 3) (timing_fresh\<lparr> timers := [''hasOwnProperty'' \<mapsto> zero_timer] \<rparr>) =
     Inl TypeError"
proof -
  let ?cs = "[(node_host (1, 999000000) 100, node_host (2, 4000000) 160),
             (node_host (3, 0) 150, node_host (3, 7000000) 120)]"
  let ?h = "timing_fresh\<lparr> timers := [''hasOwnProperty'' \<mapsto> zero_timer] \<rparr>"
  have b: "timeStart timing_fresh = F_timeStartImpl" "timeEnd timing_fresh = F_timeEndImpl"
    unfolding timing_fresh_eq by simp_all
  have bh: "timeStart ?h = F_timeStartImpl" "timeEnd ?h = F_timeEndImpl"
    "timers ?h ''hasOwnProperty'' \<noteq> None"
    using b by simp_all
  have k: "getPersistedLabel ''build'' (level_default (Some 3)) = Inr ''build''"
    and kh: "getPersistedLabel ''hasOwnProperty'' (level_default (Some 3)) = Inr ''hasOwnProperty''"
    and kp: "getPersistedLabel ''__proto__'' (level_default (Some 3)) = Inr ''__proto__''"
    by (simp_all add: getPersistedLabel_def level_default_def)
  have n: "timers timing_fresh ''hasOwnProperty'' = None" "timers timing_fresh ''build'' = None"
    "timers timing_fresh ''__proto__'' = None"
    unfolding timing_fresh_eq by (simp_all add: initial_state_def)
  have ne: "''build'' \<noteq> ''__proto__''" "''build'' \<noteq> ''hasOwnProperty''" "?cs \<noteq> []"
    by simp_all
  have e: "map (elapsed_interval timing_fresh) ?cs = [5, 7]"
    unfolding timing_fresh_eq
    by (simp add: elapsed_interval_def set_env_def call_getElapsedTime_def
        call_getStartTime_def node_host_def hrtime_since_def normalizeHrTime_def Let_def
        dadd_def dsub_def dmul_def ddiv_def)
  have m: "map (\<lambda>c. memory_sample timing_fresh (snd c)) ?cs = [160, 120]"
    "map (\<lambda>c. memory_sample timing_fresh (snd c) - memory_sample timing_fresh (fst c)) ?cs = [60, -30]"
    unfolding timing_fresh_eq
    by (simp_all add: memory_sample_def set_env_def call_getMemory_def node_host_def)
  have d: "dsum [5, 7] = 12"
    by (simp add: dsum_def dadd_def)
  note a = timing_cycles_accumulate [OF b k, of ?cs]
  note ah = timing_cycles_accumulate [OF b kh, of ?cs]
  note ap = timing_cycles_accumulate [OF b kp, of ?cs]
  note a0 = timing_cycles_accumulate [OF bh(1,2) k, of ?cs]
  note r1 = a [THEN conjunct2, THEN conjunct1, THEN mp, OF conjI [OF n(1) n(2)]]
  from a [THEN conjunct2, THEN conjunct2, THEN conjunct1, THEN mp,
      OF conjI [OF n(1) conjI [OF n(2) conjI [OF ne(1) conjI [OF ne(2) ne(3)]]]]]
  have r2: "\<exists>st'. run_cycles ''build'' (Some 3) ?cs timing_fresh = Inr st' \<and>
          getTimings st' ''build'' = Some (12, 30, 160)"
    unfolding e m d by simp
  note r3 = ah [THEN conjunct2, THEN conjunct2, THEN conjunct2, THEN conjunct1, THEN mp,
      OF conjI [OF n(1) conjI [OF refl ne(3)]]]
  note r4 = ap [THEN conjunct2, THEN conjunct2, THEN conjunct2, THEN conjunct2, THEN mp,
      OF conjI [OF n(1) conjI [OF refl n(3)]]]
  note r5 = a0 [THEN conjunct1, THEN mp, OF bh(3)]
  show ?thesis
    using b k n(1,2) ne r1 r2 kh r3 kp n(3) r4 bh r5 [THEN conjunct1] r5 [THEN conjunct2]
    by (intro conjI) assumption+
qed

section \<open>Properties of initialisation\<close>

lemma array_map_getPluginWithSpan: "array_map getPluginWithSpan ps i st = (Returned ps, st)"
  by (induction ps arbitrary: i) (simp_all add: getPluginWithSpan_def)

lemma map_of_set_prop: "map_of (set_prop kvs k v) k' = (if k' = k then Some v else map_of kvs k')"
  by (induction kvs) auto

lemma map_of_foldl_set_prop:
  "map_of (foldl (\<lambda>acc k. set_prop acc k (f k)) acc0 ks) k =
     (if k \<in> set ks then Some (f k) else map_of acc0 k)"
  by (induction ks arbitrary: acc0) (auto simp: map_of_set_prop)

lemma new_timerLabel_checked:
  "new_timerLabel st plugin index hook =
     (if max_string_length < length (timerLabel_of st plugin index hook) then Inl RangeError
      else Inr (timerLabel_of st plugin index hook))"
  by (simp add: new_timerLabel_def timerLabel_of_def template_def Let_def)

lemma instrument_fold_raised:
  "foldl (\<lambda>acc hook. case acc of Inl e \<Rightarrow> Inl e | Inr filled \<Rightarrow> g filled hook) (Inl e) hooks = Inl e"
  by (induction hooks) simp_all

lemma instrument_fold:
  fixes st plugin index timedPlugin
  defines "step \<equiv> (\<lambda>filled hook.
             if map_of TIMED_PLUGIN_HOOKS hook = Some True
             then (case new_timerLabel st plugin index hook of
                     Inl e \<Rightarrow> Inl e
                   | Inr l \<Rightarrow> Inr (set_prop filled hook (TimedHook plugin hook l timedPlugin)))
             else Inr (set_prop filled hook (get_prop st plugin hook)))"
    and "value \<equiv> (\<lambda>hook.
             if map_of TIMED_PLUGIN_HOOKS hook = Some True
             then TimedHook plugin hook (timerLabel_of st plugin index hook) timedPlugin
             else get_prop st plugin hook)"
  shows "(\<forall>hook\<in>set hooks. map_of TIMED_PLUGIN_HOOKS hook = Some True \<longrightarrow>
            length (timerLabel_of st plugin index hook) \<le> max_string_length) \<Longrightarrow>
         foldl (\<lambda>acc hook. case acc of Inl e \<Rightarrow> Inl e | Inr filled \<Rightarrow> step filled hook)
           (Inr acc0) hooks =
         Inr (foldl (\<lambda>filled hook. set_prop filled hook (value hook)) acc0 hooks)"
    and "\<not> (\<forall>hook\<in>set hooks. map_of TIMED_PLUGIN_HOOKS hook = Some True \<longrightarrow>
            length (timerLabel_of st plugin index hook) \<le> max_string_length) \<Longrightarrow>
         foldl (\<lambda>acc hook. case acc of Inl e \<Rightarrow> Inl e | Inr filled \<Rightarrow> step filled hook)
           (Inr acc0) hooks = Inl RangeError"
proof -
  show "(\<forall>hook\<in>set hooks. map_of TIMED_PLUGIN_HOOKS hook = Some True \<longrightarrow>
            length (timerLabel_of st plugin index hook) \<le> max_string_length) \<Longrightarrow>
         foldl (\<lambda>acc hook. case acc of Inl e \<Rightarrow> Inl e | Inr filled \<Rightarrow> step filled hook)
           (Inr acc0) hooks =
         Inr (foldl (\<lambda>filled hook. set_prop filled hook (value hook)) acc0 hooks)"
  proof (induction hooks arbitrary: acc0)
    case Nil
    then show ?case by simp
  next
    case (Cons h hs)
    have "step acc0 h = Inr (set_prop acc0 h (value h))"
      using Cons.prems by (auto simp: step_def value_def new_timerLabel_checked)
    with Cons.IH [of "set_prop acc0 h (value h)"] Cons.prems show ?case by simp
  qed
  show "\<not> (\<forall>hook\<in>set hooks. map_of TIMED_PLUGIN_HOOKS hook = Some True \<longrightarrow>
            length (timerLabel_of st plugin index hook) \<le> max_string_length) \<Longrightarrow>
         foldl (\<lambda>acc hook. case acc of Inl e \<Rightarrow> Inl e | Inr filled \<Rightarrow> step filled hook)
           (Inr acc0) hooks = Inl RangeError"
  proof (induction hooks arbitrary: acc0)
    case Nil
    then show ?case by simp
  next
    case (Cons h hs)
    show ?case
    proof (cases "map_of TIMED_PLUGIN_HOOKS h = Some True \<and>
                  max_string_length < length (timerLabel_of st plugin index h)")
      case True
      then have "step acc0 h = Inl RangeError"
        by (simp add: step_def new_timerLabel_checked)
      then show ?thesis by (simp add: instrument_fold_raised)
    next
      case False
      then have s: "step acc0 h = Inr (set_prop acc0 h (value h))"
        by (auto simp: step_def value_def new_timerLabel_checked)
      from False Cons.prems have
        "\<not> (\<forall>hook\<in>set hs. map_of TIMED_PLUGIN_HOOKS hook = Some True \<longrightarrow>
            length (timerLabel_of st plugin index hook) \<le> max_string_length)"
        by auto
      from Cons.IH [OF this, of "set_prop acc0 h (value h)"] s show ?thesis by simp
    qed
  qed
qed

lemma getPluginWithTimers_result:
  assumes "labels_fit st plugin index"
  shows "\<exists>props. getPluginWithTimers plugin index st =
     (Returned (next_object st),
      st\<lparr> objects := (objects st)(next_object st := props), next_object := Suc (next_object st) \<rparr>) \<and>
     (\<forall>hook. (case map_of props hook of None \<Rightarrow> Undefined | Some v \<Rightarrow> v) =
        timed_copy st plugin index (next_object st) hook)"
proof -
  let ?f = "\<lambda>hook. if map_of TIMED_PLUGIN_HOOKS hook = Some True
                     then TimedHook plugin hook (timerLabel_of st plugin index hook) (next_object st)
                     else get_prop st plugin hook"
  let ?props = "foldl (\<lambda>acc hook. set_prop acc hook (?f hook)) [] (map fst (objects st plugin))"
  from assms have fit: "\<forall>hook\<in>set (map fst (objects st plugin)).
      map_of TIMED_PLUGIN_HOOKS hook = Some True \<longrightarrow>
      length (timerLabel_of st plugin index hook) \<le> max_string_length"
    by (simp add: labels_fit_def)
  have eq: "getPluginWithTimers plugin index st =
     (Returned (next_object st),
      st\<lparr> objects := (objects st)(next_object st := ?props), next_object := Suc (next_object st) \<rparr>)"
    unfolding getPluginWithTimers_def Let_def
    by (simp only: instrument_fold(1) [OF fit] sum.case)
  have "(case map_of ?props hook of None \<Rightarrow> Undefined | Some v \<Rightarrow> v) =
        timed_copy st plugin index (next_object st) hook" for hook
    by (simp add: map_of_foldl_set_prop timed_copy_def)
  with eq show ?thesis by blast
qed

lemma getPluginWithTimers_raises:
  assumes "\<not> labels_fit st plugin index"
  shows "getPluginWithTimers plugin index st = (Threw RangeError, st)"
proof -
  from assms have unfit: "\<not> (\<forall>hook\<in>set (map fst (objects st plugin)).
      map_of TIMED_PLUGIN_HOOKS hook = Some True \<longrightarrow>
      length (timerLabel_of st plugin index hook) \<le> max_string_length)"
    by (simp add: labels_fit_def)
  show ?thesis
    unfolding getPluginWithTimers_def Let_def
    by (simp only: instrument_fold(2) [OF unfit] sum.case)
qed

lemma timed_copy_cong:
  assumes "objects st' plugin = objects st plugin" and "env st' = env st"
  shows "timed_copy st' plugin index r hook = timed_copy st plugin index r hook"
proof -
  have g: "get_prop st' plugin k = get_prop st plugin k" for k
    using assms by (simp add: get_prop_def)
  have "to_string st' v = to_string st v" for v
    using assms(2) by (simp add: to_string_def split: jsval.splits)
  with g have "timerLabel_of st' plugin index hook = timerLabel_of st plugin index hook"
    by (simp add: timerLabel_of_def Let_def cong: if_cong)
  then show ?thesis
    using assms g [of hook] by (simp add: timed_copy_def)
qed

lemma labels_fit_cong:
  assumes "objects st' plugin = objects st plugin" and "env st' = env st"
  shows "labels_fit st' plugin index = labels_fit st plugin index"
proof -
  have g: "get_prop st' plugin k = get_prop st plugin k" for k
    using assms by (simp add: get_prop_def)
  have "to_string st' v = to_string st v" for v
    using assms(2) by (simp add: to_string_def split: jsval.splits)
  with g have "timerLabel_of st' plugin index hook = timerLabel_of st plugin index hook" for hook
    by (simp add: timerLabel_of_def Let_def cong: if_cong)
  then show ?thesis
    using assms(1) by (simp add: labels_fit_def)
qed

lemma array_map_getPluginWithTimers:
  assumes "\<forall>r\<in>set ps. r < next_object st"
    and "\<forall>j<length ps. labels_fit st (ps ! j) (i + j)"
  shows "\<exists>st'. array_map getPluginWithTimers ps i st =
           (Returned (map (\<lambda>j. next_object st + j) [0..<length ps]), st') \<and>
         next_object st' = next_object st + length ps \<and>
         st'\<lparr> objects := objects st, next_object := next_object st \<rparr> = st \<and>
         (\<forall>r<next_object st. objects st' r = objects st r) \<and>
         (\<forall>j<length ps. \<forall>hook. get_prop st' (next_object st + j) hook =
             timed_copy st (ps ! j) (i + j) (next_object st + j) hook)"
  using assms
proof (induction ps arbitrary: i st)
  case Nil
  then show ?case by simp
next
  case (Cons x xs)
  from Cons.prems(2) have "labels_fit st x i" by auto
  from getPluginWithTimers_result [OF this] obtain props where
    step: "getPluginWithTimers x i st =
      (Returned (next_object st),
       st\<lparr> objects := (objects st)(next_object st := props), next_object := Suc (next_object st) \<rparr>)"
    and props: "\<And>hook. (case map_of props hook of None \<Rightarrow> Undefined | Some v \<Rightarrow> v) =
        timed_copy st x i (next_object st) hook"
    by blast
  let ?st1 = "st\<lparr> objects := (objects st)(next_object st := props), next_object := Suc (next_object st) \<rparr>"
  have wf1: "\<forall>r\<in>set xs. r < next_object ?st1"
    using Cons.prems by auto
  have fit1: "\<forall>j<length xs. labels_fit ?st1 (xs ! j) (Suc i + j)"
  proof (intro allI impI)
    fix j assume j: "j < length xs"
    then have "xs ! j < next_object st"
      using Cons.prems(1) by simp
    then have "objects ?st1 (xs ! j) = objects st (xs ! j)" "env ?st1 = env st" by simp_all
    from labels_fit_cong [OF this] Cons.prems(2) [rule_format, of "Suc j"] j
    show "labels_fit ?st1 (xs ! j) (Suc i + j)" by simp
  qed
  from Cons.IH [OF wf1 fit1] obtain st' where
    run: "array_map getPluginWithTimers xs (Suc i) ?st1 =
           (Returned (map (\<lambda>j. next_object ?st1 + j) [0..<length xs]), st')" and
    nxt: "next_object st' = next_object ?st1 + length xs" and
    rest: "st'\<lparr> objects := objects ?st1, next_object := next_object ?st1 \<rparr> = ?st1" and
    old: "\<forall>r<next_object ?st1. objects st' r = objects ?st1 r" and
    new: "\<forall>j<length xs. \<forall>hook. get_prop st' (next_object ?st1 + j) hook =
             timed_copy ?st1 (xs ! j) (Suc i + j) (next_object ?st1 + j) hook"
    by blast
  have idx: "map (\<lambda>j. next_object st + j) [0..<length (x # xs)] =
             next_object st # map (\<lambda>j. next_object ?st1 + j) [0..<length xs]"
    by (simp add: upt_rec [of 0] map_Suc_upt [symmetric] del: upt_Suc)
  have r1: "array_map getPluginWithTimers (x # xs) i st =
           (Returned (map (\<lambda>j. next_object st + j) [0..<length (x # xs)]), st')"
    using step run idx by simp
  have r2: "next_object st' = next_object st + length (x # xs)"
    using nxt by simp
  have r3: "st'\<lparr> objects := objects st, next_object := next_object st \<rparr> = st"
  proof -
    have "st'\<lparr> objects := objects st, next_object := next_object st \<rparr> =
          (st'\<lparr> objects := objects ?st1, next_object := next_object ?st1 \<rparr>)
            \<lparr> objects := objects st, next_object := next_object st \<rparr>"
      by simp
    also have "\<dots> = ?st1\<lparr> objects := objects st, next_object := next_object st \<rparr>"
      by (simp only: rest)
    also have "\<dots> = st" by simp
    finally show ?thesis .
  qed
  have r4: "\<forall>r<next_object st. objects st' r = objects st r"
    using old by simp
  have r5: "get_prop st' (next_object st + j) hook =
             timed_copy st ((x # xs) ! j) (i + j) (next_object st + j) hook"
    if "j < length (x # xs)" for j hook
  proof (cases j)
    case 0
    have "objects st' (next_object st) = props"
      using old by simp
    with 0 props show ?thesis by (simp add: get_prop_def)
  next
    case (Suc k)
    with that have k: "k < length xs" by simp
    then have "xs ! k < next_object st"
      using Cons.prems by simp
    then have "objects ?st1 (xs ! k) = objects st (xs ! k)" "env ?st1 = env st" by simp_all
    from timed_copy_cong [OF this] new k Suc show ?thesis by simp
  qed
  from r1 r2 r3 r4 r5 show ?case by blast
qed

lemma array_map_getPluginWithTimers_raises:
  assumes "\<forall>r\<in>set ps. r < next_object st"
    and "\<not> (\<forall>j<length ps. labels_fit st (ps ! j) (i + j))"
  shows "\<exists>st'. array_map getPluginWithTimers ps i st = (Threw RangeError, st') \<and>
           st'\<lparr> objects := objects st, next_object := next_object st \<rparr> = st"
  using assms
proof (induction ps arbitrary: i st)
  case Nil
  then show ?case by simp
next
  case (Cons x xs)
  show ?case
  proof (cases "labels_fit st x i")
    case False
    from getPluginWithTimers_raises [OF this] show ?thesis by simp
  next
    case True
    from getPluginWithTimers_result [OF this] obtain props where
      step: "getPluginWithTimers x i st =
        (Returned (next_object st),
         st\<lparr> objects := (objects st)(next_object st := props), next_object := Suc (next_object st) \<rparr>)"
      by blast
    let ?st1 = "st\<lparr> objects := (objects st)(next_object st := props), next_object := Suc (next_object st) \<rparr>"
    have wf1: "\<forall>r\<in>set xs. r < next_object ?st1"
      using Cons.prems by auto
    from Cons.prems(2) obtain j where j: "j < length (x # xs)"
      and nf: "\<not> labels_fit st ((x # xs) ! j) (i + j)"
      by blast
    with True obtain k where k: "j = Suc k" by (cases j) auto
    with j have kl: "k < length xs" by simp
    then have "xs ! k < next_object st"
      using Cons.prems(1) by simp
    then have "objects ?st1 (xs ! k) = objects st (xs ! k)" "env ?st1 = env st" by simp_all
    from labels_fit_cong [OF this] nf k have "\<not> labels_fit ?st1 (xs ! k) (Suc i + k)"
      by simp
    with kl have "\<not> (\<forall>j<length xs. labels_fit ?st1 (xs ! j) (Suc i + j))" by blast
    from Cons.IH [OF wf1 this] obtain st' where
      run: "array_map getPluginWithTimers xs (Suc i) ?st1 = (Threw RangeError, st')" and
      rest: "st'\<lparr> objects := objects ?st1, next_object := next_object ?st1 \<rparr> = ?st1"
      by blast
    have r1: "array_map getPluginWithTimers (x # xs) i st = (Threw RangeError, st')"
      using step run by simp
    have r3: "st'\<lparr> objects := objects st, next_object := next_object st \<rparr> = st"
    proof -
      have "st'\<lparr> objects := objects st, next_object := next_object st \<rparr> =
            (st'\<lparr> objects := objects ?st1, next_object := next_object ?st1 \<rparr>)
              \<lparr> objects := objects st, next_object := next_object st \<rparr>"
        by simp
      also have "\<dots> = ?st1\<lparr> objects := objects st, next_object := next_object st \<rparr>"
        by (simp only: rest)
      also have "\<dots> = st" by simp
      finally show ?thesis .
    qed
    from r1 r3 show ?thesis by blast
  qed
qed

lemma setTimeHelpers_frame [simp]:
  "timers (setTimeHelpers st) = timers st"
  "spans (setTimeHelpers st) = spans st"
  "timeStart (setTimeHelpers st) = timeStart st"
  "timeEnd (setTimeHelpers st) = timeEnd st"
  "env (setTimeHelpers st) = env st"
  "tracer_calls (setTimeHelpers st) = tracer_calls st"
  "next_span (setTimeHelpers st) = next_span st"
  "timers_proto (setTimeHelpers st) = timers_proto st"
  "spans_proto (setTimeHelpers st) = spans_proto st"
  "objects (setTimeHelpers st) = objects st"
  "next_object (setTimeHelpers st) = next_object st"
  "promises (setTimeHelpers st) = promises st"
  "next_promise (setTimeHelpers st) = next_promise st"
  by (simp_all add: setTimeHelpers_def Let_def)

lemma initialiseTimers_trace_only:
  assumes "trace io" "\<not> perf io" "plugins io = Some ps"
  shows "initialiseTimers io st =
           (Returned io,
            (setTimeHelpers (st\<lparr> timeStart := NOOP, timeEnd := NOOP, spans := Map.empty,
                                  spans_proto := None \<rparr>))
              \<lparr> timeStart := F_timeStartTraceImpl, timeEnd := F_timeEndTraceImpl \<rparr>)"
  using assms by (simp add: initialiseTimers_def Let_def array_map_getPluginWithSpan)

lemma initialiseTimers_perf_trace:
  assumes "trace io" "perf io" "plugins io = Some ps"
    and "array_map getPluginWithTimers ps 0
           ((setTimeHelpers (st\<lparr> timers := Map.empty, timers_proto := None \<rparr>))
              \<lparr> timeStart := F_timeStartImpl, timeEnd := F_timeEndImpl \<rparr>) = (Returned ps1, st3)"
  shows "initialiseTimers io st =
           (Returned (io\<lparr> plugins := Some ps1 \<rparr>),
            (setTimeHelpers (st3\<lparr> spans := Map.empty, spans_proto := None \<rparr>))
              \<lparr> timeStart := F_timeStartTraceImpl, timeEnd := F_timeEndTraceImpl \<rparr>)"
  using assms by (simp add: initialiseTimers_def Let_def array_map_getPluginWithSpan)

lemma initialiseTimers_perf_raises:
  assumes "perf io" "plugins io = Some ps"
    and "array_map getPluginWithTimers ps 0
           ((setTimeHelpers (st\<lparr> timers := Map.empty, timers_proto := None \<rparr>))
              \<lparr> timeStart := F_timeStartImpl, timeEnd := F_timeEndImpl \<rparr>) = (Threw e, st3)"
  shows "initialiseTimers io st = (Threw e, st3)"
  using assms by (simp add: initialiseTimers_def Let_def)

lemma labels_fit_p:
  assumes "get_prop st plugin ''name'' = Str ''p''"
  shows "labels_fit st plugin 0"
  unfolding labels_fit_def
proof (intro ballI impI)
  fix hook
  assume "map_of TIMED_PLUGIN_HOOKS hook = Some True"
  then have "length hook \<le> 20"
    by (auto simp: TIMED_PLUGIN_HOOKS_def split: if_splits)
  moreover have "timerLabel_of st plugin 0 hook = ''plugin 0 (p) - '' @ hook"
    using assms
    by (simp add: timerLabel_of_def truthy_def to_string_def decimal.simps digit_char_def)
  ultimately show "length (timerLabel_of st plugin 0 hook) \<le> max_string_length"
    by (simp add: max_string_length_def)
qed

lemma long_name_unfit: "\<not> labels_fit long_name_state 0 0"
proof -
  have pos: "0 < max_string_length"
    by (simp add: max_string_length_def)
  have len: "length long_name = max_string_length"
    by (simp only: long_name_def length_replicate)
  have ne: "long_name \<noteq> []"
    using len pos by auto
  have name: "get_prop long_name_state 0 ''name'' = Str long_name"
    by (simp add: long_name_state_def get_prop_def)
  have "max_string_length < length (timerLabel_of long_name_state 0 0 ''transform'')"
    using len ne by (simp add: timerLabel_of_def name truthy_def to_string_def Let_def)
  moreover have "''transform'' \<in> set (map fst (objects long_name_state 0))"
    "map_of TIMED_PLUGIN_HOOKS ''transform'' = Some True"
    by (simp_all add: long_name_state_def TIMED_PLUGIN_HOOKS_def)
  ultimately show ?thesis
    unfolding labels_fit_def by (meson not_less)
qed

text \<open>
  C3, with both flags set. The claim says the plugin list is not rewritten whenever
  \<open>trace\<close> is true; with \<open>perf\<close> also true the Timing branch has already replaced
  the plugin by a new object whose \<open>transform\<close> is a timing closure.
\<close>

theorem trace_and_perf_rewrites_plugins:
  "fst (initialiseTimers \<lparr> perf = True, trace = True, plugins = Some [0] \<rparr> example_state) =
     Returned \<lparr> perf = True, trace = True, plugins = Some [1] \<rparr> \<and>
   get_prop (snd (initialiseTimers \<lparr> perf = True, trace = True, plugins = Some [0] \<rparr> example_state))
     1 ''transform'' = TimedHook 0 ''transform'' ''plugin 0 (p) - transform'' 1"
  by (simp add: initialiseTimers_def Let_def example_state_def example_plugin_def
      getPluginWithTimers_def getPluginWithSpan_def TIMED_PLUGIN_HOOKS_def new_timerLabel_def
      template_def max_string_length_def
      get_prop_def truthy_def to_string_def decimal.simps digit_char_def initial_state_def
      setTimeHelpers_def node_host_def)

text \<open>
  C3, amended. Let \<open>trace\<close> be true at initialisation and the plugin list present.
  With \<open>perf\<close> false, or with \<open>perf\<close> true and every label of every plugin short
  enough to be a string, the two slots end up bound to the tracing functions and the
  span registry is empty. With \<open>perf\<close> false the options and the object store are as
  before: every plugin is the same reference and no closure is installed. With \<open>perf\<close>
  also true the Timing branch runs first: the list holds one fresh object per plugin,
  built by \<open>getPluginWithTimers\<close>, and the tracing branch passes that list through.
  With \<open>perf\<close> true and a label that is too long, the Timing branch raises
  \<open>RangeError\<close> and the tracing branch does not run: the slots stay bound to the
  Timing functions and the span registry is not reset.
\<close>

theorem tracing_initialisation:
  assumes "trace io" and "plugins io = Some ps"
  shows "((perf io \<longrightarrow> (\<forall>r\<in>set ps. r < next_object st) \<and>
                      (\<forall>j<length ps. labels_fit st (ps ! j) j)) \<longrightarrow>
          (\<exists>io' st'. initialiseTimers io st = (Returned io', st') \<and>
             timeStart st' = F_timeStartTraceImpl \<and> timeEnd st' = F_timeEndTraceImpl \<and>
             spans st' = Map.empty \<and>
             (\<not> perf io \<longrightarrow> io' = io \<and> objects st' = objects st \<and> next_object st' = next_object st) \<and>
             (perf io \<and> (\<forall>r\<in>set ps. r < next_object st) \<longrightarrow>
                plugins io' = Some (map (\<lambda>j. next_object st + j) [0..<length ps]) \<and>
                (\<forall>r<next_object st. objects st' r = objects st r) \<and>
                (\<forall>j<length ps. \<forall>hook. get_prop st' (next_object st + j) hook =
                   timed_copy st (ps ! j) j (next_object st + j) hook)))) \<and>
         (perf io \<and> (\<forall>r\<in>set ps. r < next_object st) \<and>
          \<not> (\<forall>j<length ps. labels_fit st (ps ! j) j) \<longrightarrow>
          (\<exists>st'. initialiseTimers io st = (Threw RangeError, st') \<and>
             timeStart st' = F_timeStartImpl \<and> timeEnd st' = F_timeEndImpl \<and>
             spans st' = spans st \<and> spans_proto st' = spans_proto st))"
proof (cases "perf io")
  case False
  with initialiseTimers_trace_only [OF assms(1) False assms(2), of st] show ?thesis
    by simp
next
  case True
  let ?st2 = "(setTimeHelpers (st\<lparr> timers := Map.empty, timers_proto := None \<rparr>))
              \<lparr> timeStart := F_timeStartImpl, timeEnd := F_timeEndImpl \<rparr>"
  have tc: "timed_copy ?st2 p j r hook = timed_copy st p j r hook" for p j r hook
    by (rule timed_copy_cong) simp_all
  have lf: "labels_fit ?st2 p j = labels_fit st p j" for p j
    by (rule labels_fit_cong) simp_all
  have fits: "\<exists>io' st'. initialiseTimers io st = (Returned io', st') \<and>
             timeStart st' = F_timeStartTraceImpl \<and> timeEnd st' = F_timeEndTraceImpl \<and>
             spans st' = Map.empty \<and>
             (\<not> perf io \<longrightarrow> io' = io \<and> objects st' = objects st \<and> next_object st' = next_object st) \<and>
             (perf io \<and> (\<forall>r\<in>set ps. r < next_object st) \<longrightarrow>
                plugins io' = Some (map (\<lambda>j. next_object st + j) [0..<length ps]) \<and>
                (\<forall>r<next_object st. objects st' r = objects st r) \<and>
                (\<forall>j<length ps. \<forall>hook. get_prop st' (next_object st + j) hook =
                   timed_copy st (ps ! j) j (next_object st + j) hook))"
    if wf: "\<forall>r\<in>set ps. r < next_object st" and fit: "\<forall>j<length ps. labels_fit st (ps ! j) j"
  proof -
    from wf have wf2: "\<forall>r\<in>set ps. r < next_object ?st2" by simp
    from fit have fit2: "\<forall>j<length ps. labels_fit ?st2 (ps ! j) (0 + j)" by (simp add: lf)
    from array_map_getPluginWithTimers [OF wf2 fit2] obtain st3 where
      am: "array_map getPluginWithTimers ps 0 ?st2 =
             (Returned (map (\<lambda>j. next_object ?st2 + j) [0..<length ps]), st3)"
      and old: "\<forall>r<next_object ?st2. objects st3 r = objects ?st2 r"
      and new: "\<forall>j<length ps. \<forall>hook. get_prop st3 (next_object ?st2 + j) hook =
             timed_copy ?st2 (ps ! j) (0 + j) (next_object ?st2 + j) hook"
      by blast
    let ?st' = "(setTimeHelpers (st3\<lparr> spans := Map.empty, spans_proto := None \<rparr>))
              \<lparr> timeStart := F_timeStartTraceImpl, timeEnd := F_timeEndTraceImpl \<rparr>"
    have init: "initialiseTimers io st =
        (Returned (io\<lparr> plugins := Some (map (\<lambda>j. next_object ?st2 + j) [0..<length ps]) \<rparr>), ?st')"
      by (rule initialiseTimers_perf_trace [OF assms(1) True assms(2) am])
    have gp: "get_prop ?st' r hook = get_prop st3 r hook" for r hook
      by (simp add: get_prop_def)
    from init old new True show ?thesis
      by (simp add: tc gp)
  qed
  have raises: "\<exists>st'. initialiseTimers io st = (Threw RangeError, st') \<and>
             timeStart st' = F_timeStartImpl \<and> timeEnd st' = F_timeEndImpl \<and>
             spans st' = spans st \<and> spans_proto st' = spans_proto st"
    if wf: "\<forall>r\<in>set ps. r < next_object st" and unfit: "\<not> (\<forall>j<length ps. labels_fit st (ps ! j) j)"
  proof -
    from wf have wf2: "\<forall>r\<in>set ps. r < next_object ?st2" by simp
    from unfit have unfit2: "\<not> (\<forall>j<length ps. labels_fit ?st2 (ps ! j) (0 + j))" by (simp add: lf)
    from array_map_getPluginWithTimers_raises [OF wf2 unfit2] obtain st3 where
      am: "array_map getPluginWithTimers ps 0 ?st2 = (Threw RangeError, st3)"
      and rest: "st3\<lparr> objects := objects ?st2, next_object := next_object ?st2 \<rparr> = ?st2"
      by blast
    have init: "initialiseTimers io st = (Threw RangeError, st3)"
      by (rule initialiseTimers_perf_raises [OF True assms(2) am])
    have "timeStart st3 = timeStart (st3\<lparr> objects := objects ?st2, next_object := next_object ?st2 \<rparr>)"
      "timeEnd st3 = timeEnd (st3\<lparr> objects := objects ?st2, next_object := next_object ?st2 \<rparr>)"
      "spans st3 = spans (st3\<lparr> objects := objects ?st2, next_object := next_object ?st2 \<rparr>)"
      "spans_proto st3 = spans_proto (st3\<lparr> objects := objects ?st2, next_object := next_object ?st2 \<rparr>)"
      by simp_all
    then have "timeStart st3 = F_timeStartImpl" "timeEnd st3 = F_timeEndImpl"
      "spans st3 = spans st" "spans_proto st3 = spans_proto st"
      unfolding rest by simp_all
    with init show ?thesis by blast
  qed
  from fits raises True show ?thesis
    by blast
qed

theorem tracing_initialisation_witness:
  "trace \<lparr> perf = True, trace = True, plugins = Some [0] \<rparr> \<and>
   plugins \<lparr> perf = True, trace = True, plugins = Some [0] \<rparr> = Some [0] \<and>
   perf \<lparr> perf = True, trace = True, plugins = Some [0] \<rparr> \<and>
   0 < next_object example_state \<and> labels_fit example_state 0 0 \<and>
   (\<exists>io' st'. initialiseTimers \<lparr> perf = True, trace = True, plugins = Some [0] \<rparr> example_state =
        (Returned io', st') \<and>
      timeStart st' = F_timeStartTraceImpl \<and> timeEnd st' = F_timeEndTraceImpl \<and>
      plugins io' = Some [1] \<and>
      get_prop st' 1 ''transform'' = TimedHook 0 ''transform'' ''plugin 0 (p) - transform'' 1 \<and>
      get_prop st' 1 ''buildEnd'' = Fn 1) \<and>
   trace \<lparr> perf = False, trace = True, plugins = Some [0] \<rparr> \<and>
   \<not> perf \<lparr> perf = False, trace = True, plugins = Some [0] \<rparr> \<and>
   (\<exists>io' st'. initialiseTimers \<lparr> perf = False, trace = True, plugins = Some [0] \<rparr> example_state =
        (Returned io', st') \<and>
      timeStart st' = F_timeStartTraceImpl \<and> timeEnd st' = F_timeEndTraceImpl \<and>
      plugins io' = Some [0] \<and> objects st' = objects example_state) \<and>
   0 < next_object long_name_state \<and> \<not> labels_fit long_name_state 0 0 \<and>
   (\<exists>st'. initialiseTimers \<lparr> perf = True, trace = True, plugins = Some [0] \<rparr> long_name_state =
        (Threw RangeError, st') \<and>
      timeStart st' = F_timeStartImpl \<and> timeEnd st' = F_timeEndImpl)"
proof -
  have n: "next_object example_state = 1" "next_object long_name_state = 1"
    by (simp_all add: example_state_def long_name_state_def)
  have fit: "labels_fit example_state 0 0"
    by (rule labels_fit_p) (simp add: example_state_def example_plugin_def get_prop_def)
  have tc: "timed_copy example_state 0 0 (Suc 0) ''transform'' =
              TimedHook 0 ''transform'' ''plugin 0 (p) - transform'' (Suc 0)"
    "timed_copy example_state 0 0 (Suc 0) ''buildEnd'' = Fn (Suc 0)"
    by (simp_all add: timed_copy_def example_state_def example_plugin_def TIMED_PLUGIN_HOOKS_def
        timerLabel_of_def get_prop_def truthy_def to_string_def decimal.simps digit_char_def)
  from tracing_initialisation [of "\<lparr> perf = True, trace = True, plugins = Some [0] \<rparr>" "[0]" example_state]
    fit
  have a: "\<exists>io' st'. initialiseTimers \<lparr> perf = True, trace = True, plugins = Some [0] \<rparr> example_state =
        (Returned io', st') \<and>
      timeStart st' = F_timeStartTraceImpl \<and> timeEnd st' = F_timeEndTraceImpl \<and>
      plugins io' = Some [1] \<and>
      get_prop st' 1 ''transform'' = TimedHook 0 ''transform'' ''plugin 0 (p) - transform'' 1 \<and>
      get_prop st' 1 ''buildEnd'' = Fn 1"
    by (auto simp: n tc)
  from tracing_initialisation [of "\<lparr> perf = False, trace = True, plugins = Some [0] \<rparr>" "[0]" example_state]
  have b: "\<exists>io' st'. initialiseTimers \<lparr> perf = False, trace = True, plugins = Some [0] \<rparr> example_state =
        (Returned io', st') \<and>
      timeStart st' = F_timeStartTraceImpl \<and> timeEnd st' = F_timeEndTraceImpl \<and>
      plugins io' = Some [0] \<and> objects st' = objects example_state"
    by auto
  from tracing_initialisation [of "\<lparr> perf = True, trace = True, plugins = Some [0] \<rparr>" "[0]" long_name_state]
    long_name_unfit
  have c: "\<exists>st'. initialiseTimers \<lparr> perf = True, trace = True, plugins = Some [0] \<rparr> long_name_state =
        (Threw RangeError, st') \<and>
      timeStart st' = F_timeStartImpl \<and> timeEnd st' = F_timeEndImpl"
    by (auto simp: n)
  from a b c fit long_name_unfit show ?thesis
    by (simp add: n)
qed

lemma previous_activation_eq:
  "previous_activation =
     (initial_state (node_host (1, 0) 100))
       \<lparr> getStartTime := StartHrtime, getElapsedTime := ElapsedHrtime, getMemory := MemoryHeapUsed,
         timeStart := F_timeStartImpl, timeEnd := F_timeEndImpl,
         timers := [''build'' \<mapsto>
           \<lparr> memory = 40, startMemory = 100, startTime = (1, 0), time = 5, totalMemory = 140 \<rparr>],
         env := later \<rparr>"
  by (simp add: previous_activation_def initialiseTimers_def Let_def setTimeHelpers_def
      initial_state_def node_host_def later_def call_timeStart_def call_timeEnd_def
      call_timer_fn_def timeStartImpl_def timeEndImpl_def obj_has_own_def getPersistedLabel_def
      level_default_def set_env_def call_getMemory_def call_getStartTime_def
      call_getElapsedTime_def hrtime_since_def normalizeHrTime_def
      dadd_def dsub_def dmul_def ddiv_def)

lemma previous_activation_timers:
  "getTimings previous_activation ''build'' = Some (5, 40, 140)"
  unfolding previous_activation_eq by (simp add: getTimings_def)

text \<open>
  C4, after an earlier activation. The claim says the snapshot is empty after a Disabled
  initialisation even when an earlier activation filled the timer registry; the registry
  is only reset in the \<open>perf\<close> branch, so the old record is still reported.
\<close>

theorem disabled_keeps_old_timings:
  "getTimings (snd (initialiseTimers \<lparr> perf = False, trace = False, plugins = Some [] \<rparr>
                      previous_activation)) ''build'' = Some (5, 40, 140)"
  using previous_activation_timers
  by (simp add: initialiseTimers_def getTimings_def)

text \<open>
  C4, amended. Initialisation with \<open>perf\<close> and \<open>trace\<close> both false returns the options
  (and so the plugin list) as they were and changes nothing in the state but the two
  slots, which hold the no-op: neither registry is reset and the object store is
  untouched. Any sequence of calls of the slots then leaves the state as it is, and the
  snapshot is the one from before the initialisation: empty when the timer registry
  was empty, not reset otherwise.
\<close>

theorem disabled_mode:
  assumes "\<not> perf io" and "\<not> trace io"
  shows "initialiseTimers io st = (Returned io, st\<lparr> timeStart := NOOP, timeEnd := NOOP \<rparr>) \<and>
         timers (snd (initialiseTimers io st)) = timers st \<and>
         timers_proto (snd (initialiseTimers io st)) = timers_proto st \<and>
         spans (snd (initialiseTimers io st)) = spans st \<and>
         spans_proto (snd (initialiseTimers io st)) = spans_proto st \<and>
         objects (snd (initialiseTimers io st)) = objects st \<and>
         timeStart (snd (initialiseTimers io st)) = NOOP \<and>
         timeEnd (snd (initialiseTimers io st)) = NOOP \<and>
         run_calls calls (snd (initialiseTimers io st)) = Inr (snd (initialiseTimers io st)) \<and>
         getTimings (snd (initialiseTimers io st)) = getTimings st \<and>
         (timers st = Map.empty \<longrightarrow> getTimings (snd (initialiseTimers io st)) = Map.empty)"
proof -
  let ?st' = "st\<lparr> timeStart := NOOP, timeEnd := NOOP \<rparr>"
  have init: "initialiseTimers io st = (Returned io, ?st')"
    using assms by (simp add: initialiseTimers_def)
  have noop: "run_calls calls s = Inr s" if "timeStart s = NOOP" "timeEnd s = NOOP" for s
    using that
    by (induction calls)
       (simp_all add: call_timeStart_def call_timeEnd_def call_timer_fn_def split: timer_call.splits)
  have calls: "run_calls calls ?st' = Inr ?st'"
    by (rule noop) simp_all
  have snap: "getTimings ?st' = getTimings st"
    by (simp add: getTimings_def fun_eq_iff)
  have empty: "timers st = Map.empty \<longrightarrow> getTimings ?st' = Map.empty"
    by (simp add: getTimings_def fun_eq_iff)
  from init calls snap empty show ?thesis by simp
qed

lemma traced_build_eq:
  "traced_build =
     (initial_state (node_host (1, 0) 100))
       \<lparr> getStartTime := StartHrtime, getElapsedTime := ElapsedHrtime, getMemory := MemoryHeapUsed,
         timeStart := F_timeStartTraceImpl, timeEnd := F_timeEndTraceImpl,
         spans := [''build'' \<mapsto> 0],
         tracer_calls := [StartSpan ''build'' 0,
            SetAttributes 0 [(''memory'', Num 0), (''startMemory'', Undefined),
                             (''endMemory'', Undefined), (''totalMemory'', Num 0)],
            SetAttribute 0 ''startMemory'' (Num 100)],
         next_span := 1 \<rparr>"
  by (simp add: traced_build_def initialiseTimers_def Let_def setTimeHelpers_def
      initial_state_def node_host_def call_timeStart_def call_timer_fn_def
      timeStartTraceImpl_def call_getMemory_def obj_has_own_def)

theorem disabled_mode_witness:
  "\<not> perf \<lparr> perf = False, trace = False, plugins = Some [0] \<rparr> \<and>
   \<not> trace \<lparr> perf = False, trace = False, plugins = Some [0] \<rparr> \<and>
   timers example_state = Map.empty \<and>
   spans (snd (initialiseTimers \<lparr> perf = False, trace = False, plugins = Some [0] \<rparr>
             traced_build)) ''build'' = Some 0 \<and>
   fst (initialiseTimers \<lparr> perf = False, trace = False, plugins = Some [0] \<rparr> example_state) =
     Returned \<lparr> perf = False, trace = False, plugins = Some [0] \<rparr> \<and>
   run_calls [CallStart ''build'' None, CallEnd ''build'' None]
     (snd (initialiseTimers \<lparr> perf = False, trace = False, plugins = Some [0] \<rparr> example_state)) =
     Inr (snd (initialiseTimers \<lparr> perf = False, trace = False, plugins = Some [0] \<rparr> example_state)) \<and>
   getTimings (snd (initialiseTimers \<lparr> perf = False, trace = False, plugins = Some [0] \<rparr>
                      example_state)) = Map.empty"
proof -
  let ?io = "\<lparr> perf = False, trace = False, plugins = Some [0] \<rparr>"
  have io: "\<not> perf ?io" "\<not> trace ?io" by simp_all
  have e: "timers example_state = Map.empty"
    by (simp add: example_state_def initial_state_def)
  have s: "spans traced_build ''build'' = Some 0"
    unfolding traced_build_eq by simp
  note a = disabled_mode [OF io, of example_state
      "[CallStart ''build'' None, CallEnd ''build'' None]"]
  note b = disabled_mode [OF io, of traced_build "[]"]
  have a1: "fst (initialiseTimers ?io example_state) = Returned ?io"
    using a [THEN conjunct1] by simp
  note a9 = a [THEN conjunct2, THEN conjunct2, THEN conjunct2, THEN conjunct2, THEN conjunct2,
      THEN conjunct2, THEN conjunct2, THEN conjunct2, THEN conjunct1]
  have a11: "getTimings (snd (initialiseTimers ?io example_state)) = Map.empty"
    using a [THEN conjunct2, THEN conjunct2, THEN conjunct2, THEN conjunct2, THEN conjunct2,
      THEN conjunct2, THEN conjunct2, THEN conjunct2, THEN conjunct2, THEN conjunct2] e
    by (rule mp)
  have b4: "spans (snd (initialiseTimers ?io traced_build)) ''build'' = Some 0"
    using b [THEN conjunct2, THEN conjunct2, THEN conjunct2, THEN conjunct1] s by simp
  from io e b4 a1 a9 a11 show ?thesis by (intro conjI)
qed

section \<open>Properties of tracing, of the timing closures and of deferred results\<close>

text \<open>
  C8, on the code. The claim ties the end operation to the presence of a span. The guard
  of line 172 tests the timer registry instead: in a Tracing activation on a fresh module
  the span for \<open>build\<close> exists, yet \<open>timeEnd("build")\<close> writes no attribute and does
  not close it; and where an earlier Timing activation left a \<open>build\<close> record and no
  span was started, \<open>timeEnd("build")\<close> raises \<open>TypeError\<close>.
\<close>

theorem tracing_end_guarded_by_timers:
  "timeEnd traced_build = F_timeEndTraceImpl \<and>
   spans traced_build ''build'' = Some 0 \<and>
   tracer_calls traced_build =
     [StartSpan ''build'' 0,
      SetAttributes 0 [(''memory'', Num 0), (''startMemory'', Undefined),
                       (''endMemory'', Undefined), (''totalMemory'', Num 0)],
      SetAttribute 0 ''startMemory'' (Num 100)] \<and>
   call_timeEnd ''build'' None (set_env later traced_build) = Inr (set_env later traced_build) \<and>
   call_timeEnd ''build'' None
     (snd (initialiseTimers \<lparr> perf = False, trace = True, plugins = Some [] \<rparr> previous_activation)) =
     Inl TypeError"
proof -
  have a: "timeEnd traced_build = F_timeEndTraceImpl" "spans traced_build ''build'' = Some 0"
    "tracer_calls traced_build =
     [StartSpan ''build'' 0,
      SetAttributes 0 [(''memory'', Num 0), (''startMemory'', Undefined),
                       (''endMemory'', Undefined), (''totalMemory'', Num 0)],
      SetAttribute 0 ''startMemory'' (Num 100)]"
    unfolding traced_build_eq by simp_all
  have "timers traced_build = Map.empty"
    unfolding traced_build_eq by (simp add: initial_state_def)
  with a(1) have b: "call_timeEnd ''build'' None (set_env later traced_build) =
      Inr (set_env later traced_build)"
    by (simp add: call_timeEnd_def call_timer_fn_def timeEndTraceImpl_def set_env_def
        obj_has_own_def)
  let ?s = "snd (initialiseTimers \<lparr> perf = False, trace = True, plugins = Some [] \<rparr> previous_activation)"
  have s: "?s = (setTimeHelpers (previous_activation\<lparr> timeStart := NOOP, timeEnd := NOOP,
                    spans := Map.empty, spans_proto := None \<rparr>))
              \<lparr> timeStart := F_timeStartTraceImpl, timeEnd := F_timeEndTraceImpl \<rparr>"
    by (simp add: initialiseTimers_trace_only [where ps = "[]"])
  have "timers ?s = timers previous_activation"
    unfolding s by simp
  then have "timers ?s ''build'' \<noteq> None" "timers ?s ''hasOwnProperty'' = None"
    unfolding previous_activation_eq by simp_all
  moreover have "spans ?s ''build'' = None" "spans_proto ?s = None" "timeEnd ?s = F_timeEndTraceImpl"
    unfolding s by simp_all
  ultimately have c: "call_timeEnd ''build'' None ?s = Inl TypeError"
    by (auto simp: call_timeEnd_def call_timer_fn_def timeEndTraceImpl_def obj_has_own_def
        obj_get_def)
  from a b c show ?thesis by simp
qed

lemma getPersistedLabel_shape:
  assumes "getPersistedLabel label l = Inr s"
  shows "1 \<le> l \<and>
         length s = length label +
             (if l = 1 then 2 else if l = 2 then 3 else if l = 3 then 0 else 2 * nat (l - 4) + 2) \<and>
         (l = 1 \<longrightarrow> hd s = CHR ''#'') \<and> (l = 4 \<longrightarrow> hd s = CHR ''-'')"
  using assms
  by (auto simp: getPersistedLabel_def repeat_str_def template_def concat_replicate_spaces
      split: if_splits)

lemma getPersistedLabel_level_inj:
  assumes "getPersistedLabel label l1 = Inr k1" "getPersistedLabel label l2 = Inr k2" "l1 \<noteq> l2"
  shows "k1 \<noteq> k2"
proof
  assume same: "k1 = k2"
  note s1 = getPersistedLabel_shape [OF assms(1)]
  note s2 = getPersistedLabel_shape [OF assms(2)]
  have len: "(if l1 = 1 then 2 else if l1 = 2 then 3 else if l1 = 3 then 0 else 2 * nat (l1 - 4) + 2) =
       (if l2 = 1 then 2 else if l2 = 2 then 3 else if l2 = 3 then (0::nat) else 2 * nat (l2 - 4) + 2)"
    using s1 [THEN conjunct2, THEN conjunct1] s2 [THEN conjunct2, THEN conjunct1] same by simp
  have "(l1 = 1 \<and> l2 = 4) \<or> (l1 = 4 \<and> l2 = 1)"
    using len assms(3) s1 [THEN conjunct1] s2 [THEN conjunct1] by (auto split: if_splits)
  with same s1 s2 show False by auto
qed

text \<open>
  C10, at two labels. The claim says that for every label a second \<open>timeStart\<close> does
  nothing at all. After \<open>timeStart("hasOwnProperty")\<close> the span is found where line 157
  looks for the method, so the second call raises \<open>TypeError\<close> (as does every later
  \<open>timeStart\<close>). \<open>timeStart("__proto__")\<close> makes the span the prototype of \<open>spans\<close>
  and no own key, so the second call starts a second span.
\<close>

theorem tracing_start_special_labels:
  "run_calls [CallStart ''hasOwnProperty'' None] tracing_fresh =
     Inr (tracing_fresh\<lparr> next_span := 1,
            tracer_calls :=
              [StartSpan ''hasOwnProperty'' 0,
               SetAttributes 0 [(''memory'', Num 0), (''startMemory'', Undefined),
                                (''endMemory'', Undefined), (''totalMemory'', Num 0)],
               SetAttribute 0 ''startMemory'' (Num 100)],
            spans := [''hasOwnProperty'' \<mapsto> 0] \<rparr>) \<and>
   run_calls [CallStart ''hasOwnProperty'' None, CallStart ''hasOwnProperty'' None] tracing_fresh =
     Inl TypeError \<and>
   run_calls [CallStart ''hasOwnProperty'' None, CallStart ''build'' None] tracing_fresh =
     Inl TypeError \<and>
   run_calls [CallStart ''__proto__'' None, CallStart ''__proto__'' None] tracing_fresh =
     Inr (tracing_fresh\<lparr> next_span := 2,
            tracer_calls :=
              [StartSpan ''__proto__'' 0,
               SetAttributes 0 [(''memory'', Num 0), (''startMemory'', Undefined),
                                (''endMemory'', Undefined), (''totalMemory'', Num 0)],
               SetAttribute 0 ''startMemory'' (Num 100),
               StartSpan ''__proto__'' 1,
               SetAttributes 1 [(''memory'', Num 0), (''startMemory'', Undefined),
                                (''endMemory'', Undefined), (''totalMemory'', Num 0)],
               SetAttribute 1 ''startMemory'' (Num 100)],
            spans_proto := Some 1 \<rparr>)"
  by (simp add: tracing_fresh_def initialiseTimers_def Let_def setTimeHelpers_def
      initial_state_def node_host_def call_timeStart_def call_timer_fn_def
      timeStartTraceImpl_def call_getMemory_def obj_has_own_def)

text \<open>
  C10, amended. With \<open>timeStart\<close> bound to the tracing function the level never
  matters. Once a span is stored under \<open>hasOwnProperty\<close> every call raises \<open>TypeError\<close>.
  Otherwise: a label that has a span is left alone (the state, and so the tracer log, is
  unchanged); for a label other than \<open>__proto__\<close> and \<open>hasOwnProperty\<close> a call makes the
  span exist under the raw label, so a second call does nothing, and when the span is
  new the tracer sees exactly one \<open>startSpan\<close>, one \<open>setAttributes\<close> and the
  \<open>startMemory\<close> write; for \<open>hasOwnProperty\<close> the second call raises; for \<open>__proto__\<close>
  each call starts a new span. In contrast, the timer registry formats the label: two
  different levels never give the same key, and a start on an existing record
  overwrites its start time and start memory.
\<close>

theorem tracing_start_idempotent:
  assumes "timeStart st = F_timeStartTraceImpl"
  shows "(spans st ''hasOwnProperty'' \<noteq> None \<longrightarrow> call_timeStart label level st = Inl TypeError) \<and>
         (spans st ''hasOwnProperty'' = None \<and> spans st label \<noteq> None \<longrightarrow>
            call_timeStart label level st = Inr st) \<and>
         call_timeStart label level st = call_timeStart label level' st \<and>
         (spans st ''hasOwnProperty'' = None \<and> label \<noteq> ''__proto__'' \<and>
          label \<noteq> ''hasOwnProperty'' \<longrightarrow>
            (\<exists>st1. call_timeStart label level st = Inr st1 \<and> spans st1 label \<noteq> None \<and>
               call_timeStart label level' st1 = Inr st1 \<and>
               (spans st label = None \<longrightarrow>
                  spans st1 = (spans st)(label \<mapsto> next_span st) \<and>
                  tracer_calls st1 = tracer_calls st @
                    [StartSpan label (next_span st),
                     SetAttributes (next_span st)
                       [(''memory'', Num 0), (''startMemory'', Undefined),
                        (''endMemory'', Undefined), (''totalMemory'', Num 0)],
                     SetAttribute (next_span st) ''startMemory'' (Num (call_getMemory st))]))) \<and>
         (spans st ''hasOwnProperty'' = None \<and> label = ''hasOwnProperty'' \<longrightarrow>
            (\<exists>st1. call_timeStart label level st = Inr st1 \<and>
               call_timeStart label level' st1 = Inl TypeError)) \<and>
         (spans st ''hasOwnProperty'' = None \<and> label = ''__proto__'' \<and> spans st label = None \<longrightarrow>
            (\<exists>st1 st2. call_timeStart label level st = Inr st1 \<and>
               call_timeStart label level' st1 = Inr st2 \<and>
               spans st2 = spans st \<and>
               spans_proto st1 = Some (next_span st) \<and>
               spans_proto st2 = Some (Suc (next_span st)) \<and>
               length (tracer_calls st1) = length (tracer_calls st) + 3 \<and>
               length (tracer_calls st2) = length (tracer_calls st) + 6)) \<and>
         (getPersistedLabel label l1 = Inr k1 \<and> getPersistedLabel label l2 = Inr k2 \<and> l1 \<noteq> l2 \<longrightarrow>
            k1 \<noteq> k2) \<and>
         (timeStart ts = F_timeStartImpl \<and> getPersistedLabel label (level_default level) = Inr key \<and>
          timers ts key = Some t \<and> timers ts ''hasOwnProperty'' = None \<longrightarrow>
            call_timeStart label level ts =
              Inr (ts\<lparr> timers := (timers ts)(key \<mapsto>
                     t\<lparr> startTime := call_getStartTime ts, startMemory := call_getMemory ts \<rparr>) \<rparr>))"
proof -
  have p0: "spans st ''hasOwnProperty'' \<noteq> None \<longrightarrow> call_timeStart label level st = Inl TypeError"
    using assms
    by (auto simp: call_timeStart_def call_timer_fn_def timeStartTraceImpl_def obj_has_own_def)
  have p1: "spans st ''hasOwnProperty'' = None \<and> spans st label \<noteq> None \<longrightarrow>
            call_timeStart label level st = Inr st"
    using assms
    by (auto simp: call_timeStart_def call_timer_fn_def timeStartTraceImpl_def obj_has_own_def)
  have p2: "call_timeStart label level st = call_timeStart label level' st"
    using assms by (simp add: call_timeStart_def call_timer_fn_def timeStartTraceImpl_def)
  have p3: "spans st ''hasOwnProperty'' = None \<and> label \<noteq> ''__proto__'' \<and>
          label \<noteq> ''hasOwnProperty'' \<longrightarrow>
            (\<exists>st1. call_timeStart label level st = Inr st1 \<and> spans st1 label \<noteq> None \<and>
               call_timeStart label level' st1 = Inr st1 \<and>
               (spans st label = None \<longrightarrow>
                  spans st1 = (spans st)(label \<mapsto> next_span st) \<and>
                  tracer_calls st1 = tracer_calls st @
                    [StartSpan label (next_span st),
                     SetAttributes (next_span st)
                       [(''memory'', Num 0), (''startMemory'', Undefined),
                        (''endMemory'', Undefined), (''totalMemory'', Num 0)],
                     SetAttribute (next_span st) ''startMemory'' (Num (call_getMemory st))]))"
    using assms
    by (cases "spans st label")
       (auto simp: call_timeStart_def call_timer_fn_def timeStartTraceImpl_def Let_def
          call_getMemory_def obj_has_own_def split: memory_helper.splits)
  have p3a: "spans st ''hasOwnProperty'' = None \<and> label = ''hasOwnProperty'' \<longrightarrow>
            (\<exists>st1. call_timeStart label level st = Inr st1 \<and>
               call_timeStart label level' st1 = Inl TypeError)"
    using assms
    by (auto simp: call_timeStart_def call_timer_fn_def timeStartTraceImpl_def Let_def
          obj_has_own_def)
  have p3b: "spans st ''hasOwnProperty'' = None \<and> label = ''__proto__'' \<and> spans st label = None \<longrightarrow>
            (\<exists>st1 st2. call_timeStart label level st = Inr st1 \<and>
               call_timeStart label level' st1 = Inr st2 \<and>
               spans st2 = spans st \<and>
               spans_proto st1 = Some (next_span st) \<and>
               spans_proto st2 = Some (Suc (next_span st)) \<and>
               length (tracer_calls st1) = length (tracer_calls st) + 3 \<and>
               length (tracer_calls st2) = length (tracer_calls st) + 6)"
    using assms
    by (auto simp: call_timeStart_def call_timer_fn_def timeStartTraceImpl_def Let_def
          obj_has_own_def)
  have p4: "getPersistedLabel label l1 = Inr k1 \<and> getPersistedLabel label l2 = Inr k2 \<and> l1 \<noteq> l2 \<longrightarrow>
            k1 \<noteq> k2"
    using getPersistedLabel_level_inj by blast
  have p5: "timeStart ts = F_timeStartImpl \<and> getPersistedLabel label (level_default level) = Inr key \<and>
          timers ts key = Some t \<and> timers ts ''hasOwnProperty'' = None \<longrightarrow>
            call_timeStart label level ts =
              Inr (ts\<lparr> timers := (timers ts)(key \<mapsto>
                     t\<lparr> startTime := call_getStartTime ts, startMemory := call_getMemory ts \<rparr>) \<rparr>)"
    by (simp add: call_timeStart_def call_timer_fn_def timeStartImpl_def Let_def obj_has_own_def)
  from p0 p1 p2 p3 p3a p3b p4 p5 show ?thesis by (intro conjI)
qed

lemma level4_key:
  "length l + 2 \<le> max_string_length \<Longrightarrow>
     getPersistedLabel l (level_default (Some 4)) = Inr (''- '' @ l)"
  by (simp add: getPersistedLabel_def level_default_def repeat_str_def template_def)

lemma level4_inv:
  assumes "getPersistedLabel l (level_default (Some 4)) = Inr key"
  shows "key = ''- '' @ l" and "length l + 2 \<le> max_string_length"
  using assms
  by (simp_all add: getPersistedLabel_def level_default_def repeat_str_def template_def
      split: if_splits)

lemma timing_start_inv:
  assumes "timeStart s = F_timeStartImpl" and "call_timeStart l lv s = Inr s1"
  shows "timers s ''hasOwnProperty'' = None"
    and "\<exists>key. getPersistedLabel l (level_default lv) = Inr key"
  using assms
  by (auto simp: call_timeStart_def call_timer_fn_def timeStartImpl_def obj_has_own_def
      split: sum.splits option.splits)

lemma timing_start4:
  assumes T: "timeStart s = F_timeStartImpl" and st: "call_timeStart l (Some 4) s = Inr s1"
  shows "s1 = s\<lparr> timers := (timers s)(''- '' @ l \<mapsto> started s (''- '' @ l)) \<rparr>"
    and "timers s ''hasOwnProperty'' = None"
    and "length l + 2 \<le> max_string_length"
proof -
  from timing_start_inv [OF T st] obtain key where
    h: "timers s ''hasOwnProperty'' = None"
    and k: "getPersistedLabel l (level_default (Some 4)) = Inr key"
    by blast
  note kk = level4_inv [OF k]
  have ne: "key \<noteq> ''__proto__''"
    using kk(1) by simp
  from timeStartImpl_ordinary [OF k h ne] T st
  have "s1 = s\<lparr> timers := (timers s)(key \<mapsto> started s key) \<rparr>"
    by (simp add: call_timeStart_def call_timer_fn_def)
  with kk(1) show "s1 = s\<lparr> timers := (timers s)(''- '' @ l \<mapsto> started s (''- '' @ l)) \<rparr>"
    by simp
  show "timers s ''hasOwnProperty'' = None" by fact
  show "length l + 2 \<le> max_string_length" by (rule kk(2))
qed

lemma timing_start4_ok:
  assumes "timeStart s = F_timeStartImpl" and "timers s ''hasOwnProperty'' = None"
    and "length l + 2 \<le> max_string_length"
  shows "call_timeStart l (Some 4) s =
           Inr (s\<lparr> timers := (timers s)(''- '' @ l \<mapsto> started s (''- '' @ l)) \<rparr>)"
proof -
  have "''- '' @ l \<noteq> ''__proto__''" by simp
  from timeStartImpl_ordinary [OF level4_key [OF assms(3)] assms(2) this] assms(1)
  show ?thesis by (simp add: call_timeStart_def call_timer_fn_def)
qed

lemma timing_end4:
  assumes "timeEnd s = F_timeEndImpl" and "timers s (''- '' @ l) = Some t"
    and "timers s ''hasOwnProperty'' = None" and "length l + 2 \<le> max_string_length"
  shows "call_timeEnd l (Some 4) s = Inr (s\<lparr> timers := (timers s)(''- '' @ l \<mapsto> ended s t) \<rparr>)"
  using timeEndImpl_ordinary(1) [OF level4_key [OF assms(4)] assms(3) assms(2)] assms(1)
  by (simp add: call_timeEnd_def call_timer_fn_def)

lemma accumulated_started:
  "accumulated (s\<lparr> timers := (timers s)(key \<mapsto> started s key) \<rparr>) key = accumulated s key"
  by (simp add: accumulated_def getTimings_def started_def zero_timer_def split: option.splits)

lemma accumulated_other:
  "key' \<noteq> key \<Longrightarrow> accumulated (s\<lparr> timers := (timers s)(key \<mapsto> t) \<rparr>) key' = accumulated s key'"
  by (simp add: accumulated_def getTimings_def)

lemma accumulated_timers_cong:
  "timers s' key = timers s key \<Longrightarrow> accumulated s' key = accumulated s key"
  by (simp add: accumulated_def getTimings_def)

lemma timed_call_sync_state:
  assumes T: "timeStart s = F_timeStartImpl" "timeEnd s = F_timeEndImpl"
    and st: "call_timeStart l (Some 4) s = Inr s1"
    and fr: "timers s2 = timers s1" "same_bindings s1 s2"
  shows "call_timeEnd l (Some 4) s2 =
           Inr (s2\<lparr> timers := (timers s2)(''- '' @ l \<mapsto> ended s2 (started s (''- '' @ l))) \<rparr>)"
    and "timers s2 ''hasOwnProperty'' = None"
    and "timeStart s2 = F_timeStartImpl"
    and "getTimings (s2\<lparr> timers := (timers s2)(''- '' @ l \<mapsto> ended s2 (started s (''- '' @ l))) \<rparr>)
           (''- '' @ l) =
         Some (dadd (fst (accumulated s (''- '' @ l))) (elapsed_interval s (env s, env s2)),
               fst (snd (accumulated s (''- '' @ l))) +
                 (memory_sample s (env s2) - memory_sample s (env s)),
               max (snd (snd (accumulated s (''- '' @ l)))) (memory_sample s (env s2)))"
proof -
  define key where "key = ''- '' @ l"
  have kne: "key \<noteq> ''__proto__''" "key \<noteq> ''hasOwnProperty''"
    by (simp_all add: key_def)
  let ?t1 = "started s key"
  note inv = timing_start4 [OF T(1) st, folded key_def]
  have s1: "s1 = s\<lparr> timers := (timers s)(key \<mapsto> ?t1) \<rparr>"
    by (rule inv(1))
  have b2: "timeEnd s2 = F_timeEndImpl" "getElapsedTime s2 = getElapsedTime s"
    "getMemory s2 = getMemory s" "timeStart s2 = F_timeStartImpl"
    using fr(2) T s1 by (simp_all add: same_bindings_def)
  have t2: "timers s2 key = Some ?t1"
    using fr(1) s1 by simp
  have h2: "timers s2 ''hasOwnProperty'' = None"
    using fr(1) s1 inv(2) kne(2) by simp
  let ?s3 = "s2\<lparr> timers := (timers s2)(key \<mapsto> ended s2 ?t1) \<rparr>"
  have e: "call_timeEnd l (Some 4) s2 = Inr ?s3"
    using timing_end4 [OF b2(1) t2 [unfolded key_def] h2 inv(3)] by (simp add: key_def)
  have mem_end: "call_getMemory s2 = memory_sample s (env s2)"
    unfolding memory_sample_def
    by (rule call_getMemory_frame) (simp_all add: set_env_def b2)
  have mem_start: "call_getMemory s = memory_sample s (env s)"
    by (simp add: memory_sample_def set_env_def)
  have "call_getElapsedTime s2 = call_getElapsedTime (set_env (env s2) s)"
    by (rule call_getElapsedTime_frame) (simp_all add: set_env_def b2)
  then have el: "call_getElapsedTime s2 (call_getStartTime s) = elapsed_interval s (env s, env s2)"
    by (simp add: elapsed_interval_def set_env_def)
  have acc0: "accumulated s key =
     (time (case timers s key of None \<Rightarrow> zero_timer | Some t0 \<Rightarrow> t0),
      memory (case timers s key of None \<Rightarrow> zero_timer | Some t0 \<Rightarrow> t0),
      totalMemory (case timers s key of None \<Rightarrow> zero_timer | Some t0 \<Rightarrow> t0))"
    using kne(1) by (simp add: accumulated_def getTimings_def zero_timer_def split: option.splits)
  have g3: "getTimings ?s3 key =
     Some (time (ended s2 ?t1), memory (ended s2 ?t1), totalMemory (ended s2 ?t1))"
    using kne(1) by (simp add: getTimings_def)
  have fields: "time (ended s2 ?t1) = dadd (fst (accumulated s key)) (elapsed_interval s (env s, env s2))"
    "memory (ended s2 ?t1) = fst (snd (accumulated s key)) +
        (memory_sample s (env s2) - memory_sample s (env s))"
    "totalMemory (ended s2 ?t1) = max (snd (snd (accumulated s key))) (memory_sample s (env s2))"
    using mem_end mem_start el acc0 by (simp_all add: ended_def started_def)
  show "call_timeEnd l (Some 4) s2 =
           Inr (s2\<lparr> timers := (timers s2)(''- '' @ l \<mapsto> ended s2 (started s (''- '' @ l))) \<rparr>)"
    using e unfolding key_def .
  show "timers s2 ''hasOwnProperty'' = None" by (rule h2)
  show "timeStart s2 = F_timeStartImpl" by (rule b2(4))
  show "getTimings (s2\<lparr> timers := (timers s2)(''- '' @ l \<mapsto> ended s2 (started s (''- '' @ l))) \<rparr>)
           (''- '' @ l) =
         Some (dadd (fst (accumulated s (''- '' @ l))) (elapsed_interval s (env s, env s2)),
               fst (snd (accumulated s (''- '' @ l))) +
                 (memory_sample s (env s2) - memory_sample s (env s)),
               max (snd (snd (accumulated s (''- '' @ l)))) (memory_sample s (env s2)))"
    using g3 fields unfolding key_def by simp
qed

lemma timing_example_eq:
  "timing_example =
     (initial_state (node_host (1, 0) 100))
       \<lparr> getStartTime := StartHrtime, getElapsedTime := ElapsedHrtime, getMemory := MemoryHeapUsed,
         timeStart := F_timeStartImpl, timeEnd := F_timeEndImpl,
         objects := (\<lambda>_. [])
           (0 := example_plugin,
            1 := [(''name'', Str ''p''),
                  (''transform'', TimedHook 0 ''transform'' ''plugin 0 (p) - transform'' 1),
                  (''buildEnd'', Fn 1)]),
         next_object := 2, next_promise := 1 \<rparr>"
  by (simp add: timing_example_def initialiseTimers_def Let_def example_state_def example_plugin_def
      getPluginWithTimers_def TIMED_PLUGIN_HOOKS_def new_timerLabel_def template_def
      max_string_length_def
      get_prop_def truthy_def to_string_def decimal.simps digit_char_def initial_state_def
      setTimeHelpers_def node_host_def)

lemma after_sync_call_timers:
  "timers after_sync_call =
     [''- plugin 0 (p) - transform'' \<mapsto>
        \<lparr> memory = 40, startMemory = 100, startTime = (1, 0), time = 5, totalMemory = 140 \<rparr>]"
  unfolding after_sync_call_def timing_example_eq
  by (simp add: call_TimedHook_def call_timeStart_def call_timeEnd_def call_timer_fn_def
      timeStartImpl_def timeEndImpl_def getPersistedLabel_def level_default_def repeat_str_def
      template_def max_string_length_def obj_has_own_def thenable_def members_ref_def truthy_def
      hook_returning_def receiver_def get_prop_def example_plugin_def set_env_def later_def
      initial_state_def node_host_def call_getMemory_def call_getStartTime_def
      call_getElapsedTime_def hrtime_since_def normalizeHrTime_def Let_def
      dadd_def dsub_def dmul_def ddiv_def)

lemma after_async_call_eq:
  "after_async_call =
     timing_example
       \<lparr> env := later,
         timers :=
           [''- plugin 0 (p) - transform'' \<mapsto>
              \<lparr> memory = 40, startMemory = 100, startTime = (1, 0), time = 5, totalMemory = 140 \<rparr>,
            ''- plugin 0 (p) - transform (async)'' \<mapsto>
              \<lparr> memory = 0, startMemory = 140, startTime = (1, 5000000), time = 0, totalMemory = 0 \<rparr>],
         promises := (\<lambda>_. \<lparr> settled = None, reactions = [] \<rparr>)
           (0 := \<lparr> settled = None, reactions = [(EndAsync ''plugin 0 (p) - transform'', 1)] \<rparr>),
         next_promise := 2 \<rparr>"
  unfolding after_async_call_def timing_example_eq
  by (simp add: call_TimedHook_def call_timeStart_def call_timeEnd_def call_timer_fn_def
      timeStartImpl_def timeEndImpl_def getPersistedLabel_def level_default_def repeat_str_def
      template_def max_string_length_def obj_has_own_def thenable_def members_ref_def truthy_def
      call_then_def
      hook_returning_def receiver_def get_prop_def example_plugin_def set_env_def later_def
      initial_state_def node_host_def call_getMemory_def call_getStartTime_def
      call_getElapsedTime_def hrtime_since_def normalizeHrTime_def Let_def promise_then_def
      dadd_def dsub_def dmul_def ddiv_def)

lemma helpers_promises [simp]:
  "call_getMemory (q\<lparr> promises := P \<rparr>) = call_getMemory q"
  "call_getStartTime (q\<lparr> promises := P \<rparr>) = call_getStartTime q"
  "call_getElapsedTime (q\<lparr> promises := P \<rparr>) = call_getElapsedTime q"
  by (rule call_getMemory_frame call_getStartTime_frame call_getElapsedTime_frame; simp)+

lemma call_timer_fn_promises:
  "call_timer_fn f l lv (q\<lparr> promises := P \<rparr>) =
     (case call_timer_fn f l lv q of Inl e \<Rightarrow> Inl e | Inr q' \<Rightarrow> Inr (q'\<lparr> promises := P \<rparr>))"
  by (cases f)
     (simp_all add: call_timer_fn_def timeStartImpl_def timeEndImpl_def timeStartTraceImpl_def
        timeEndTraceImpl_def Let_def call_getMemory_def
        split: sum.splits option.splits cong: memory_helper.case_cong)

lemma call_timer_fn_frame:
  assumes "call_timer_fn f l lv q = Inr q'"
  shows "promises q' = promises q \<and> next_promise q' = next_promise q \<and>
         objects q' = objects q \<and> env q' = env q \<and> same_bindings q q'"
  using assms
  by (cases f)
     (auto simp: call_timer_fn_def timeStartImpl_def timeEndImpl_def timeStartTraceImpl_def
        timeEndTraceImpl_def Let_def same_bindings_def split: sum.splits option.splits if_splits)

lemma async_label:
  "length l + 8 \<le> max_string_length \<Longrightarrow> template [l, '' (async)''] = Inr (l @ '' (async)'')"
  "max_string_length < length l + 8 \<Longrightarrow> template [l, '' (async)''] = Inl RangeError"
  by (simp_all add: template_def)

lemma call_Continuation_returns:
  assumes "length l + 8 \<le> max_string_length"
    and "call_timeEnd (l @ '' (async)'') (Some 4) q = Inr q'"
  shows "call_Continuation l w q = (Returned w, q')"
  using assms by (simp add: call_Continuation_def template_def)

lemma deliver_rejected:
  assumes "reactions (promises q p) = [(EndAsync l, d)]" "settled (promises q p) = None"
    "settled (promises q d) = None" "d \<noteq> p"
  shows "deliver p (settle_promise p (Threw x) q) =
           q\<lparr> promises := (promises q)
                (p := (promises q p)\<lparr> settled := Some (Threw x), reactions := [] \<rparr>,
                 d := (promises q d)\<lparr> settled := Some (Threw x) \<rparr>) \<rparr>"
  using assms by (simp add: deliver_def settle_promise_def)

lemma deliver_fulfilled:
  assumes "reactions (promises q p) = [(EndAsync l, d)]" "settled (promises q p) = None"
    "settled (promises q d) = None" "d \<noteq> p"
    and "length l + 8 \<le> max_string_length"
    and "call_timeEnd (l @ '' (async)'') (Some 4) q = Inr q'"
  shows "deliver p (settle_promise p (Returned v) q) =
           q'\<lparr> promises := (promises q)
                (p := (promises q p)\<lparr> settled := Some (Returned v), reactions := [] \<rparr>,
                 d := (promises q d)\<lparr> settled := Some (Returned v) \<rparr>) \<rparr>"
proof -
  let ?P = "(promises q)(p := (promises q p)\<lparr> settled := Some (Returned v), reactions := [] \<rparr>)"
  have mid: "deliver p (settle_promise p (Returned v) q) =
        run_reaction (Returned v) (EndAsync l, d) (q\<lparr> promises := ?P \<rparr>)"
    using assms(1,2) by (simp add: deliver_def settle_promise_def)
  have "call_timeEnd (l @ '' (async)'') (Some 4) (q\<lparr> promises := ?P \<rparr>) = Inr (q'\<lparr> promises := ?P \<rparr>)"
    using assms(6) call_timer_fn_promises [where f = "timeEnd q" and l = "l @ '' (async)''" and lv = "Some 4" and q = q and P = ?P]
    by (simp add: call_timeEnd_def)
  from call_Continuation_returns [OF assms(5) this]
  have "run_reaction (Returned v) (EndAsync l, d) (q\<lparr> promises := ?P \<rparr>) =
        settle_promise d (Returned v) (q'\<lparr> promises := ?P \<rparr>)"
    by simp
  also have "\<dots> = q'\<lparr> promises := ?P(d := (promises q d)\<lparr> settled := Some (Returned v) \<rparr>) \<rparr>"
    using assms(3,4) by (simp add: settle_promise_def)
  finally show ?thesis using mid by simp
qed

lemma thenable_cases:
  "truthy v \<and> thenable s v \<longleftrightarrow>
     (\<exists>p. v = Promise p) \<or> (\<exists>r. members_ref v = Some r \<and> callable (get_prop s r ''then''))"
  by (cases v) (simp_all add: thenable_def members_ref_def truthy_def)

lemma call_then_cases:
  "call_then app (Promise p) l s =
     (Returned (Promise (next_promise s)),
      s\<lparr> promises := (promises s)
            (p := (promises s p)\<lparr> reactions := reactions (promises s p) @ [(EndAsync l, next_promise s)] \<rparr>),
         next_promise := Suc (next_promise s) \<rparr>)"
  "members_ref v = Some r \<Longrightarrow> call_then app v l s = app (get_prop s r ''then'') v [Continuation l] s"
  by (cases v; simp add: call_then_def promise_then_def Let_def members_ref_def)+

text \<open>
  C7. If the original hook throws, the closure completes with the same thrown value in
  the state the hook left: nothing runs after the hook, in particular no \<open>timeEnd\<close>. In
  Timing mode, when the hook itself left the registry alone, the record of the label
  holds the start point sampled at the call and the accumulators it had before.
\<close>

theorem sync_failure_skips_timeEnd:
  assumes "call_timeStart l (Some 4) s = Inr s1"
    and "app (get_prop s1 pl hook) (receiver this tp pl) args s1 = (Threw e, s2)"
  shows "call_TimedHook app pl hook l tp this args s = (Threw e, s2) \<and>
         (timeStart s = F_timeStartImpl \<and> timers s2 = timers s1 \<longrightarrow>
            (\<exists>t. timers s2 (''- '' @ l) = Some t \<and>
               startTime t = call_getStartTime s \<and> startMemory t = call_getMemory s \<and>
               (time t, memory t, totalMemory t) = accumulated s (''- '' @ l)))"
proof -
  have r: "call_TimedHook app pl hook l tp this args s = (Threw e, s2)"
    using assms by (simp add: call_TimedHook_def)
  have "\<exists>t. timers s2 (''- '' @ l) = Some t \<and>
               startTime t = call_getStartTime s \<and> startMemory t = call_getMemory s \<and>
               (time t, memory t, totalMemory t) = accumulated s (''- '' @ l)"
    if T: "timeStart s = F_timeStartImpl" and fr: "timers s2 = timers s1"
  proof -
    let ?t = "started s (''- '' @ l)"
    have s1: "s1 = s\<lparr> timers := (timers s)(''- '' @ l \<mapsto> ?t) \<rparr>"
      by (rule timing_start4(1) [OF T assms(1)])
    then have t: "timers s2 (''- '' @ l) = Some ?t"
      using fr by simp
    have "(time ?t, memory ?t, totalMemory ?t) = accumulated s (''- '' @ l)"
      by (simp add: started_def accumulated_def getTimings_def zero_timer_def split: option.splits)
    moreover have "startTime ?t = call_getStartTime s" "startMemory ?t = call_getMemory s"
      by (simp_all add: started_def)
    ultimately show ?thesis using t by blast
  qed
  with r show ?thesis by blast
qed

lemma timed_call_unfold:
  assumes "call_timeStart l (Some 4) s = Inr s1"
    and "app (get_prop s1 pl hook) (receiver this tp pl) args s1 = (Returned v, s2)"
    and "call_timeEnd l (Some 4) s2 = Inr s3"
  shows "call_TimedHook app pl hook l tp this args s =
           (if truthy v \<and> thenable s3 v
            then (case template [l, '' (async)''] of
                    Inl e \<Rightarrow> (Threw e, s3)
                  | Inr asyncLabel \<Rightarrow>
                      (case call_timeStart asyncLabel (Some 4) s3 of
                         Inl e \<Rightarrow> (Threw e, s3)
                       | Inr s4 \<Rightarrow> call_then app v l s4))
            else (Returned v, s3))"
  using assms by (simp add: call_TimedHook_def)

lemma timing_async_too_long:
  assumes "timeStart s3 = F_timeStartImpl" and "max_string_length < length l + 10"
  shows "(case template [l, '' (async)''] of
            Inl e \<Rightarrow> (Threw e, s3)
          | Inr asyncLabel \<Rightarrow>
              (case call_timeStart asyncLabel (Some 4) s3 of
                 Inl e \<Rightarrow> (Threw e, s3)
               | Inr s4 \<Rightarrow> call_then app v l s4)) = (Threw RangeError, s3)"
  using assms
  by (simp add: template_def call_timeStart_def call_timer_fn_def timeStartImpl_def
      getPersistedLabel_def level_default_def repeat_str_def)

lemma timed_call_returns:
  assumes T: "timeStart s = F_timeStartImpl" "timeEnd s = F_timeEndImpl"
    and st: "call_timeStart l (Some 4) s = Inr s1"
    and hook: "app (get_prop s1 pl hook) (receiver this tp pl) args s1 = (Returned v, s2)"
    and fr: "timers s2 = timers s1" "same_bindings s1 s2"
  shows "\<not> (truthy v \<and> thenable s2 v) \<Longrightarrow>
           call_TimedHook app pl hook l tp this args s = (Returned v, sync_recorded s s2 l)"
    and "length l + 10 \<le> max_string_length \<Longrightarrow> v = Promise p \<Longrightarrow>
           call_TimedHook app pl hook l tp this args s =
             (Returned (Promise (next_promise s2)),
              (async_started (sync_recorded s s2 l) l)
                \<lparr> promises := (promises s2)
                     (p := (promises s2 p)
                        \<lparr> reactions := reactions (promises s2 p) @ [(EndAsync l, next_promise s2)] \<rparr>),
                  next_promise := Suc (next_promise s2) \<rparr>)"
    and "length l + 10 \<le> max_string_length \<Longrightarrow> members_ref v = Some r \<Longrightarrow>
         callable (get_prop s2 r ''then'') \<Longrightarrow>
           call_TimedHook app pl hook l tp this args s =
             app (get_prop (async_started (sync_recorded s s2 l) l) r ''then'') v [Continuation l]
               (async_started (sync_recorded s s2 l) l)"
    and "max_string_length < length l + 10 \<Longrightarrow> truthy v \<and> thenable s2 v \<Longrightarrow>
           call_TimedHook app pl hook l tp this args s = (Threw RangeError, sync_recorded s s2 l)"
proof -
  let ?s3 = "sync_recorded s s2 l"
  let ?s4 = "async_started ?s3 l"
  note sync = timed_call_sync_state [OF T st fr]
  have e: "call_timeEnd l (Some 4) s2 = Inr ?s3"
    using sync(1) by (simp add: sync_recorded_def)
  note u = timed_call_unfold [where app = app and pl = pl and hook = hook and this = this
      and tp = tp and args = args, OF st hook e]
  have th: "thenable ?s3 v = thenable s2 v"
    by (simp add: thenable_def sync_recorded_def get_prop_def cong: jsval.case_cong option.case_cong)
  have T3: "timeStart ?s3 = F_timeStartImpl"
    using sync(3) by (simp add: sync_recorded_def)
  have h3: "timers ?s3 ''hasOwnProperty'' = None"
    using sync(2) by (simp add: sync_recorded_def)
  have a: "call_timeStart (l @ '' (async)'') (Some 4) ?s3 = Inr ?s4"
    if "length l + 10 \<le> max_string_length"
    using timing_start4_ok [OF T3 h3, of "l @ '' (async)''"] that
    by (simp add: async_started_def)
  have tpl: "template [l, '' (async)''] = Inr (l @ '' (async)'')"
    if "length l + 10 \<le> max_string_length"
    using that by (simp add: template_def)
  show "call_TimedHook app pl hook l tp this args s = (Returned v, ?s3)"
    if "\<not> (truthy v \<and> thenable s2 v)"
    using u that th by simp
  show "call_TimedHook app pl hook l tp this args s =
             (Returned (Promise (next_promise s2)),
              ?s4\<lparr> promises := (promises s2)
                     (p := (promises s2 p)
                        \<lparr> reactions := reactions (promises s2 p) @ [(EndAsync l, next_promise s2)] \<rparr>),
                  next_promise := Suc (next_promise s2) \<rparr>)"
    if "length l + 10 \<le> max_string_length" "v = Promise p"
  proof -
    have "truthy v \<and> thenable ?s3 v"
      using that(2) by (simp add: thenable_cases)
    with u a [OF that(1)] tpl [OF that(1)] that(2)
    have "call_TimedHook app pl hook l tp this args s = call_then app (Promise p) l ?s4"
      by simp
    also have "\<dots> = (Returned (Promise (next_promise s2)),
              ?s4\<lparr> promises := (promises s2)
                     (p := (promises s2 p)
                        \<lparr> reactions := reactions (promises s2 p) @ [(EndAsync l, next_promise s2)] \<rparr>),
                  next_promise := Suc (next_promise s2) \<rparr>)"
      by (simp add: call_then_cases(1) async_started_def sync_recorded_def)
    finally show ?thesis .
  qed
  show "call_TimedHook app pl hook l tp this args s =
             app (get_prop ?s4 r ''then'') v [Continuation l] ?s4"
    if "length l + 10 \<le> max_string_length" "members_ref v = Some r"
      "callable (get_prop s2 r ''then'')"
  proof -
    have "get_prop ?s3 r ''then'' = get_prop s2 r ''then''"
      by (simp add: get_prop_def sync_recorded_def)
    with that(2,3) have "truthy v \<and> thenable ?s3 v"
      by (simp add: thenable_cases)
    with u a [OF that(1)] tpl [OF that(1)]
    have "call_TimedHook app pl hook l tp this args s = call_then app v l ?s4"
      by simp
    then show ?thesis
      by (simp add: call_then_cases(2) [OF that(2)])
  qed
  show "call_TimedHook app pl hook l tp this args s = (Threw RangeError, ?s3)"
    if "max_string_length < length l + 10" "truthy v \<and> thenable s2 v"
    using u that(2) th timing_async_too_long [OF T3 that(1)] by simp
qed

lemma sync_recorded_facts:
  assumes T: "timeStart s = F_timeStartImpl" "timeEnd s = F_timeEndImpl"
    and st: "call_timeStart l (Some 4) s = Inr s1"
    and fr: "timers s2 = timers s1" "same_bindings s1 s2"
  shows "getTimings (sync_recorded s s2 l) (''- '' @ l) =
           Some (dadd (fst (accumulated s (''- '' @ l))) (elapsed_interval s (env s, env s2)),
                 fst (snd (accumulated s (''- '' @ l))) +
                   (memory_sample s (env s2) - memory_sample s (env s)),
                 max (snd (snd (accumulated s (''- '' @ l)))) (memory_sample s (env s2)))"
    and "getTimings (async_started (sync_recorded s s2 l) l) (''- '' @ l) =
           getTimings (sync_recorded s s2 l) (''- '' @ l)"
    and "getTimings (async_started (sync_recorded s s2 l) l) (''- '' @ l @ '' (async)'') \<noteq> None"
    and "accumulated (async_started (sync_recorded s s2 l) l) (''- '' @ l @ '' (async)'') =
           accumulated s (''- '' @ l @ '' (async)'')"
    and "timers (sync_recorded s s2 l) (''- '' @ l @ '' (async)'') =
           timers s (''- '' @ l @ '' (async)'')"
proof -
  note sync = timed_call_sync_state [OF T st fr]
  note s1 = timing_start4(1) [OF T(1) st]
  show "getTimings (sync_recorded s s2 l) (''- '' @ l) =
           Some (dadd (fst (accumulated s (''- '' @ l))) (elapsed_interval s (env s, env s2)),
                 fst (snd (accumulated s (''- '' @ l))) +
                   (memory_sample s (env s2) - memory_sample s (env s)),
                 max (snd (snd (accumulated s (''- '' @ l)))) (memory_sample s (env s2)))"
    using sync(4) by (simp add: sync_recorded_def)
  show "getTimings (async_started (sync_recorded s s2 l) l) (''- '' @ l) =
           getTimings (sync_recorded s s2 l) (''- '' @ l)"
    by (simp add: async_started_def getTimings_def)
  show "getTimings (async_started (sync_recorded s s2 l) l) (''- '' @ l @ '' (async)'') \<noteq> None"
    by (simp add: async_started_def getTimings_def)
  have t3: "timers (sync_recorded s s2 l) (''- '' @ l @ '' (async)'') =
              timers s (''- '' @ l @ '' (async)'')"
    using fr(1) s1 by (simp add: sync_recorded_def)
  then show "timers (sync_recorded s s2 l) (''- '' @ l @ '' (async)'') =
           timers s (''- '' @ l @ '' (async)'')" .
  have "accumulated (async_started (sync_recorded s s2 l) l) (''- '' @ l @ '' (async)'') =
          accumulated (sync_recorded s s2 l) (''- '' @ l @ '' (async)'')"
    unfolding async_started_def by (rule accumulated_started)
  also have "\<dots> = accumulated s (''- '' @ l @ '' (async)'')"
    by (rule accumulated_timers_cong [OF t3])
  finally show "accumulated (async_started (sync_recorded s s2 l) l) (''- '' @ l @ '' (async)'') =
           accumulated s (''- '' @ l @ '' (async)'')" .
qed

text \<open>
  C6, on rejection. The claim says the continuation ends the second timer also when the
  deferred value fails. In the example the rejection leaves the whole registry as it
  was, with the \<open>(async)\<close> record still at zero, where a fulfilment adds 7 ms.
\<close>

theorem rejection_leaves_async_timer_open:
  "timers (deliver 0 (settle_promise 0 (Threw (Str ''boom'')) (set_env much_later after_async_call))) =
     timers after_async_call \<and>
   getTimings (deliver 0 (settle_promise 0 (Threw (Str ''boom'')) (set_env much_later after_async_call)))
     ''- plugin 0 (p) - transform (async)'' = Some (0, 0, 0) \<and>
   getTimings (deliver 0 (settle_promise 0 (Returned (Str ''code'')) (set_env much_later after_async_call)))
     ''- plugin 0 (p) - transform (async)'' = Some (7, -10, 130)"
  unfolding after_async_call_eq timing_example_eq
  by (simp add: deliver_def settle_promise_def set_env_def getTimings_def initial_state_def
      call_Continuation_def template_def max_string_length_def obj_has_own_def
      call_timeEnd_def call_timer_fn_def timeEndImpl_def getPersistedLabel_def level_default_def
      repeat_str_def much_later_def node_host_def call_getMemory_def call_getElapsedTime_def
      hrtime_since_def normalizeHrTime_def Let_def dadd_def dsub_def dmul_def ddiv_def)

text \<open>
  C6, amended. Let the original hook return \<open>v\<close> and the first \<open>timeEnd\<close> leave state
  \<open>s3\<close>. When \<open>v\<close> is a promise, or an object or function whose \<open>then\<close> member is
  callable, the closure builds the label followed by \<open>" (async)"\<close> and starts its timer;
  if the label is too long for a string or \<open>timeStart\<close> throws, the closure throws in
  state \<open>s3\<close>. Otherwise, for a promise it registers one reaction and returns the promise
  derived by the native \<open>then\<close>; for another thenable it returns whatever the call of
  its \<open>then\<close> member with the arrow function of line 121 gives. Any other \<open>v\<close> is
  returned as it is. The arrow function calls \<open>timeEnd\<close> for the \<open>(async)\<close> label and
  returns its argument; it is the fulfilment handler only. So when the promise is
  fulfilled the reaction ends the timer and the derived promise is fulfilled with the
  same value; when it is rejected no \<open>timeEnd\<close> runs (only the two promise cells change)
  and the derived promise is rejected with the same reason.
\<close>

theorem async_continuation:
  assumes start: "call_timeStart l (Some 4) s = Inr s1"
    and hook: "app (get_prop s1 pl hook) (receiver this tp pl) args s1 = (Returned v, s2)"
    and stop: "call_timeEnd l (Some 4) s2 = Inr s3"
  shows "(length l + 8 \<le> max_string_length \<and>
          call_timeStart (l @ '' (async)'') (Some 4) s3 = Inr s4 \<longrightarrow>
            (v = Promise p \<longrightarrow>
               call_TimedHook app pl hook l tp this args s =
                 (Returned (Promise (next_promise s4)),
                  s4\<lparr> promises := (promises s4)
                         (p := (promises s4 p)
                            \<lparr> reactions := reactions (promises s4 p) @ [(EndAsync l, next_promise s4)] \<rparr>),
                      next_promise := Suc (next_promise s4) \<rparr>)) \<and>
            (members_ref v = Some r \<and> callable (get_prop s3 r ''then'') \<longrightarrow>
               call_TimedHook app pl hook l tp this args s =
                 app (get_prop s4 r ''then'') v [Continuation l] s4)) \<and>
         (v = Promise p \<or> members_ref v = Some r \<and> callable (get_prop s3 r ''then'') \<longrightarrow>
            (max_string_length < length l + 8 \<longrightarrow>
               call_TimedHook app pl hook l tp this args s = (Threw RangeError, s3)) \<and>
            (length l + 8 \<le> max_string_length \<and>
             call_timeStart (l @ '' (async)'') (Some 4) s3 = Inl err \<longrightarrow>
               call_TimedHook app pl hook l tp this args s = (Threw err, s3))) \<and>
         ((\<forall>p'. v \<noteq> Promise p') \<and>
          (\<forall>r'. members_ref v = Some r' \<longrightarrow> \<not> callable (get_prop s3 r' ''then'')) \<longrightarrow>
            call_TimedHook app pl hook l tp this args s = (Returned v, s3)) \<and>
         (length l + 8 \<le> max_string_length \<and>
          call_timeEnd (l @ '' (async)'') (Some 4) q = Inr q' \<longrightarrow>
            call_Continuation l w q = (Returned w, q')) \<and>
         (reactions (promises q p) = [(EndAsync l, d)] \<and> settled (promises q p) = None \<and>
          settled (promises q d) = None \<and> d \<noteq> p \<longrightarrow>
            (length l + 8 \<le> max_string_length \<and>
             call_timeEnd (l @ '' (async)'') (Some 4) q = Inr q' \<longrightarrow>
               deliver p (settle_promise p (Returned w) q) =
                 q'\<lparr> promises := (promises q)
                      (p := (promises q p)\<lparr> settled := Some (Returned w), reactions := [] \<rparr>,
                       d := (promises q d)\<lparr> settled := Some (Returned w) \<rparr>) \<rparr>) \<and>
            deliver p (settle_promise p (Threw x) q) =
              q\<lparr> promises := (promises q)
                   (p := (promises q p)\<lparr> settled := Some (Threw x), reactions := [] \<rparr>,
                    d := (promises q d)\<lparr> settled := Some (Threw x) \<rparr>) \<rparr>)"
proof -
  note u = timed_call_unfold [where app = app and pl = pl and hook = hook and this = this
      and tp = tp and args = args, OF start hook stop]
  have a: "length l + 8 \<le> max_string_length \<and>
          call_timeStart (l @ '' (async)'') (Some 4) s3 = Inr s4 \<longrightarrow>
            (v = Promise p \<longrightarrow>
               call_TimedHook app pl hook l tp this args s =
                 (Returned (Promise (next_promise s4)),
                  s4\<lparr> promises := (promises s4)
                         (p := (promises s4 p)
                            \<lparr> reactions := reactions (promises s4 p) @ [(EndAsync l, next_promise s4)] \<rparr>),
                      next_promise := Suc (next_promise s4) \<rparr>)) \<and>
            (members_ref v = Some r \<and> callable (get_prop s3 r ''then'') \<longrightarrow>
               call_TimedHook app pl hook l tp this args s =
                 app (get_prop s4 r ''then'') v [Continuation l] s4)"
  proof (intro impI conjI; elim conjE)
    assume f: "length l + 8 \<le> max_string_length"
      and as: "call_timeStart (l @ '' (async)'') (Some 4) s3 = Inr s4"
    {
      assume v: "v = Promise p"
      then have "truthy v \<and> thenable s3 v" by (simp add: thenable_cases)
      with u f as v show "call_TimedHook app pl hook l tp this args s =
                 (Returned (Promise (next_promise s4)),
                  s4\<lparr> promises := (promises s4)
                         (p := (promises s4 p)
                            \<lparr> reactions := reactions (promises s4 p) @ [(EndAsync l, next_promise s4)] \<rparr>),
                      next_promise := Suc (next_promise s4) \<rparr>)"
        by (simp add: async_label(1) call_then_cases(1))
    }
    {
      assume m: "members_ref v = Some r" and c: "callable (get_prop s3 r ''then'')"
      then have "truthy v \<and> thenable s3 v" by (auto simp: thenable_cases)
      with u f as show "call_TimedHook app pl hook l tp this args s =
                 app (get_prop s4 r ''then'') v [Continuation l] s4"
        by (simp add: async_label(1) call_then_cases(2) [OF m])
    }
  qed
  have b: "v = Promise p \<or> members_ref v = Some r \<and> callable (get_prop s3 r ''then'') \<longrightarrow>
            (max_string_length < length l + 8 \<longrightarrow>
               call_TimedHook app pl hook l tp this args s = (Threw RangeError, s3)) \<and>
            (length l + 8 \<le> max_string_length \<and>
             call_timeStart (l @ '' (async)'') (Some 4) s3 = Inl err \<longrightarrow>
               call_TimedHook app pl hook l tp this args s = (Threw err, s3))"
  proof
    assume "v = Promise p \<or> members_ref v = Some r \<and> callable (get_prop s3 r ''then'')"
    then have tt: "truthy v \<and> thenable s3 v" by (auto simp: thenable_cases)
    show "(max_string_length < length l + 8 \<longrightarrow>
               call_TimedHook app pl hook l tp this args s = (Threw RangeError, s3)) \<and>
            (length l + 8 \<le> max_string_length \<and>
             call_timeStart (l @ '' (async)'') (Some 4) s3 = Inl err \<longrightarrow>
               call_TimedHook app pl hook l tp this args s = (Threw err, s3))"
      using u tt by (auto simp: async_label)
  qed
  have c: "(\<forall>p'. v \<noteq> Promise p') \<and>
          (\<forall>r'. members_ref v = Some r' \<longrightarrow> \<not> callable (get_prop s3 r' ''then'')) \<longrightarrow>
            call_TimedHook app pl hook l tp this args s = (Returned v, s3)"
  proof
    assume "(\<forall>p'. v \<noteq> Promise p') \<and>
          (\<forall>r'. members_ref v = Some r' \<longrightarrow> \<not> callable (get_prop s3 r' ''then''))"
    then have "\<not> (truthy v \<and> thenable s3 v)"
      unfolding thenable_cases by blast
    with u show "call_TimedHook app pl hook l tp this args s = (Returned v, s3)" by simp
  qed
  have d: "length l + 8 \<le> max_string_length \<and>
          call_timeEnd (l @ '' (async)'') (Some 4) q = Inr q' \<longrightarrow>
            call_Continuation l w q = (Returned w, q')"
    using call_Continuation_returns [of l q q' w] by (intro impI; elim conjE)
  have e: "reactions (promises q p) = [(EndAsync l, d)] \<and> settled (promises q p) = None \<and>
          settled (promises q d) = None \<and> d \<noteq> p \<longrightarrow>
            (length l + 8 \<le> max_string_length \<and>
             call_timeEnd (l @ '' (async)'') (Some 4) q = Inr q' \<longrightarrow>
               deliver p (settle_promise p (Returned w) q) =
                 q'\<lparr> promises := (promises q)
                      (p := (promises q p)\<lparr> settled := Some (Returned w), reactions := [] \<rparr>,
                       d := (promises q d)\<lparr> settled := Some (Returned w) \<rparr>) \<rparr>) \<and>
            deliver p (settle_promise p (Threw x) q) =
              q\<lparr> promises := (promises q)
                   (p := (promises q p)\<lparr> settled := Some (Threw x), reactions := [] \<rparr>,
                    d := (promises q d)\<lparr> settled := Some (Threw x) \<rparr>) \<rparr>"
  proof (intro impI conjI; elim conjE)
    assume q: "reactions (promises q p) = [(EndAsync l, d)]" "settled (promises q p) = None"
      "settled (promises q d) = None" "d \<noteq> p"
    show "deliver p (settle_promise p (Threw x) q) =
              q\<lparr> promises := (promises q)
                   (p := (promises q p)\<lparr> settled := Some (Threw x), reactions := [] \<rparr>,
                    d := (promises q d)\<lparr> settled := Some (Threw x) \<rparr>) \<rparr>"
      by (rule deliver_rejected [OF q])
    assume "length l + 8 \<le> max_string_length"
      "call_timeEnd (l @ '' (async)'') (Some 4) q = Inr q'"
    then show "deliver p (settle_promise p (Returned w) q) =
                 q'\<lparr> promises := (promises q)
                      (p := (promises q p)\<lparr> settled := Some (Returned w), reactions := [] \<rparr>,
                       d := (promises q d)\<lparr> settled := Some (Returned w) \<rparr>) \<rparr>"
      by (rule deliver_fulfilled [OF q])
  qed
  from a b c d e show ?thesis by (intro conjI)
qed

lemma timerLabel_of_p:
  assumes "get_prop st plugin ''name'' = Str ''p''"
  shows "timerLabel_of st plugin 0 ''transform'' = ''plugin 0 (p) - transform''"
  using assms
  by (simp add: timerLabel_of_def truthy_def to_string_def decimal.simps digit_char_def)

text \<open>
  C5, the key. The claim names the key \<open>"  - plugin 0 (p) - transform"\<close> with two
  leading spaces; level 4 repeats the indent zero times, so nothing is recorded there.
\<close>

theorem transform_label_has_no_indent:
  "get_prop timing_example 1 ''transform'' =
     TimedHook 0 ''transform'' ''plugin 0 (p) - transform'' 1 \<and>
   getTimings after_sync_call ''  - plugin 0 (p) - transform'' = None \<and>
   getTimings after_sync_call ''- plugin 0 (p) - transform'' = Some (5, 40, 140)"
  by (simp add: after_sync_call_timers getTimings_def)
     (simp add: timing_example_eq get_prop_def)

text \<open>
  C5, amended. Instrumenting at index 0 a plugin named \<open>p\<close> that has a \<open>transform\<close>
  property stores a closure with the label prefix \<open>plugin 0 (p) - transform\<close>; in Timing
  mode a call of it whose hook returns (and leaves the registry and the bindings alone)
  is recorded under \<open>"- plugin 0 (p) - transform"\<close>, the level 4 format, which has no
  leading spaces: the record gains the measured interval and memory difference. It has
  them when the closure returns and, where the hook's result is an object or function
  with a callable \<open>then\<close> member, already when that \<open>then\<close> is called, whose outcome is
  then the closure's.
\<close>

theorem timed_transform_label:
  assumes name: "get_prop st plugin ''name'' = Str ''p''"
    and own: "''transform'' \<in> fst ` set (objects st plugin)"
    and T: "timeStart s = F_timeStartImpl" "timeEnd s = F_timeEndImpl"
    and start: "call_timeStart ''plugin 0 (p) - transform'' (Some 4) s = Inr s1"
    and hook: "app (get_prop s1 plugin ''transform'') (receiver this (next_object st) plugin) args s1 =
                 (Returned v, s2)"
    and fr: "timers s2 = timers s1" "same_bindings s1 s2"
  shows "(\<exists>st1. getPluginWithTimers plugin 0 st = (Returned (next_object st), st1) \<and>
            get_prop st1 (next_object st) ''transform'' =
              TimedHook plugin ''transform'' ''plugin 0 (p) - transform'' (next_object st)) \<and>
         ((\<forall>r. members_ref v = Some r \<longrightarrow> \<not> callable (get_prop s2 r ''then'')) \<longrightarrow>
            (\<exists>out s'. call_TimedHook app plugin ''transform'' ''plugin 0 (p) - transform''
                         (next_object st) this args s = (Returned out, s') \<and>
               getTimings s' ''- plugin 0 (p) - transform'' =
                 Some (dadd (fst (accumulated s ''- plugin 0 (p) - transform''))
                         (elapsed_interval s (env s, env s2)),
                       fst (snd (accumulated s ''- plugin 0 (p) - transform'')) +
                         (memory_sample s (env s2) - memory_sample s (env s)),
                       max (snd (snd (accumulated s ''- plugin 0 (p) - transform'')))
                         (memory_sample s (env s2))))) \<and>
         (members_ref v = Some r \<and> callable (get_prop s2 r ''then'') \<longrightarrow>
            (\<exists>s4. call_TimedHook app plugin ''transform'' ''plugin 0 (p) - transform''
                     (next_object st) this args s =
                     app (get_prop s4 r ''then'') v [Continuation ''plugin 0 (p) - transform''] s4 \<and>
               getTimings s4 ''- plugin 0 (p) - transform'' =
                 Some (dadd (fst (accumulated s ''- plugin 0 (p) - transform''))
                         (elapsed_interval s (env s, env s2)),
                       fst (snd (accumulated s ''- plugin 0 (p) - transform'')) +
                         (memory_sample s (env s2) - memory_sample s (env s)),
                       max (snd (snd (accumulated s ''- plugin 0 (p) - transform'')))
                         (memory_sample s (env s2)))))"
proof -
  let ?L = "''plugin 0 (p) - transform''"
  let ?X = "Some (dadd (fst (accumulated s (''- '' @ ?L))) (elapsed_interval s (env s, env s2)),
                  fst (snd (accumulated s (''- '' @ ?L))) +
                    (memory_sample s (env s2) - memory_sample s (env s)),
                  max (snd (snd (accumulated s (''- '' @ ?L)))) (memory_sample s (env s2)))"
  from getPluginWithTimers_result [OF labels_fit_p [OF name]] obtain props where
    g: "getPluginWithTimers plugin 0 st =
      (Returned (next_object st),
       st\<lparr> objects := (objects st)(next_object st := props), next_object := Suc (next_object st) \<rparr>)"
    and props: "\<And>hook. (case map_of props hook of None \<Rightarrow> Undefined | Some v \<Rightarrow> v) =
        timed_copy st plugin 0 (next_object st) hook"
    by blast
  have "timed_copy st plugin 0 (next_object st) ''transform'' =
          TimedHook plugin ''transform'' ?L (next_object st)"
    using own timerLabel_of_p [OF name] by (simp add: timed_copy_def TIMED_PLUGIN_HOOKS_def)
  with props [of "''transform''"] have
    "get_prop (st\<lparr> objects := (objects st)(next_object st := props),
                   next_object := Suc (next_object st) \<rparr>) (next_object st) ''transform'' =
       TimedHook plugin ''transform'' ?L (next_object st)"
    by (simp add: get_prop_def)
  with g have a: "\<exists>st1. getPluginWithTimers plugin 0 st = (Returned (next_object st), st1) \<and>
            get_prop st1 (next_object st) ''transform'' =
              TimedHook plugin ''transform'' ?L (next_object st)"
    by blast
  have fits: "length ?L + 10 \<le> max_string_length"
    by (simp add: max_string_length_def)
  note ret = timed_call_returns [where app = app and pl = plugin and hook = "''transform''"
      and this = this and tp = "next_object st" and args = args, OF T start hook fr]
  note facts = sync_recorded_facts [OF T start fr]
  let ?s3 = "sync_recorded s s2 ?L"
  let ?s4 = "async_started ?s3 ?L"
  have b: "\<exists>out s'. call_TimedHook app plugin ''transform'' ?L (next_object st) this args s =
               (Returned out, s') \<and> getTimings s' (''- '' @ ?L) = ?X"
    if none: "\<forall>r. members_ref v = Some r \<longrightarrow> \<not> callable (get_prop s2 r ''then'')"
  proof (cases "\<exists>p. v = Promise p")
    case True
    then obtain p where v: "v = Promise p" ..
    let ?s' = "?s4\<lparr> promises := (promises s2)
                     (p := (promises s2 p)
                        \<lparr> reactions := reactions (promises s2 p) @ [(EndAsync ?L, next_promise s2)] \<rparr>),
                  next_promise := Suc (next_promise s2) \<rparr>"
    have "getTimings ?s' (''- '' @ ?L) = getTimings ?s4 (''- '' @ ?L)"
      by (simp add: getTimings_def)
    with facts(1,2) have "getTimings ?s' (''- '' @ ?L) = ?X" by simp
    with ret(2) [OF fits v] show ?thesis by blast
  next
    case False
    with none have "\<not> (truthy v \<and> thenable s2 v)"
      unfolding thenable_cases by blast
    from ret(1) [OF this] facts(1) show ?thesis by blast
  qed
  have c: "\<exists>s4. call_TimedHook app plugin ''transform'' ?L (next_object st) this args s =
                     app (get_prop s4 r ''then'') v [Continuation ?L] s4 \<and>
               getTimings s4 (''- '' @ ?L) = ?X"
    if "members_ref v = Some r" "callable (get_prop s2 r ''then'')"
    using ret(3) [OF fits that] facts(1,2) by (intro exI [where x = ?s4]) simp
  from a b c show ?thesis by simp
qed





lemma timing_example_fields:
  "timeStart timing_example = F_timeStartImpl"
  "timeEnd timing_example = F_timeEndImpl"
  "timers timing_example = Map.empty"
  "env timing_example = node_host (1, 0) 100"
  "objects timing_example 0 = example_plugin"
  "getStartTime timing_example = StartHrtime"
  "getElapsedTime timing_example = ElapsedHrtime"
  "getMemory timing_example = MemoryHeapUsed"
  "next_promise timing_example = 1"
  "promises timing_example 0 = \<lparr> settled = None, reactions = [] \<rparr>"
  unfolding timing_example_eq by (simp_all add: initial_state_def)

lemma thenable_example_fields:
  "timeStart thenable_example = F_timeStartImpl"
  "timeEnd thenable_example = F_timeEndImpl"
  "timers thenable_example = Map.empty"
  "env thenable_example = node_host (1, 0) 100"
  "objects thenable_example 0 = example_plugin"
  "getStartTime thenable_example = StartHrtime"
  "getElapsedTime thenable_example = ElapsedHrtime"
  "getMemory thenable_example = MemoryHeapUsed"
  "objects thenable_example 2 = [(''then'', Fn 2)]"
  unfolding thenable_example_def timing_example_eq by (simp_all add: initial_state_def)

lemma example_measures:
  assumes "getStartTime s = StartHrtime" "getElapsedTime s = ElapsedHrtime"
    "getMemory s = MemoryHeapUsed"
  shows "elapsed_interval s (node_host (1, 0) 100, later) = 5"
    and "memory_sample s later = 140"
    and "memory_sample s (node_host (1, 0) 100) = 100"
    and "call_getStartTime (set_env (node_host (1, 0) 100) s) = (1, 0)"
  using assms
  by (simp_all add: elapsed_interval_def memory_sample_def
      set_env_def call_getElapsedTime_def call_getStartTime_def call_getMemory_def
      later_def node_host_def hrtime_since_def normalizeHrTime_def Let_def
      dadd_def dsub_def dmul_def ddiv_def)

lemma accumulated_empty:
  "timers s = Map.empty \<Longrightarrow> accumulated s key = (0, 0, 0)"
  by (simp add: accumulated_def getTimings_def)

lemma example_hook_call:
  assumes "objects s1 0 = example_plugin"
  shows "hook_returning v rt (get_prop s1 0 ''transform'') this args s1 = (Returned v, set_env rt s1)"
    "hook_throwing e rt (get_prop s1 0 ''transform'') this args s1 = (Threw e, set_env rt s1)"
    "thenable_hook (get_prop s1 0 ''transform'') this args s1 = (Returned (Obj 2), set_env later s1)"
  using assms
  by (simp_all add: hook_returning_def hook_throwing_def thenable_hook_def get_prop_def
      example_plugin_def)

lemma example_label_fits:
  "length ''plugin 0 (p) - transform'' + 2 \<le> max_string_length"
  "length ''plugin 0 (p) - transform'' + 8 \<le> max_string_length"
  "length ''plugin 0 (p) - transform'' + 10 \<le> max_string_length"
  "length (''plugin 0 (p) - transform'' @ '' (async)'') + 2 \<le> max_string_length"
  by (simp_all add: max_string_length_def)

theorem timed_transform_label_witness:
  "get_prop example_state 0 ''name'' = Str ''p'' \<and>
   ''transform'' \<in> fst ` set (objects example_state 0) \<and>
   timeStart timing_example = F_timeStartImpl \<and> timeEnd timing_example = F_timeEndImpl \<and>
   (\<exists>s1. call_timeStart ''plugin 0 (p) - transform'' (Some 4) timing_example = Inr s1 \<and>
      hook_returning (Str ''code'') later (get_prop s1 0 ''transform'')
        (receiver (Obj 1) (next_object example_state) 0) [] s1 =
        (Returned (Str ''code''), set_env later s1) \<and>
      timers (set_env later s1) = timers s1 \<and> same_bindings s1 (set_env later s1)) \<and>
   members_ref (Str ''code'') = None \<and>
   (\<exists>st1. getPluginWithTimers 0 0 example_state = (Returned 1, st1) \<and>
      get_prop st1 1 ''transform'' = TimedHook 0 ''transform'' ''plugin 0 (p) - transform'' 1) \<and>
   (\<exists>out s'. call_TimedHook (hook_returning (Str ''code'') later) 0 ''transform''
                ''plugin 0 (p) - transform'' 1 (Obj 1) [] timing_example = (Returned out, s') \<and>
      getTimings s' ''- plugin 0 (p) - transform'' = Some (5, 40, 140)) \<and>
   timeStart thenable_example = F_timeStartImpl \<and> timeEnd thenable_example = F_timeEndImpl \<and>
   (\<exists>s1. call_timeStart ''plugin 0 (p) - transform'' (Some 4) thenable_example = Inr s1 \<and>
      thenable_hook (get_prop s1 0 ''transform'')
        (receiver (Obj 1) (next_object example_state) 0) [] s1 =
        (Returned (Obj 2), set_env later s1) \<and>
      timers (set_env later s1) = timers s1 \<and> same_bindings s1 (set_env later s1) \<and>
      callable (get_prop (set_env later s1) 2 ''then'')) \<and>
   members_ref (Obj 2) = Some 2 \<and>
   (\<exists>s4. call_TimedHook thenable_hook 0 ''transform'' ''plugin 0 (p) - transform'' 1 (Obj 1) []
            thenable_example =
            thenable_hook (get_prop s4 2 ''then'') (Obj 2)
              [Continuation ''plugin 0 (p) - transform''] s4 \<and>
      getTimings s4 ''- plugin 0 (p) - transform'' = Some (5, 40, 140))"
proof -
  let ?L = "''plugin 0 (p) - transform''"
  let ?s1 = "timing_example\<lparr> timers := (timers timing_example)
               (''- '' @ ?L \<mapsto> started timing_example (''- '' @ ?L)) \<rparr>"
  let ?u1 = "thenable_example\<lparr> timers := (timers thenable_example)
               (''- '' @ ?L \<mapsto> started thenable_example (''- '' @ ?L)) \<rparr>"
  have name: "get_prop example_state 0 ''name'' = Str ''p''"
    and own: "''transform'' \<in> fst ` set (objects example_state 0)"
    and nxt: "next_object example_state = 1"
    by (simp_all add: example_state_def example_plugin_def get_prop_def)
  note T = timing_example_fields(1,2)
  note U = thenable_example_fields(1,2)
  have start: "call_timeStart ?L (Some 4) timing_example = Inr ?s1"
    by (rule timing_start4_ok [OF T(1) _ example_label_fits(1)])
       (simp add: timing_example_fields)
  have ustart: "call_timeStart ?L (Some 4) thenable_example = Inr ?u1"
    by (rule timing_start4_ok [OF U(1) _ example_label_fits(1)])
       (simp add: thenable_example_fields)
  have hook: "hook_returning (Str ''code'') later (get_prop ?s1 0 ''transform'')
        (receiver (Obj 1) (next_object example_state) 0) [] ?s1 =
        (Returned (Str ''code''), set_env later ?s1)"
    by (rule example_hook_call) (simp add: timing_example_fields)
  have uhook: "thenable_hook (get_prop ?u1 0 ''transform'')
        (receiver (Obj 1) (next_object example_state) 0) [] ?u1 =
        (Returned (Obj 2), set_env later ?u1)"
    by (rule example_hook_call) (simp add: thenable_example_fields)
  have fr: "timers (set_env later ?s1) = timers ?s1" "same_bindings ?s1 (set_env later ?s1)"
    by (simp_all add: set_env_def same_bindings_def)
  have ufr: "timers (set_env later ?u1) = timers ?u1" "same_bindings ?u1 (set_env later ?u1)"
    by (simp_all add: set_env_def same_bindings_def)
  have e: "env (set_env later ?s1) = later" "env (set_env later ?u1) = later"
    by (simp_all add: set_env_def)
  have nm: "members_ref (Str ''code'') = None" "members_ref (Obj 2) = Some 2"
    by (simp_all add: members_ref_def)
  have cl: "callable (get_prop (set_env later ?u1) 2 ''then'')"
    by (simp add: set_env_def get_prop_def thenable_example_fields callable_def)
  note ms = example_measures(1,2,3) [OF timing_example_fields(6,7,8)]
    accumulated_empty [OF timing_example_fields(3)]
  note ums = example_measures(1,2,3) [OF thenable_example_fields(6,7,8)]
    accumulated_empty [OF thenable_example_fields(3)]
  note inst = timed_transform_label [where app = "hook_returning (Str ''code'') later"
      and this = "Obj 1" and args = "[]", OF name own T start hook fr]
  note uinst = timed_transform_label [where app = thenable_hook
      and this = "Obj 1" and args = "[]" and r = 2, OF name own U ustart uhook ufr]
  have a: "\<exists>st1. getPluginWithTimers 0 0 example_state = (Returned 1, st1) \<and>
      get_prop st1 1 ''transform'' = TimedHook 0 ''transform'' ''plugin 0 (p) - transform'' 1"
    using inst [THEN conjunct1] unfolding nxt by simp
  have b: "\<exists>out s'. call_TimedHook (hook_returning (Str ''code'') later) 0 ''transform''
                ''plugin 0 (p) - transform'' 1 (Obj 1) [] timing_example = (Returned out, s') \<and>
      getTimings s' ''- plugin 0 (p) - transform'' = Some (5, 40, 140)"
    using inst [THEN conjunct2, THEN conjunct1]
    unfolding e nxt timing_example_fields(4) ms nm
    by (simp add: dadd_def)
  have c: "\<exists>s4. call_TimedHook thenable_hook 0 ''transform'' ''plugin 0 (p) - transform'' 1 (Obj 1) []
            thenable_example =
            thenable_hook (get_prop s4 2 ''then'') (Obj 2)
              [Continuation ''plugin 0 (p) - transform''] s4 \<and>
      getTimings s4 ''- plugin 0 (p) - transform'' = Some (5, 40, 140)"
    using uinst [THEN conjunct2, THEN conjunct2] cl nm(2)
    unfolding e nxt thenable_example_fields(4) ums
    by (simp add: dadd_def)
  have h1: "\<exists>s1. call_timeStart ''plugin 0 (p) - transform'' (Some 4) timing_example = Inr s1 \<and>
      hook_returning (Str ''code'') later (get_prop s1 0 ''transform'')
        (receiver (Obj 1) (next_object example_state) 0) [] s1 =
        (Returned (Str ''code''), set_env later s1) \<and>
      timers (set_env later s1) = timers s1 \<and> same_bindings s1 (set_env later s1)"
    using start hook fr by (intro exI [where x = ?s1] conjI)
  have h2: "\<exists>s1. call_timeStart ''plugin 0 (p) - transform'' (Some 4) thenable_example = Inr s1 \<and>
      thenable_hook (get_prop s1 0 ''transform'')
        (receiver (Obj 1) (next_object example_state) 0) [] s1 =
        (Returned (Obj 2), set_env later s1) \<and>
      timers (set_env later s1) = timers s1 \<and> same_bindings s1 (set_env later s1) \<and>
      callable (get_prop (set_env later s1) 2 ''then'')"
    using ustart uhook ufr cl by (intro exI [where x = ?u1] conjI)
  from name own T h1 nm(1) a b U h2 nm(2) c show ?thesis
    by (intro conjI)
qed

theorem sync_failure_skips_timeEnd_witness:
  "timeStart timing_example = F_timeStartImpl \<and>
   (\<exists>s1. call_timeStart ''plugin 0 (p) - transform'' (Some 4) timing_example = Inr s1 \<and>
      hook_throwing (Str ''boom'') later (get_prop s1 0 ''transform'') (receiver (Obj 1) 1 0) [] s1 =
        (Threw (Str ''boom''), set_env later s1) \<and>
      timers (set_env later s1) = timers s1 \<and>
      call_TimedHook (hook_throwing (Str ''boom'') later) 0 ''transform''
        ''plugin 0 (p) - transform'' 1 (Obj 1) [] timing_example =
        (Threw (Str ''boom''), set_env later s1) \<and>
      (\<exists>t. timers (set_env later s1) ''- plugin 0 (p) - transform'' = Some t \<and>
         startTime t = (1, 0) \<and> startMemory t = 100 \<and>
         (time t, memory t, totalMemory t) = (0, 0, 0)))"
proof -
  let ?L = "''plugin 0 (p) - transform''"
  let ?s1 = "timing_example\<lparr> timers := (timers timing_example)
               (''- '' @ ?L \<mapsto> started timing_example (''- '' @ ?L)) \<rparr>"
  note T = timing_example_fields(1)
  have start: "call_timeStart ?L (Some 4) timing_example = Inr ?s1"
    by (rule timing_start4_ok [OF T _ example_label_fits(1)])
       (simp add: timing_example_fields)
  have hook: "hook_throwing (Str ''boom'') later (get_prop ?s1 0 ''transform'')
        (receiver (Obj 1) 1 0) [] ?s1 = (Threw (Str ''boom''), set_env later ?s1)"
    by (rule example_hook_call) (simp add: timing_example_fields)
  have fr: "timers (set_env later ?s1) = timers ?s1"
    by (simp add: set_env_def)
  have before: "call_getStartTime timing_example = (1, 0)" "call_getMemory timing_example = 100"
    "accumulated timing_example (''- '' @ ?L) = (0, 0, 0)"
    by (simp_all add: call_getStartTime_def call_getMemory_def timing_example_fields node_host_def
        accumulated_empty)
  note inst = sync_failure_skips_timeEnd [where app = "hook_throwing (Str ''boom'') later"
      and this = "Obj 1" and args = "[]" and tp = 1, OF start hook]
  from inst [THEN conjunct1]
  have thrown: "call_TimedHook (hook_throwing (Str ''boom'') later) 0 ''transform''
        ''plugin 0 (p) - transform'' 1 (Obj 1) [] timing_example =
        (Threw (Str ''boom''), set_env later ?s1)"
    by simp
  from inst [THEN conjunct2] T fr before
  have rec: "\<exists>t. timers (set_env later ?s1) ''- plugin 0 (p) - transform'' = Some t \<and>
         startTime t = (1, 0) \<and> startMemory t = 100 \<and>
         (time t, memory t, totalMemory t) = (0, 0, 0)"
    by simp
  from start hook fr thrown rec
  have "\<exists>s1. call_timeStart ''plugin 0 (p) - transform'' (Some 4) timing_example = Inr s1 \<and>
      hook_throwing (Str ''boom'') later (get_prop s1 0 ''transform'') (receiver (Obj 1) 1 0) [] s1 =
        (Threw (Str ''boom''), set_env later s1) \<and>
      timers (set_env later s1) = timers s1 \<and>
      call_TimedHook (hook_throwing (Str ''boom'') later) 0 ''transform''
        ''plugin 0 (p) - transform'' 1 (Obj 1) [] timing_example =
        (Threw (Str ''boom''), set_env later s1) \<and>
      (\<exists>t. timers (set_env later s1) ''- plugin 0 (p) - transform'' = Some t \<and>
         startTime t = (1, 0) \<and> startMemory t = 100 \<and>
         (time t, memory t, totalMemory t) = (0, 0, 0))"
    by (intro exI [of _ ?s1] conjI)
  with T show ?thesis by (rule conjI)
qed

lemma after_async_call_fields:
  "timeEnd (set_env much_later after_async_call) = F_timeEndImpl"
  "timers (set_env much_later after_async_call) ''- plugin 0 (p) - transform (async)'' =
     Some \<lparr> memory = 0, startMemory = 140, startTime = (1, 5000000), time = 0, totalMemory = 0 \<rparr>"
  "reactions (promises (set_env much_later after_async_call) 0) =
     [(EndAsync ''plugin 0 (p) - transform'', 1)]"
  "settled (promises (set_env much_later after_async_call) 0) = None"
  "settled (promises (set_env much_later after_async_call) 1) = None"
  "call_getElapsedTime (set_env much_later after_async_call) (1, 5000000) = 7"
  "call_getMemory (set_env much_later after_async_call) = 130"
  "timers (set_env much_later after_async_call) ''hasOwnProperty'' = None"
  unfolding after_async_call_eq timing_example_eq
  by (simp_all add: set_env_def initial_state_def much_later_def node_host_def
      call_getElapsedTime_def call_getMemory_def hrtime_since_def normalizeHrTime_def Let_def
      dadd_def dsub_def dmul_def ddiv_def)

lemma long_lengths:
  "length long_name = max_string_length"
  "max_string_length < length long_name + 8"
  "length long_label + 2 \<le> max_string_length"
  "length long_label + 8 \<le> max_string_length"
  "max_string_length < length long_label + 10"
  "max_string_length < length (long_label @ '' (async)'') + 2"
proof -
  have m: "9 \<le> max_string_length"
    by (simp add: max_string_length_def)
  show n: "length long_name = max_string_length"
    by (simp only: long_name_def length_replicate)
  have l: "length long_label = max_string_length - 9"
    by (simp only: long_label_def length_replicate)
  show "max_string_length < length long_name + 8"
    using n by simp
  show "length long_label + 2 \<le> max_string_length"
    "length long_label + 8 \<le> max_string_length"
    "max_string_length < length long_label + 10"
    "max_string_length < length (long_label @ '' (async)'') + 2"
    using l m by simp_all
qed

lemma noop_calls:
  "timeStart s = NOOP \<Longrightarrow> call_timeStart l lv s = Inr s"
  "timeEnd s = NOOP \<Longrightarrow> call_timeEnd l lv s = Inr s"
  by (simp_all add: call_timeStart_def call_timeEnd_def call_timer_fn_def)

lemma timing_start4_too_long:
  assumes "timeStart s = F_timeStartImpl" and "max_string_length < length l + 2"
  shows "call_timeStart l (Some 4) s = Inl RangeError"
  using assms
  by (simp add: call_timeStart_def call_timer_fn_def timeStartImpl_def getPersistedLabel_def
      level_default_def repeat_str_def template_def)

theorem async_continuation_witness:
  "(\<exists>s1 s2 s3 s4.
      call_timeStart ''plugin 0 (p) - transform'' (Some 4) timing_example = Inr s1 \<and>
      hook_returning (Promise 0) later (get_prop s1 0 ''transform'') (receiver (Obj 1) 1 0) [] s1 =
        (Returned (Promise 0), s2) \<and>
      call_timeEnd ''plugin 0 (p) - transform'' (Some 4) s2 = Inr s3 \<and>
      call_timeStart (''plugin 0 (p) - transform'' @ '' (async)'') (Some 4) s3 = Inr s4 \<and>
      next_promise s4 = 1 \<and>
      fst (call_TimedHook (hook_returning (Promise 0) later) 0 ''transform''
             ''plugin 0 (p) - transform'' 1 (Obj 1) [] timing_example) = Returned (Promise 1)) \<and>
   length ''plugin 0 (p) - transform'' + 8 \<le> max_string_length \<and>
   reactions (promises (set_env much_later after_async_call) 0) =
     [(EndAsync ''plugin 0 (p) - transform'', 1)] \<and>
   settled (promises (set_env much_later after_async_call) 0) = None \<and>
   settled (promises (set_env much_later after_async_call) 1) = None \<and>
   (1::nat) \<noteq> 0 \<and>
   (\<exists>q'. call_timeEnd (''plugin 0 (p) - transform'' @ '' (async)'') (Some 4)
            (set_env much_later after_async_call) = Inr q' \<and>
      call_Continuation ''plugin 0 (p) - transform'' (Str ''code'')
        (set_env much_later after_async_call) = (Returned (Str ''code''), q') \<and>
      timers (deliver 0 (settle_promise 0 (Returned (Str ''code''))
                (set_env much_later after_async_call))) = timers q' \<and>
      settled (promises (deliver 0 (settle_promise 0 (Returned (Str ''code''))
                (set_env much_later after_async_call))) 1) = Some (Returned (Str ''code''))) \<and>
   timers (deliver 0 (settle_promise 0 (Threw (Str ''boom''))
                (set_env much_later after_async_call))) =
     timers (set_env much_later after_async_call) \<and>
   settled (promises (deliver 0 (settle_promise 0 (Threw (Str ''boom''))
                (set_env much_later after_async_call))) 1) = Some (Threw (Str ''boom'')) \<and>
   members_ref (Obj 2) = Some 2 \<and>
   (\<exists>u1 u2 u3 u4.
      call_timeStart ''plugin 0 (p) - transform'' (Some 4) thenable_example = Inr u1 \<and>
      thenable_hook (get_prop u1 0 ''transform'') (receiver (Obj 1) 1 0) [] u1 =
        (Returned (Obj 2), u2) \<and>
      call_timeEnd ''plugin 0 (p) - transform'' (Some 4) u2 = Inr u3 \<and>
      call_timeStart (''plugin 0 (p) - transform'' @ '' (async)'') (Some 4) u3 = Inr u4 \<and>
      callable (get_prop u3 2 ''then'') \<and>
      call_TimedHook thenable_hook 0 ''transform'' ''plugin 0 (p) - transform'' 1 (Obj 1) []
        thenable_example =
        thenable_hook (get_prop u4 2 ''then'') (Obj 2)
          [Continuation ''plugin 0 (p) - transform''] u4) \<and>
   members_ref (Str ''code'') = None \<and>
   (\<exists>s1 s2 s3.
      call_timeStart ''plugin 0 (p) - transform'' (Some 4) timing_example = Inr s1 \<and>
      hook_returning (Str ''code'') later (get_prop s1 0 ''transform'') (receiver (Obj 1) 1 0) [] s1 =
        (Returned (Str ''code''), s2) \<and>
      call_timeEnd ''plugin 0 (p) - transform'' (Some 4) s2 = Inr s3 \<and>
      call_TimedHook (hook_returning (Str ''code'') later) 0 ''transform''
        ''plugin 0 (p) - transform'' 1 (Obj 1) [] timing_example = (Returned (Str ''code''), s3)) \<and>
   max_string_length < length long_name + 8 \<and>
   call_timeStart long_name (Some 4) example_state = Inr example_state \<and>
   hook_returning (Promise 0) later (get_prop example_state 0 ''transform'')
     (receiver (Obj 1) 1 0) [] example_state = (Returned (Promise 0), set_env later example_state) \<and>
   call_timeEnd long_name (Some 4) (set_env later example_state) =
     Inr (set_env later example_state) \<and>
   call_TimedHook (hook_returning (Promise 0) later) 0 ''transform'' long_name 1 (Obj 1) []
     example_state = (Threw RangeError, set_env later example_state) \<and>
   length long_label + 8 \<le> max_string_length \<and>
   (\<exists>s1 s2 s3.
      call_timeStart long_label (Some 4) timing_example = Inr s1 \<and>
      hook_returning (Promise 0) later (get_prop s1 0 ''transform'') (receiver (Obj 1) 1 0) [] s1 =
        (Returned (Promise 0), s2) \<and>
      call_timeEnd long_label (Some 4) s2 = Inr s3 \<and>
      call_timeStart (long_label @ '' (async)'') (Some 4) s3 = Inl RangeError \<and>
      call_TimedHook (hook_returning (Promise 0) later) 0 ''transform'' long_label 1 (Obj 1) []
        timing_example = (Threw RangeError, s3))"
proof -
  let ?L = "''plugin 0 (p) - transform''"
  let ?K = "''- '' @ ?L"
  let ?s1 = "timing_example\<lparr> timers := (timers timing_example)
               (?K \<mapsto> started timing_example ?K) \<rparr>"
  let ?s2 = "set_env later ?s1"
  let ?s3 = "?s2\<lparr> timers := (timers ?s2)(?K \<mapsto> ended ?s2 (started timing_example ?K)) \<rparr>"
  let ?e2 = "set_env later example_state"
  let ?LK = "''- '' @ long_label"
  let ?l1 = "timing_example\<lparr> timers := (timers timing_example)
               (?LK \<mapsto> started timing_example ?LK) \<rparr>"
  let ?l2 = "set_env later ?l1"
  let ?l3 = "?l2\<lparr> timers := (timers ?l2)(?LK \<mapsto> ended ?l2 (started timing_example ?LK)) \<rparr>"
  let ?s4 = "?s3\<lparr> timers := (timers ?s3)
               (''- '' @ (?L @ '' (async)'') \<mapsto> started ?s3 (''- '' @ (?L @ '' (async)''))) \<rparr>"
  let ?u1 = "thenable_example\<lparr> timers := (timers thenable_example)
               (?K \<mapsto> started thenable_example ?K) \<rparr>"
  let ?u2 = "set_env later ?u1"
  let ?u3 = "?u2\<lparr> timers := (timers ?u2)(?K \<mapsto> ended ?u2 (started thenable_example ?K)) \<rparr>"
  let ?u4 = "?u3\<lparr> timers := (timers ?u3)
               (''- '' @ (?L @ '' (async)'') \<mapsto> started ?u3 (''- '' @ (?L @ '' (async)''))) \<rparr>"
  let ?Q = "set_env much_later after_async_call"
  let ?q' = "?Q\<lparr> timers := (timers ?Q)(''- '' @ (?L @ '' (async)'') \<mapsto>
                ended ?Q \<lparr> memory = 0, startMemory = 140, startTime = (1, 5000000),
                             time = 0, totalMemory = 0 \<rparr>) \<rparr>"
  note fits = example_label_fits(2)
  have start: "call_timeStart ?L (Some 4) timing_example = Inr ?s1"
    by (rule timing_start4_ok [OF timing_example_fields(1) _ example_label_fits(1)])
       (simp add: timing_example_fields)
  have hook: "hook_returning (Promise 0) later (get_prop ?s1 0 ''transform'')
        (receiver (Obj 1) 1 0) [] ?s1 = (Returned (Promise 0), ?s2)"
    by (rule example_hook_call) (simp add: timing_example_fields)
  have stop: "call_timeEnd ?L (Some 4) ?s2 = Inr ?s3"
    by (rule timing_end4 [OF _ _ _ example_label_fits(1)])
       (simp_all add: set_env_def timing_example_fields)
  have astart: "call_timeStart (?L @ '' (async)'') (Some 4) ?s3 = Inr ?s4"
    by (rule timing_start4_ok [OF _ _ example_label_fits(4)])
       (simp_all add: set_env_def timing_example_fields)
  have np: "next_promise ?s4 = 1"
    by (simp add: set_env_def timing_example_fields)
  have ustart: "call_timeStart ?L (Some 4) thenable_example = Inr ?u1"
    by (rule timing_start4_ok [OF thenable_example_fields(1) _ example_label_fits(1)])
       (simp add: thenable_example_fields)
  have uhook: "thenable_hook (get_prop ?u1 0 ''transform'')
        (receiver (Obj 1) 1 0) [] ?u1 = (Returned (Obj 2), ?u2)"
    by (rule example_hook_call) (simp add: thenable_example_fields)
  have ustop: "call_timeEnd ?L (Some 4) ?u2 = Inr ?u3"
    by (rule timing_end4 [OF _ _ _ example_label_fits(1)])
       (simp_all add: set_env_def thenable_example_fields)
  have uastart: "call_timeStart (?L @ '' (async)'') (Some 4) ?u3 = Inr ?u4"
    by (rule timing_start4_ok [OF _ _ example_label_fits(4)])
       (simp_all add: set_env_def thenable_example_fields)
  have nm: "members_ref (Obj 2) = Some 2"
    by (simp add: members_ref_def)
  have cl: "callable (get_prop ?u3 2 ''then'')"
    by (simp add: set_env_def get_prop_def thenable_example_fields callable_def)
  note q = after_async_call_fields(3,4,5)
  have d: "(1::nat) \<noteq> 0" by simp
  have fin: "call_timeEnd (?L @ '' (async)'') (Some 4) ?Q = Inr ?q'"
    by (rule timing_end4 [OF _ _ _ example_label_fits(4)])
       (simp_all add: after_async_call_fields)
  note inst = async_continuation [where app = "hook_returning (Promise 0) later" and this = "Obj 1"
      and args = "[]" and tp = 1 and q' = ?q' and w = "Str ''code''" and x = "Str ''boom''"
      and ?s4.0 = ?s4 and q = ?Q and p = 0 and d = 1, OF start hook stop]
  note uinst = async_continuation [where app = thenable_hook and this = "Obj 1"
      and args = "[]" and tp = 1 and r = 2 and ?s4.0 = ?u4, OF ustart uhook ustop]
  from inst [THEN conjunct1, THEN mp, OF conjI [OF fits astart], THEN conjunct1, THEN mp, OF refl] np
  have r1: "fst (call_TimedHook (hook_returning (Promise 0) later) 0 ''transform''
             ''plugin 0 (p) - transform'' 1 (Obj 1) [] timing_example) = Returned (Promise 1)"
    by simp
  note r2 = inst [THEN conjunct2, THEN conjunct2, THEN conjunct2, THEN conjunct1, THEN mp,
      OF conjI [OF fits fin]]
  note dd = inst [THEN conjunct2, THEN conjunct2, THEN conjunct2, THEN conjunct2, THEN mp,
      OF conjI [OF q(1) conjI [OF q(2) conjI [OF q(3) d]]]]
  from dd [THEN conjunct1, THEN mp, OF conjI [OF fits fin]]
  have r3: "timers (deliver 0 (settle_promise 0 (Returned (Str ''code'')) ?Q)) = timers ?q'"
    and r4: "settled (promises (deliver 0 (settle_promise 0 (Returned (Str ''code'')) ?Q)) 1) =
           Some (Returned (Str ''code''))"
    by simp_all
  from dd [THEN conjunct2]
  have r5: "timers (deliver 0 (settle_promise 0 (Threw (Str ''boom'')) ?Q)) = timers ?Q"
    and r6: "settled (promises (deliver 0 (settle_promise 0 (Threw (Str ''boom'')) ?Q)) 1) =
           Some (Threw (Str ''boom''))"
    by simp_all
  note r7 = uinst [THEN conjunct1, THEN mp, OF conjI [OF fits uastart], THEN conjunct2, THEN mp,
      OF conjI [OF nm cl]]
  have e1: "\<exists>s1 s2 s3 s4.
      call_timeStart ''plugin 0 (p) - transform'' (Some 4) timing_example = Inr s1 \<and>
      hook_returning (Promise 0) later (get_prop s1 0 ''transform'') (receiver (Obj 1) 1 0) [] s1 =
        (Returned (Promise 0), s2) \<and>
      call_timeEnd ''plugin 0 (p) - transform'' (Some 4) s2 = Inr s3 \<and>
      call_timeStart (''plugin 0 (p) - transform'' @ '' (async)'') (Some 4) s3 = Inr s4 \<and>
      next_promise s4 = 1 \<and>
      fst (call_TimedHook (hook_returning (Promise 0) later) 0 ''transform''
             ''plugin 0 (p) - transform'' 1 (Obj 1) [] timing_example) = Returned (Promise 1)"
    using start hook stop astart np r1
    by (intro exI [where x = ?s1] exI [where x = ?s2] exI [where x = ?s3] exI [where x = ?s4] conjI)
  have e2: "\<exists>q'. call_timeEnd (''plugin 0 (p) - transform'' @ '' (async)'') (Some 4) ?Q = Inr q' \<and>
      call_Continuation ''plugin 0 (p) - transform'' (Str ''code'') ?Q = (Returned (Str ''code''), q') \<and>
      timers (deliver 0 (settle_promise 0 (Returned (Str ''code'')) ?Q)) = timers q' \<and>
      settled (promises (deliver 0 (settle_promise 0 (Returned (Str ''code'')) ?Q)) 1) =
        Some (Returned (Str ''code''))"
    using fin r2 r3 r4 by (intro exI [where x = ?q'] conjI)
  have e3: "\<exists>u1 u2 u3 u4.
      call_timeStart ''plugin 0 (p) - transform'' (Some 4) thenable_example = Inr u1 \<and>
      thenable_hook (get_prop u1 0 ''transform'') (receiver (Obj 1) 1 0) [] u1 =
        (Returned (Obj 2), u2) \<and>
      call_timeEnd ''plugin 0 (p) - transform'' (Some 4) u2 = Inr u3 \<and>
      call_timeStart (''plugin 0 (p) - transform'' @ '' (async)'') (Some 4) u3 = Inr u4 \<and>
      callable (get_prop u3 2 ''then'') \<and>
      call_TimedHook thenable_hook 0 ''transform'' ''plugin 0 (p) - transform'' 1 (Obj 1) []
        thenable_example =
        thenable_hook (get_prop u4 2 ''then'') (Obj 2)
          [Continuation ''plugin 0 (p) - transform''] u4"
    using ustart uhook ustop uastart cl r7
    by (intro exI [where x = ?u1] exI [where x = ?u2] exI [where x = ?u3] exI [where x = ?u4] conjI)
  have chook: "hook_returning (Str ''code'') later (get_prop ?s1 0 ''transform'')
        (receiver (Obj 1) 1 0) [] ?s1 = (Returned (Str ''code''), ?s2)"
    by (rule example_hook_call) (simp add: timing_example_fields)
  have cm: "members_ref (Str ''code'') = None"
    by (simp add: members_ref_def)
  note cinst = async_continuation [where app = "hook_returning (Str ''code'') later" and this = "Obj 1"
      and args = "[]" and tp = 1, OF start chook stop]
  have cprem: "(\<forall>p'. Str ''code'' \<noteq> Promise p') \<and>
      (\<forall>r'. members_ref (Str ''code'') = Some r' \<longrightarrow> \<not> callable (get_prop ?s3 r' ''then''))"
    by (simp add: cm)
  note r8 = cinst [THEN conjunct2, THEN conjunct2, THEN conjunct1, THEN mp, OF cprem]
  have e4: "\<exists>s1 s2 s3.
      call_timeStart ''plugin 0 (p) - transform'' (Some 4) timing_example = Inr s1 \<and>
      hook_returning (Str ''code'') later (get_prop s1 0 ''transform'') (receiver (Obj 1) 1 0) [] s1 =
        (Returned (Str ''code''), s2) \<and>
      call_timeEnd ''plugin 0 (p) - transform'' (Some 4) s2 = Inr s3 \<and>
      call_TimedHook (hook_returning (Str ''code'') later) 0 ''transform''
        ''plugin 0 (p) - transform'' 1 (Obj 1) [] timing_example = (Returned (Str ''code''), s3)"
    using start chook stop r8
    by (intro exI [where x = ?s1] exI [where x = ?s2] exI [where x = ?s3] conjI)
  have noop: "timeStart example_state = NOOP" "timeEnd ?e2 = NOOP"
    "objects example_state 0 = example_plugin"
    by (simp_all add: example_state_def initial_state_def set_env_def)
  have nstart: "call_timeStart long_name (Some 4) example_state = Inr example_state"
    by (rule noop_calls(1) [OF noop(1)])
  have nhook: "hook_returning (Promise 0) later (get_prop example_state 0 ''transform'')
     (receiver (Obj 1) 1 0) [] example_state = (Returned (Promise 0), ?e2)"
    by (rule example_hook_call(1) [OF noop(3)])
  have nstop: "call_timeEnd long_name (Some 4) ?e2 = Inr ?e2"
    by (rule noop_calls(2) [OF noop(2)])
  note ninst = async_continuation [where app = "hook_returning (Promise 0) later" and this = "Obj 1"
      and args = "[]" and tp = 1 and p = 0, OF nstart nhook nstop]
  note r9 = ninst [THEN conjunct2, THEN conjunct1, THEN mp, OF disjI1 [OF refl], THEN conjunct1,
      THEN mp, OF long_lengths(2)]
  have lstart: "call_timeStart long_label (Some 4) timing_example = Inr ?l1"
    by (rule timing_start4_ok [OF timing_example_fields(1) _ long_lengths(3)])
       (simp add: timing_example_fields)
  have lhook: "hook_returning (Promise 0) later (get_prop ?l1 0 ''transform'')
        (receiver (Obj 1) 1 0) [] ?l1 = (Returned (Promise 0), ?l2)"
    by (rule example_hook_call) (simp add: timing_example_fields)
  have lstop: "call_timeEnd long_label (Some 4) ?l2 = Inr ?l3"
    by (rule timing_end4 [OF _ _ _ long_lengths(3)])
       (simp_all add: set_env_def timing_example_fields)
  have lastart: "call_timeStart (long_label @ '' (async)'') (Some 4) ?l3 = Inl RangeError"
    by (rule timing_start4_too_long [OF _ long_lengths(6)])
       (simp add: set_env_def timing_example_fields)
  note linst = async_continuation [where app = "hook_returning (Promise 0) later" and this = "Obj 1"
      and args = "[]" and tp = 1 and p = 0, OF lstart lhook lstop]
  note r10 = linst [THEN conjunct2, THEN conjunct1, THEN mp, OF disjI1 [OF refl], THEN conjunct2,
      THEN mp, OF conjI [OF long_lengths(4) lastart]]
  have e5: "\<exists>s1 s2 s3.
      call_timeStart long_label (Some 4) timing_example = Inr s1 \<and>
      hook_returning (Promise 0) later (get_prop s1 0 ''transform'') (receiver (Obj 1) 1 0) [] s1 =
        (Returned (Promise 0), s2) \<and>
      call_timeEnd long_label (Some 4) s2 = Inr s3 \<and>
      call_timeStart (long_label @ '' (async)'') (Some 4) s3 = Inl RangeError \<and>
      call_TimedHook (hook_returning (Promise 0) later) 0 ''transform'' long_label 1 (Obj 1) []
        timing_example = (Threw RangeError, s3)"
    using lstart lhook lstop lastart r10
    by (intro exI [where x = ?l1] exI [where x = ?l2] exI [where x = ?l3] conjI)
  from e1 fits q d e2 r5 r6 nm e3 cm e4 long_lengths(2) nstart nhook nstop r9 long_lengths(4) e5
  show ?thesis
    by (intro conjI)
qed


lemma tracing_fresh_eq:
  "tracing_fresh =
     (initial_state (node_host (1, 0) 100))
       \<lparr> getStartTime := StartHrtime, getElapsedTime := ElapsedHrtime, getMemory := MemoryHeapUsed,
         timeStart := F_timeStartTraceImpl, timeEnd := F_timeEndTraceImpl \<rparr>"
  by (simp add: tracing_fresh_def initialiseTimers_def Let_def setTimeHelpers_def
      initial_state_def node_host_def)

theorem tracing_start_idempotent_witness:
  "timeStart traced_build = F_timeStartTraceImpl \<and>
   spans traced_build ''hasOwnProperty'' = None \<and> spans traced_build ''build'' \<noteq> None \<and>
   call_timeStart ''build'' (Some 3) traced_build = Inr traced_build \<and>
   call_timeStart ''build'' (Some 3) traced_build = call_timeStart ''build'' (Some 7) traced_build \<and>
   timeStart tracing_fresh = F_timeStartTraceImpl \<and>
   spans tracing_fresh ''hasOwnProperty'' = None \<and>
   ''build'' \<noteq> ''__proto__'' \<and> ''build'' \<noteq> ''hasOwnProperty'' \<and>
   spans tracing_fresh ''build'' = None \<and>
   (\<exists>st1. call_timeStart ''build'' (Some 3) tracing_fresh = Inr st1 \<and>
      spans st1 ''build'' = Some 0 \<and>
      call_timeStart ''build'' (Some 7) st1 = Inr st1) \<and>
   (\<exists>st1. call_timeStart ''hasOwnProperty'' (Some 3) tracing_fresh = Inr st1 \<and>
      call_timeStart ''hasOwnProperty'' (Some 7) st1 = Inl TypeError) \<and>
   spans tracing_fresh ''__proto__'' = None \<and>
   (\<exists>st1 st2. call_timeStart ''__proto__'' (Some 3) tracing_fresh = Inr st1 \<and>
      call_timeStart ''__proto__'' (Some 7) st1 = Inr st2 \<and>
      spans_proto st1 = Some 0 \<and> spans_proto st2 = Some 1 \<and>
      length (tracer_calls st2) = 6) \<and>
   timeStart (tracing_fresh\<lparr> spans := [''hasOwnProperty'' \<mapsto> 0] \<rparr>) = F_timeStartTraceImpl \<and>
   spans (tracing_fresh\<lparr> spans := [''hasOwnProperty'' \<mapsto> 0] \<rparr>) ''hasOwnProperty'' \<noteq> None \<and>
   call_timeStart ''build'' (Some 3) (tracing_fresh\<lparr> spans := [''hasOwnProperty'' \<mapsto> 0] \<rparr>) =
     Inl TypeError \<and>
   getPersistedLabel ''build'' 1 = Inr ''# build'' \<and>
   getPersistedLabel ''build'' 4 = Inr ''- build'' \<and>
   (1::int) \<noteq> 4 \<and> ''# build'' \<noteq> ''- build'' \<and>
   timeStart (set_env much_later previous_activation) = F_timeStartImpl \<and>
   getPersistedLabel ''build'' (level_default (Some 3)) = Inr ''build'' \<and>
   timers (set_env much_later previous_activation) ''build'' =
     Some \<lparr> memory = 40, startMemory = 100, startTime = (1, 0), time = 5, totalMemory = 140 \<rparr> \<and>
   timers (set_env much_later previous_activation) ''hasOwnProperty'' = None \<and>
   call_timeStart ''build'' (Some 3) (set_env much_later previous_activation) =
     Inr ((set_env much_later previous_activation)
            \<lparr> timers := (timers (set_env much_later previous_activation))(''build'' \<mapsto>
                 \<lparr> memory = 40, startMemory = 130, startTime = (1, 12000000), time = 5,
                   totalMemory = 140 \<rparr>) \<rparr>)"
proof -
  let ?ts = "set_env much_later previous_activation"
  let ?t = "\<lparr> memory = 40, startMemory = 100, startTime = (1, 0), time = 5, totalMemory = 140 \<rparr>"
  let ?h = "tracing_fresh\<lparr> spans := [''hasOwnProperty'' \<mapsto> 0] \<rparr>"
  have tb: "timeStart traced_build = F_timeStartTraceImpl"
    "spans traced_build ''hasOwnProperty'' = None" "spans traced_build ''build'' \<noteq> None"
    unfolding traced_build_eq by simp_all
  have fr: "timeStart tracing_fresh = F_timeStartTraceImpl"
    "spans tracing_fresh ''hasOwnProperty'' = None"
    "spans tracing_fresh ''build'' = None" "spans tracing_fresh ''__proto__'' = None"
    "next_span tracing_fresh = 0" "tracer_calls tracing_fresh = []"
    unfolding tracing_fresh_eq by (simp_all add: initial_state_def)
  have hh: "timeStart ?h = F_timeStartTraceImpl" "spans ?h ''hasOwnProperty'' \<noteq> None"
    using fr(1) by simp_all
  have ne: "''build'' \<noteq> ''__proto__''" "''build'' \<noteq> ''hasOwnProperty''"
    "''hasOwnProperty'' = ''hasOwnProperty''" "''__proto__'' = ''__proto__''"
    by simp_all
  have lv: "getPersistedLabel ''build'' 1 = Inr ''# build''"
    "getPersistedLabel ''build'' 4 = Inr ''- build''" "(1::int) \<noteq> 4"
    by (simp_all add: getPersistedLabel_def template_def repeat_str_def max_string_length_def)
  have ts: "timeStart ?ts = F_timeStartImpl"
    "getPersistedLabel ''build'' (level_default (Some 3)) = Inr ''build''"
    "timers ?ts ''build'' = Some ?t" "timers ?ts ''hasOwnProperty'' = None"
    "call_getStartTime ?ts = (1, 12000000)" "call_getMemory ?ts = 130"
    unfolding previous_activation_eq
    by (simp_all add: set_env_def getPersistedLabel_def level_default_def much_later_def
        node_host_def call_getStartTime_def call_getMemory_def)
  note a = tracing_start_idempotent [OF tb(1), where label = "''build''" and level = "Some 3"
      and level' = "Some 7"]
  note b = tracing_start_idempotent [OF fr(1), where label = "''build''" and level = "Some 3"
      and level' = "Some 7" and ?l1.0 = 1 and ?l2.0 = 4 and ?k1.0 = "''# build''"
      and ?k2.0 = "''- build''" and ts = ?ts and key = "''build''" and t = ?t]
  note c = tracing_start_idempotent [OF fr(1), where label = "''hasOwnProperty''"
      and level = "Some 3" and level' = "Some 7"]
  note d = tracing_start_idempotent [OF fr(1), where label = "''__proto__''"
      and level = "Some 3" and level' = "Some 7"]
  note e = tracing_start_idempotent [OF hh(1), where label = "''build''" and level = "Some 3"]
  note a1 = a [THEN conjunct2, THEN conjunct1, THEN mp, OF conjI [OF tb(2) tb(3)]]
  note a2 = a [THEN conjunct2, THEN conjunct2, THEN conjunct1]
  from b [THEN conjunct2, THEN conjunct2, THEN conjunct2, THEN conjunct1, THEN mp,
      OF conjI [OF fr(2) conjI [OF ne(1) ne(2)]]]
  obtain st1 where
    b1: "call_timeStart ''build'' (Some 3) tracing_fresh = Inr st1"
    and b0: "spans st1 ''build'' \<noteq> None"
    and b2: "call_timeStart ''build'' (Some 7) st1 = Inr st1"
    and b3: "spans tracing_fresh ''build'' = None \<longrightarrow>
               spans st1 = (spans tracing_fresh)(''build'' \<mapsto> next_span tracing_fresh) \<and>
               tracer_calls st1 = tracer_calls tracing_fresh @
                 [StartSpan ''build'' (next_span tracing_fresh),
                  SetAttributes (next_span tracing_fresh)
                    [(''memory'', Num 0), (''startMemory'', Undefined),
                     (''endMemory'', Undefined), (''totalMemory'', Num 0)],
                  SetAttribute (next_span tracing_fresh) ''startMemory''
                    (Num (call_getMemory tracing_fresh))]"
    by (elim exE conjE) (rule that, assumption+)
  from b3 fr have b4: "spans st1 ''build'' = Some 0" by simp
  from b1 b4 b2 have ex: "\<exists>st1. call_timeStart ''build'' (Some 3) tracing_fresh = Inr st1 \<and>
      spans st1 ''build'' = Some 0 \<and> call_timeStart ''build'' (Some 7) st1 = Inr st1"
    by (intro exI [of _ st1] conjI)
  note c1 = c [THEN conjunct2, THEN conjunct2, THEN conjunct2, THEN conjunct2, THEN conjunct1,
      THEN mp, OF conjI [OF fr(2) ne(3)]]
  from d [THEN conjunct2, THEN conjunct2, THEN conjunct2, THEN conjunct2, THEN conjunct2,
      THEN conjunct1, THEN mp, OF conjI [OF fr(2) conjI [OF ne(4) fr(4)]]]
  obtain p1 p2 where
    d1: "call_timeStart ''__proto__'' (Some 3) tracing_fresh = Inr p1"
    and d2: "call_timeStart ''__proto__'' (Some 7) p1 = Inr p2"
    and d3: "spans_proto p1 = Some (next_span tracing_fresh)"
    and d4: "spans_proto p2 = Some (Suc (next_span tracing_fresh))"
    and d5: "length (tracer_calls p2) = length (tracer_calls tracing_fresh) + 6"
    by (elim exE conjE) (rule that, assumption+)
  from d1 d2 d3 d4 d5 fr(5,6)
  have dx: "\<exists>st1 st2. call_timeStart ''__proto__'' (Some 3) tracing_fresh = Inr st1 \<and>
      call_timeStart ''__proto__'' (Some 7) st1 = Inr st2 \<and>
      spans_proto st1 = Some 0 \<and> spans_proto st2 = Some 1 \<and>
      length (tracer_calls st2) = 6"
    by (intro exI [of _ p1] exI [of _ p2]) simp
  note e1 = e [THEN conjunct1, THEN mp, OF hh(2)]
  from b [THEN conjunct2, THEN conjunct2, THEN conjunct2, THEN conjunct2, THEN conjunct2,
      THEN conjunct2, THEN conjunct1, THEN mp, OF conjI [OF lv(1) conjI [OF lv(2) lv(3)]]]
  have k: "''# build'' \<noteq> ''- build''" .
  from b [THEN conjunct2, THEN conjunct2, THEN conjunct2, THEN conjunct2, THEN conjunct2,
      THEN conjunct2, THEN conjunct2, THEN mp,
      OF conjI [OF ts(1) conjI [OF ts(2) conjI [OF ts(3) ts(4)]]]]
  have "call_timeStart ''build'' (Some 3) ?ts =
     Inr (?ts\<lparr> timers := (timers ?ts)(''build'' \<mapsto>
            ?t\<lparr> startTime := call_getStartTime ?ts, startMemory := call_getMemory ?ts \<rparr>) \<rparr>)" .
  then have r: "call_timeStart ''build'' (Some 3) ?ts =
     Inr (?ts\<lparr> timers := (timers ?ts)(''build'' \<mapsto>
                 \<lparr> memory = 40, startMemory = 130, startTime = (1, 12000000), time = 5,
                   totalMemory = 140 \<rparr>) \<rparr>)"
    by (simp add: ts(5,6))
  show ?thesis
    using tb a1 a2 fr(1,2) ne(1,2) fr(3) ex c1 fr(4) dx hh e1 lv k ts(1,2,3,4) r
    by (intro conjI) assumption+
qed

end
